theory Spec2Isabelle
  imports Complex_Main "HOL-Library.AList" "HOL-Library.Log_Nat"
begin

section \<open>JavaScript primitives used by the pipeline\<close>

text \<open>
  Numbers are modelled as rationals: the finite values of the source's
  \<^verbatim>\<open>number\<close> type.  The normalizer, the validator and the serializer are
  first given with their arithmetic carried out exactly; the normalizer and
  the validator are then given again with every operation rounded to a
  double, as the source computes it (section on the arithmetic in binary64).
  What is stated of rounding, of a second normalization and of the thresholds
  of the totals checks is stated of the latter.  Optional fields
  (\<^verbatim>\<open>field?: T\<close>) are options, \<open>None\<close> standing for \<^verbatim>\<open>undefined\<close>; the declared
  types of \<^verbatim>\<open>src/types/invoice.ts\<close> are followed.
\<close>

text \<open>\<^verbatim>\<open>Math.round\<close>: the nearest integer, a tie going towards plus infinity.\<close>

definition math_round :: "rat \<Rightarrow> int" where
  "math_round x = \<lfloor>x + 1 / 2\<rfloor>"

text \<open>
  \<^verbatim>\<open>roundTo2Decimals\<close> (normalize.ts): \<^verbatim>\<open>Math.round(value * 100) / 100\<close>, in
  exact arithmetic.
\<close>

definition roundTo2Decimals :: "rat \<Rightarrow> rat" where
  "roundTo2Decimals v = of_int (math_round (v * 100)) / 100"

text \<open>
  The rounding rule as the specification words it: the nearest multiple of
  one hundredth, a tie going away from zero.
\<close>

definition roundHalfAwayFromZero2 :: "rat \<Rightarrow> rat" where
  "roundHalfAwayFromZero2 v = sgn v * of_int \<lfloor>\<bar>v\<bar> * 100 + 1 / 2\<rfloor> / 100"

text \<open>Truthiness of an optional number: present and not zero.\<close>

definition truthyNum :: "rat option \<Rightarrow> bool" where
  "truthyNum x = (case x of None \<Rightarrow> False | Some v \<Rightarrow> v \<noteq> 0)"

text \<open>\<^verbatim>\<open>x || d\<close> on an optional number.\<close>

definition numOr :: "rat option \<Rightarrow> rat \<Rightarrow> rat" where
  "numOr x d = (case x of None \<Rightarrow> d | Some v \<Rightarrow> if v = 0 then d else v)"

text \<open>Truthiness of an optional string: present and not empty.\<close>

definition truthyStr :: "string option \<Rightarrow> bool" where
  "truthyStr x = (case x of None \<Rightarrow> False | Some s \<Rightarrow> s \<noteq> [])"

text \<open>\<^verbatim>\<open>a || b\<close> on optional strings.\<close>

definition strOr :: "string option \<Rightarrow> string option \<Rightarrow> string option" where
  "strOr a b = (if truthyStr a then a else b)"

text \<open>
  Strings are lists of 8-bit characters.  White space (\<^verbatim>\<open>\s\<close>, \<^verbatim>\<open>trim\<close>) is
  the ASCII part of the JavaScript class: space, tab, line feed, vertical tab,
  form feed and carriage return.
\<close>

definition isSpace :: "char \<Rightarrow> bool" where
  "isSpace c = (let n = (of_char c :: nat) in n = 32 \<or> (9 \<le> n \<and> n \<le> 13))"

definition isDigit :: "char \<Rightarrow> bool" where
  "isDigit c = (let n = (of_char c :: nat) in 48 \<le> n \<and> n \<le> 57)"

definition isUpperAZ :: "char \<Rightarrow> bool" where
  "isUpperAZ c = (let n = (of_char c :: nat) in 65 \<le> n \<and> n \<le> 90)"

definition upperChar :: "char \<Rightarrow> char" where
  "upperChar c = (let n = (of_char c :: nat) in
     if 97 \<le> n \<and> n \<le> 122 then char_of (n - 32) else c)"

text \<open>\<^verbatim>\<open>s.toUpperCase()\<close> on ASCII letters.\<close>

definition toUpperCase :: "string \<Rightarrow> string" where
  "toUpperCase s = map upperChar s"

text \<open>\<^verbatim>\<open>s.replace(/\s/g, '')\<close>.\<close>

definition removeWhitespace :: "string \<Rightarrow> string" where
  "removeWhitespace s = filter (\<lambda>c. \<not> isSpace c) s"

text \<open>\<^verbatim>\<open>s.trim()\<close>.\<close>

definition trim :: "string \<Rightarrow> string" where
  "trim s = rev (dropWhile isSpace (rev (dropWhile isSpace s)))"

text \<open>\<^verbatim>\<open>!s || s.trim() === ''\<close> on an optional string.\<close>

definition blankStr :: "string option \<Rightarrow> bool" where
  "blankStr x = (case x of None \<Rightarrow> True | Some s \<Rightarrow> s = [] \<or> trim s = [])"

text \<open>Decimal rendering of a natural number (\<^verbatim>\<open>String(n)\<close>).\<close>

definition digitChar :: "nat \<Rightarrow> char" where
  "digitChar d = char_of (48 + d)"

function showNat :: "nat \<Rightarrow> string" where
  "showNat n = (if n < 10 then [digitChar n] else showNat (n div 10) @ [digitChar (n mod 10)])"
  by pat_completeness auto
termination
  by (relation "measure id") auto

definition showInt :: "int \<Rightarrow> string" where
  "showInt i = (if i < 0 then CHR ''-'' # showNat (nat (- i)) else showNat (nat i))"

text \<open>\<^verbatim>\<open>s.padStart(2, '0')\<close>.\<close>

definition padStart2 :: "string \<Rightarrow> string" where
  "padStart2 s = replicate (2 - length s) CHR ''0'' @ s"

section \<open>Data model (types/invoice.ts)\<close>

text \<open>
  A \<^verbatim>\<open>Date\<close> object is its time value in milliseconds, \<open>None\<close> for an
  invalid date (time value NaN).
\<close>

type_synonym jsdate = "int option"

record address =
  street :: "string option"
  city :: "string option"
  postalCode :: "string option"
  countryCode :: "string option"
  country :: "string option"

record party =
  name :: "string option"
  address :: "address option"
  vatNumber :: "string option"
  kboNumber :: "string option"
  taxRegistrationId :: "string option"

record invoiceLine =
  description :: "string option"
  quantity :: "rat option"
  unitPrice :: "rat option"
  unitOfMeasure :: "string option"
  vatRate :: "rat option"
  vatCategory :: "string option"
  lineTotal :: "rat option"
  confidence :: "rat option"
  source :: "string option"

datatype sourceKind = Pdf | Xlsx

text \<open>
  \<^verbatim>\<open>InvoiceNormalized\<close>.  The type parameter is what the \<^verbatim>\<open>supplier\<close> and
  \<^verbatim>\<open>customer\<close> fields hold: a \<^typ>\<open>party\<close> when an invoice is read by value,
  an object reference when the sharing of the party objects matters.
\<close>

record 'p invoice =
  invoiceNumber :: "string option"
  issueDate :: "jsdate option"
  dueDate :: "jsdate option"
  currency :: "string option"
  supplier :: "'p option"
  customer :: "'p option"
  paymentReference :: "string option"
  iban :: "string option"
  bic :: "string option"
  lines :: "invoiceLine list"
  subtotalExclVat :: "rat option"
  vatTotal :: "rat option"
  totalInclVat :: "rat option"
  sourceType :: "sourceKind option"
  sourceFile :: "string option"
  extractionConfidence :: "rat option"

type_synonym invoiceNormalized = "party invoice"

section \<open>Normalizer (mapping/normalize.ts)\<close>

text \<open>\<^verbatim>\<open>/^[A-Z]{2}/.test(s)\<close>.\<close>

definition hasCountryPrefix :: "string \<Rightarrow> bool" where
  "hasCountryPrefix s = (case s of a # b # _ \<Rightarrow> isUpperAZ a \<and> isUpperAZ b | _ \<Rightarrow> False)"

text \<open>\<^verbatim>\<open>/^\d{10}$/.test(s)\<close>.\<close>

definition isTenDigits :: "string \<Rightarrow> bool" where
  "isTenDigits s = (length s = 10 \<and> list_all isDigit s)"

text \<open>\<^verbatim>\<open>/^\d{9}B\d{2}$/.test(s)\<close>.\<close>

definition isDutchShape :: "string \<Rightarrow> bool" where
  "isDutchShape s = (length s = 12 \<and> list_all isDigit (take 9 s) \<and>
     s ! 9 = CHR ''B'' \<and> list_all isDigit (drop 10 s))"

definition normalizeVATNumber :: "string \<Rightarrow> string" where
  "normalizeVATNumber vat =
     (let normalized = toUpperCase (removeWhitespace vat) in
      if \<not> hasCountryPrefix normalized then
        (if isTenDigits normalized then ''BE'' @ normalized
         else if isDutchShape normalized then ''NL'' @ normalized
         else normalized)
      else normalized)"

definition normalizeIBAN :: "string \<Rightarrow> string" where
  "normalizeIBAN s = toUpperCase (removeWhitespace s)"

text \<open>
  \<^verbatim>\<open>normalizeLine\<close>: works on a spread copy of the line.  After the first
  step the quantity is always defined, so the guard of the second step is
  \<^verbatim>\<open>unitPrice !== undefined\<close>.
\<close>

definition normalizeLine :: "invoiceLine \<Rightarrow> invoiceLine" where
  "normalizeLine line =
     (let n1 = (case quantity line of None \<Rightarrow> line\<lparr>quantity := Some 1\<rparr> | Some _ \<Rightarrow> line);
          n2 = (case (unitPrice n1, quantity n1) of
                  (Some p, Some q) \<Rightarrow>
                    (case lineTotal n1 of
                       None \<Rightarrow> n1\<lparr>lineTotal := Some (roundTo2Decimals (p * q))\<rparr>
                     | Some _ \<Rightarrow> n1)
                | _ \<Rightarrow> n1);
          n3 = (case vatRate n2 of
                  Some r \<Rightarrow>
                    (let m = n2\<lparr>vatRate := Some (roundTo2Decimals r)\<rparr> in
                     if \<not> truthyStr (vatCategory m) then m\<lparr>vatCategory := Some ''S''\<rparr> else m)
                | None \<Rightarrow> n2);
          n4 = (if \<not> truthyStr (unitOfMeasure n3) then n3\<lparr>unitOfMeasure := Some ''C62''\<rparr> else n3)
      in n4)"

text \<open>The two \<^verbatim>\<open>reduce\<close> folds shared by the normalizer, validator and serializer.\<close>

definition sumLineTotals :: "invoiceLine list \<Rightarrow> rat" where
  "sumLineTotals ls = foldl (\<lambda>sum line. sum + numOr (lineTotal line) 0) 0 ls"

text \<open>The normalizer's VAT total: the exact per-line amounts are added.\<close>

definition sumVatExact :: "invoiceLine list \<Rightarrow> rat" where
  "sumVatExact ls = foldl (\<lambda>sum line.
       if truthyNum (lineTotal line) \<and> truthyNum (vatRate line)
       then sum + (the (lineTotal line) * the (vatRate line)) / 100
       else sum) 0 ls"

text \<open>\<^verbatim>\<open>calculateTotals\<close>: updates the (fresh) invoice record it is given.\<close>

definition calculateTotals :: "'p invoice \<Rightarrow> 'p invoice" where
  "calculateTotals iv =
     (let i1 = (if lines iv \<noteq> [] then
                  (case subtotalExclVat iv of
                     None \<Rightarrow> iv\<lparr>subtotalExclVat := Some (roundTo2Decimals (sumLineTotals (lines iv)))\<rparr>
                   | Some _ \<Rightarrow> iv)
                else iv);
          i2 = (if lines i1 \<noteq> [] \<and> vatTotal i1 = None
                then i1\<lparr>vatTotal := Some (roundTo2Decimals (sumVatExact (lines i1)))\<rparr>
                else i1);
          i3 = (case (subtotalExclVat i2, vatTotal i2) of
                  (Some s, Some v) \<Rightarrow>
                    (case totalInclVat i2 of
                       None \<Rightarrow> i2\<lparr>totalInclVat := Some (roundTo2Decimals (s + v))\<rparr>
                     | Some _ \<Rightarrow> i2)
                | _ \<Rightarrow> i2)
      in i3)"


text \<open>
  The steps of \<^verbatim>\<open>normalizeInvoice\<close> that touch the top-level record only.
  The record is the spread copy \<^verbatim>\<open>{ ...invoice }\<close>, so updating it leaves the
  caller's record alone.  The two date steps replace a date that is not a
  \<^verbatim>\<open>Date\<close> instance by \<^verbatim>\<open>new Date(...)\<close>; every present value of the declared
  type \<^verbatim>\<open>Date\<close> is an instance, so they change nothing here.
\<close>

definition normalizeCurrency :: "'p invoice \<Rightarrow> 'p invoice" where
  "normalizeCurrency x =
     (let n = (if \<not> truthyStr (currency x) then x\<lparr>currency := Some ''EUR''\<rparr> else x)
      in n\<lparr>currency := map_option toUpperCase (currency n)\<rparr>)"

definition normalizeIbanField :: "'p invoice \<Rightarrow> 'p invoice" where
  "normalizeIbanField x =
     (if truthyStr (iban x) then x\<lparr>iban := map_option normalizeIBAN (iban x)\<rparr> else x)"

definition normalizeLines :: "'p invoice \<Rightarrow> 'p invoice" where
  "normalizeLines x = x\<lparr>lines := map normalizeLine (lines x)\<rparr>"

text \<open>
  \<^verbatim>\<open>if (p?.vatNumber) p.vatNumber = normalizeVATNumber(p.vatNumber)\<close> on a party
  value.
\<close>

definition normalizePartyVat :: "party \<Rightarrow> party" where
  "normalizePartyVat p =
     (if truthyStr (vatNumber p)
      then p\<lparr>vatNumber := map_option normalizeVATNumber (vatNumber p)\<rparr> else p)"

text \<open>
  The store: party objects live at references.  The spread copy of the
  invoice copies the references, not the party objects, so the assignment to
  \<^verbatim>\<open>normalized.supplier.vatNumber\<close> writes to the object the argument also
  points to.
\<close>

type_synonym ref = nat
type_synonym store = "ref \<Rightarrow> party option"

definition assignVat :: "store \<Rightarrow> ref option \<Rightarrow> store" where
  "assignVat h r =
     (case r of
        None \<Rightarrow> h
      | Some a \<Rightarrow> (case h a of None \<Rightarrow> h | Some p \<Rightarrow> h(a \<mapsto> normalizePartyVat p)))"

text \<open>
  \<^verbatim>\<open>normalizeInvoice\<close> on the store: the returned record and the store after
  the call.
\<close>

definition normalizeInvoiceStore :: "store \<Rightarrow> ref invoice \<Rightarrow> ref invoice \<times> store" where
  "normalizeInvoiceStore h x =
     (let n1 = normalizeCurrency x;
          h1 = assignVat h (supplier n1);
          h2 = assignVat h1 (customer n1);
          n2 = normalizeIbanField n1;
          n3 = normalizeLines n2;
          n4 = calculateTotals n3
      in (n4, h2))"

text \<open>Reading an invoice by value: its references are followed in the store.\<close>

definition deref :: "store \<Rightarrow> ref invoice \<Rightarrow> invoiceNormalized" where
  "deref h x =
     \<lparr>invoiceNumber = invoiceNumber x, issueDate = issueDate x, dueDate = dueDate x,
      currency = currency x,
      supplier = (case supplier x of None \<Rightarrow> None | Some a \<Rightarrow> h a),
      customer = (case customer x of None \<Rightarrow> None | Some a \<Rightarrow> h a),
      paymentReference = paymentReference x, iban = iban x, bic = bic x,
      lines = lines x, subtotalExclVat = subtotalExclVat x, vatTotal = vatTotal x,
      totalInclVat = totalInclVat x, sourceType = sourceType x,
      sourceFile = sourceFile x, extractionConfidence = extractionConfidence x\<rparr>"

text \<open>\<^verbatim>\<open>normalizeInvoice\<close> as a function on invoice values: what the result reads as.\<close>

definition normalizeInvoice :: "invoiceNormalized \<Rightarrow> invoiceNormalized" where
  "normalizeInvoice x =
     (let n1 = normalizeCurrency x;
          n2 = n1\<lparr>supplier := map_option normalizePartyVat (supplier n1)\<rparr>;
          n3 = n2\<lparr>customer := map_option normalizePartyVat (customer n2)\<rparr>;
          n4 = normalizeIbanField n3;
          n5 = normalizeLines n4;
          n6 = calculateTotals n5
      in n6)"

section \<open>Business-rule validator (validation/rules.ts) and the XSD stub\<close>

datatype severity = Error | Warning

text \<open>
  \<^verbatim>\<open>ValidationError\<close>: the code, the severity and the field path.  The two
  message texts and the suggested fix are display strings that no check reads;
  they are left out.
\<close>

record validationError =
  code :: string
  severity :: severity
  fieldPath :: "string option"

record validationReport =
  errors :: "validationError list"
  warnings :: "validationError list"
  isValid :: bool

definition finding :: "string \<Rightarrow> severity \<Rightarrow> string \<Rightarrow> validationError" where
  "finding c s p = \<lparr>code = c, severity = s, fieldPath = Some p\<rparr>"

definition checkInvoiceId :: "invoiceNormalized \<Rightarrow> validationError list" where
  "checkInvoiceId x =
     (if blankStr (invoiceNumber x)
      then [finding ''WARN_MISSING_INVOICE_ID'' Warning ''Invoice.ID''] else [])"

text \<open>The argument \<open>now\<close> is the time value of \<^verbatim>\<open>new Date()\<close>.\<close>

definition checkIssueDate :: "int \<Rightarrow> invoiceNormalized \<Rightarrow> validationError list" where
  "checkIssueDate now x =
     (case issueDate x of
        None \<Rightarrow> [finding ''WARN_MISSING_ISSUE_DATE'' Warning ''Invoice.IssueDate'']
      | Some d \<Rightarrow>
          (case d of
             None \<Rightarrow> [finding ''ERR_INVALID_ISSUE_DATE'' Error ''Invoice.IssueDate'']
           | Some t \<Rightarrow>
               if t > now
               then [finding ''ERR_FUTURE_ISSUE_DATE'' Warning ''Invoice.IssueDate'']
               else []))"

definition partyName :: "party option \<Rightarrow> string option" where
  "partyName p = (case p of None \<Rightarrow> None | Some q \<Rightarrow> name q)"

definition partyAddress :: "party option \<Rightarrow> address option" where
  "partyAddress p = (case p of None \<Rightarrow> None | Some q \<Rightarrow> address q)"

definition partyCountryCode :: "party option \<Rightarrow> string option" where
  "partyCountryCode p = (case partyAddress p of None \<Rightarrow> None | Some a \<Rightarrow> countryCode a)"

definition partyVatNumber :: "party option \<Rightarrow> string option" where
  "partyVatNumber p = (case p of None \<Rightarrow> None | Some q \<Rightarrow> vatNumber q)"

definition checkSupplierName :: "invoiceNormalized \<Rightarrow> validationError list" where
  "checkSupplierName x =
     (if blankStr (partyName (supplier x))
      then [finding ''WARN_MISSING_SUPPLIER_NAME'' Warning
              ''Invoice.AccountingSupplierParty.Party.PartyName.Name'']
      else [])"

definition checkSupplierCountry :: "invoiceNormalized \<Rightarrow> validationError list" where
  "checkSupplierCountry x =
     (if \<not> truthyStr (partyCountryCode (supplier x))
      then [finding ''WARN_MISSING_SUPPLIER_COUNTRY'' Warning
              ''Invoice.AccountingSupplierParty.Party.PostalAddress.Country.IdentificationCode'']
      else [])"

definition checkCustomerName :: "invoiceNormalized \<Rightarrow> validationError list" where
  "checkCustomerName x =
     (if blankStr (partyName (customer x))
      then [finding ''WARN_MISSING_CUSTOMER_NAME'' Warning
              ''Invoice.AccountingCustomerParty.Party.PartyName.Name'']
      else [])"

definition checkHasLines :: "invoiceNormalized \<Rightarrow> validationError list" where
  "checkHasLines x =
     (if lines x = []
      then [finding ''WARN_NO_INVOICE_LINES'' Warning ''Invoice.InvoiceLine''] else [])"

text \<open>The body of the \<^verbatim>\<open>forEach\<close> over the lines, for the line at \<open>index\<close>.\<close>

definition checkLine :: "nat \<Rightarrow> invoiceLine \<Rightarrow> validationError list" where
  "checkLine index line =
     (let linePath = ''InvoiceLine['' @ showNat index @ '']'' in
      (if blankStr (description line)
       then [finding ''WARN_MISSING_LINE_DESCRIPTION'' Warning (linePath @ ''.Item.Description'')]
       else [])
      @
      (case (quantity line, unitPrice line, lineTotal line) of
         (Some q, Some p, Some t) \<Rightarrow>
           (let calculatedTotal = roundTo2Decimals (numOr (Some q) 0 * numOr (Some p) 0);
                actualTotal = roundTo2Decimals t;
                difference = \<bar>calculatedTotal - actualTotal\<bar>
            in if difference > 1 / 100
               then [finding ''ERR_INVALID_LINE_AMOUNT'' Error (linePath @ ''.LineExtensionAmount'')]
               else [])
       | _ \<Rightarrow> []))"

definition checkLines :: "invoiceNormalized \<Rightarrow> validationError list" where
  "checkLines x = concat (map (\<lambda>(index, line). checkLine index line) (enumerate 0 (lines x)))"

text \<open>The validator's VAT total: each line's amount is rounded before it is added.\<close>

definition sumVatRounded :: "invoiceLine list \<Rightarrow> rat" where
  "sumVatRounded ls = foldl (\<lambda>sum line.
       if truthyNum (lineTotal line) \<and> truthyNum (vatRate line)
       then sum + roundTo2Decimals ((the (lineTotal line) * the (vatRate line)) / 100)
       else sum) 0 ls"

definition checkSubtotal :: "invoiceNormalized \<Rightarrow> validationError list" where
  "checkSubtotal x =
     (let calculatedSubtotal = sumLineTotals (lines x) in
      case subtotalExclVat x of
        Some s \<Rightarrow>
          if \<bar>calculatedSubtotal - s\<bar> > 1 / 100
          then [finding ''ERR_INVALID_SUBTOTAL'' Error ''Invoice.LegalMonetaryTotal.TaxExclusiveAmount'']
          else []
      | None \<Rightarrow> [])"

definition checkVatTotal :: "invoiceNormalized \<Rightarrow> validationError list" where
  "checkVatTotal x =
     (let calculatedVatTotal = sumVatRounded (lines x) in
      case vatTotal x of
        Some v \<Rightarrow>
          if calculatedVatTotal > 0 \<and> \<bar>calculatedVatTotal - v\<bar> > 1 / 100
          then [finding ''ERR_INVALID_VAT_TOTAL'' Error ''Invoice.TaxTotal.TaxAmount'']
          else []
      | None \<Rightarrow> [])"

definition checkTotalInclVat :: "invoiceNormalized \<Rightarrow> validationError list" where
  "checkTotalInclVat x =
     (case (subtotalExclVat x, vatTotal x, totalInclVat x) of
        (Some s, Some v, Some t) \<Rightarrow>
          (let calculatedTotal = roundTo2Decimals (s + v);
               actualTotal = roundTo2Decimals t
           in if \<bar>calculatedTotal - actualTotal\<bar> > 1 / 100
              then [finding ''ERR_INVALID_TOTAL'' Error ''Invoice.LegalMonetaryTotal.TaxInclusiveAmount'']
              else [])
      | _ \<Rightarrow> [])"

definition checkTotals :: "invoiceNormalized \<Rightarrow> validationError list" where
  "checkTotals x =
     (if lines x \<noteq> [] then checkSubtotal x @ checkVatTotal x @ checkTotalInclVat x else [])"

datatype partyRole = SupplierRole | CustomerRole

definition vatFieldPath :: "partyRole \<Rightarrow> string" where
  "vatFieldPath r = ''Invoice.Accounting''
       @ (case r of SupplierRole \<Rightarrow> ''Supplier'' | CustomerRole \<Rightarrow> ''Customer'')
       @ ''Party.Party.PartyTaxScheme.CompanyID''"

definition startsWith :: "string \<Rightarrow> string \<Rightarrow> bool" where
  "startsWith s p = (take (length p) s = p)"

definition validateVATNumberFormat :: "string \<Rightarrow> partyRole \<Rightarrow> validationError option" where
  "validateVATNumberFormat vat r =
     (let normalized = toUpperCase (removeWhitespace vat) in
      if startsWith normalized ''BE'' \<and> \<not> isTenDigits (drop 2 normalized)
      then Some (finding ''ERR_INVALID_VAT_FORMAT'' Error (vatFieldPath r))
      else if startsWith normalized ''NL'' \<and> \<not> isDutchShape (drop 2 normalized)
      then Some (finding ''ERR_INVALID_VAT_FORMAT'' Error (vatFieldPath r))
      else None)"

definition checkVatNumber :: "party option \<Rightarrow> partyRole \<Rightarrow> validationError list" where
  "checkVatNumber p r =
     (case partyVatNumber p of
        Some v \<Rightarrow>
          if v \<noteq> [] then (case validateVATNumberFormat v r of Some e \<Rightarrow> [e] | None \<Rightarrow> [])
          else []
      | None \<Rightarrow> [])"

definition checkCurrency :: "invoiceNormalized \<Rightarrow> validationError list" where
  "checkCurrency x =
     (case currency x of
        Some c \<Rightarrow>
          if c \<noteq> [] \<and> c \<noteq> ''EUR''
          then [finding ''WARN_NON_EUR_CURRENCY'' Warning ''Invoice.DocumentCurrencyCode'']
          else []
      | None \<Rightarrow> [])"

text \<open>\<^verbatim>\<open>validateBusinessRules\<close>: the checks push their findings in this order.\<close>

definition validateBusinessRules :: "int \<Rightarrow> invoiceNormalized \<Rightarrow> validationError list" where
  "validateBusinessRules now x =
     checkInvoiceId x @ checkIssueDate now x @ checkSupplierName x @ checkSupplierCountry x
     @ checkCustomerName x @ checkHasLines x @ checkLines x @ checkTotals x
     @ checkVatNumber (supplier x) SupplierRole @ checkVatNumber (customer x) CustomerRole
     @ checkCurrency x"

definition buildValidationReport :: "validationError list \<Rightarrow> validationReport" where
  "buildValidationReport errs =
     (let reportErrors = filter (\<lambda>e. severity e = Error) errs;
          warns = filter (\<lambda>e. severity e = Warning) errs
      in \<lparr>errors = reportErrors, warnings = warns, isValid = (length reportErrors = 0)\<rparr>)"

text \<open>\<^verbatim>\<open>validateXSD\<close> (validation/xsd.ts): the argument is not read.\<close>

definition validateXSD :: "string \<Rightarrow> validationError list" where
  "validateXSD xml = [finding ''INFO_XSD_VALIDATION_SKIPPED'' Warning ''Invoice'']"

text \<open>
  The validation step of the convert handler: the findings of the business
  rules, of the data-quality checks and of the XSD stub are concatenated and
  turned into the report.
\<close>

definition conversionReport ::
  "validationError list \<Rightarrow> validationError list \<Rightarrow> string \<Rightarrow> validationReport" where
  "conversionReport businessRuleErrors dataQualityErrors ublXml =
     (let xsdWarnings = validateXSD ublXml;
          allValidationErrors = businessRuleErrors @ dataQualityErrors @ xsdWarnings
      in buildValidationReport allValidationErrors)"

section \<open>AI enhancer: merging (parser/ai.ts)\<close>

text \<open>
  The parsed AI response is untyped in the source; it is modelled by the
  fields the merge reads.  \<open>None\<close> stands for a field that is absent or
  \<^verbatim>\<open>null\<close>; dates arrive as strings.
\<close>

record aiResponse =
  ai_invoiceNumber :: "string option"
  ai_issueDate :: "string option"
  ai_dueDate :: "string option"
  ai_currency :: "string option"
  ai_supplier :: "party option"
  ai_customer :: "party option"
  ai_lines :: "invoiceLine list option"
  ai_subtotalExclVat :: "rat option"
  ai_vatTotal :: "rat option"
  ai_totalInclVat :: "rat option"
  ai_iban :: "string option"
  ai_paymentReference :: "string option"

text \<open>
  The regular expressions of \<^verbatim>\<open>parseDate\<close> are sequences of digit groups
  (each captured) and literal characters, searched for anywhere in the string;
  the leftmost match wins.
\<close>

datatype token = Digits nat | Lit char

fun matchHere :: "token list \<Rightarrow> string \<Rightarrow> string list option" where
  "matchHere [] s = Some []"
| "matchHere (Lit c # ts) s =
     (case s of [] \<Rightarrow> None | d # r \<Rightarrow> if d = c then matchHere ts r else None)"
| "matchHere (Digits n # ts) s =
     (if n \<le> length s \<and> list_all isDigit (take n s)
      then map_option ((#) (take n s)) (matchHere ts (drop n s))
      else None)"

fun search :: "token list \<Rightarrow> string \<Rightarrow> string list option" where
  "search ts [] = matchHere ts []"
| "search ts (c # cs) =
     (case matchHere ts (c # cs) of Some m \<Rightarrow> Some m | None \<Rightarrow> search ts cs)"

definition isoFormat :: "token list" where
  "isoFormat = [Digits 4, Lit CHR ''-'', Digits 2, Lit CHR ''-'', Digits 2]"

definition dmyFormat :: "char \<Rightarrow> token list" where
  "dmyFormat sep = [Digits 2, Lit sep, Digits 2, Lit sep, Digits 4]"

text \<open>
  \<^verbatim>\<open>parseDate\<close>.  The argument \<open>dateCtor\<close> is \<^verbatim>\<open>new Date(string)\<close>; its result
  \<open>None\<close> is an invalid date.  The result of \<^verbatim>\<open>parseDate\<close> is \<open>None\<close> for
  \<^verbatim>\<open>undefined\<close>.  When the string as a whole is not a date but a pattern
  matches, the date built from the match is returned whether valid or not.
\<close>

definition parseDate :: "(string \<Rightarrow> jsdate) \<Rightarrow> string \<Rightarrow> jsdate option" where
  "parseDate dateCtor dateStr =
     (if dateStr = [] \<or> dateStr = ''null'' then None
      else case dateCtor dateStr of
        Some t \<Rightarrow> Some (Some t)
      | None \<Rightarrow>
          (case search isoFormat dateStr of
             Some [y, m, d] \<Rightarrow> Some (dateCtor (y @ ''-'' @ m @ ''-'' @ d))
           | _ \<Rightarrow>
          (case search (dmyFormat CHR ''/'') dateStr of
             Some [d, m, y] \<Rightarrow> Some (dateCtor (y @ ''-'' @ m @ ''-'' @ d))
           | _ \<Rightarrow>
          (case search (dmyFormat CHR ''-'') dateStr of
             Some [d, m, y] \<Rightarrow> Some (dateCtor (y @ ''-'' @ m @ ''-'' @ d))
           | _ \<Rightarrow>
          (case search (dmyFormat CHR ''.'') dateStr of
             Some [d, m, y] \<Rightarrow> Some (dateCtor (y @ ''-'' @ m @ ''-'' @ d))
           | _ \<Rightarrow> None)))))"

definition addressOf :: "party \<Rightarrow> (address \<Rightarrow> string option) \<Rightarrow> string option" where
  "addressOf p f = (case address p of None \<Rightarrow> None | Some a \<Rightarrow> f a)"

text \<open>
  \<^verbatim>\<open>mergeParty\<close>: one side alone is returned as it is; of two sides a new
  party is built, each sub-field \<^verbatim>\<open>ai || existing\<close>, the address always an
  object of the four sub-fields read.
\<close>

definition mergeParty :: "party option \<Rightarrow> party option \<Rightarrow> party option" where
  "mergeParty existing aiData =
     (case aiData of
        None \<Rightarrow> existing
      | Some a \<Rightarrow>
          (case existing of
             None \<Rightarrow> Some a
           | Some e \<Rightarrow>
               Some \<lparr>name = strOr (name a) (name e),
                     address = Some \<lparr>street = strOr (addressOf a street) (addressOf e street),
                                     city = strOr (addressOf a city) (addressOf e city),
                                     postalCode = strOr (addressOf a postalCode) (addressOf e postalCode),
                                     countryCode = strOr (addressOf a countryCode) (addressOf e countryCode),
                                     country = None\<rparr>,
                     vatNumber = strOr (vatNumber a) (vatNumber e),
                     kboNumber = strOr (kboNumber a) (kboNumber e),
                     taxRegistrationId = strOr (taxRegistrationId a) (taxRegistrationId e)\<rparr>))"

text \<open>\<^verbatim>\<open>ai ? parseDate(ai) : existing\<close>.\<close>

definition mergeDate ::
  "(string \<Rightarrow> jsdate) \<Rightarrow> string option \<Rightarrow> jsdate option \<Rightarrow> jsdate option" where
  "mergeDate dateCtor ai existing =
     (case ai of
        Some s \<Rightarrow> if s \<noteq> [] then parseDate dateCtor s else existing
      | None \<Rightarrow> existing)"

text \<open>\<^verbatim>\<open>ai !== undefined && ai !== null ? ai : existing\<close>.\<close>

definition numPresentOr :: "rat option \<Rightarrow> rat option \<Rightarrow> rat option" where
  "numPresentOr ai existing = (case ai of Some v \<Rightarrow> Some v | None \<Rightarrow> existing)"

definition mergeAIResults ::
  "(string \<Rightarrow> jsdate) \<Rightarrow> invoiceNormalized \<Rightarrow> aiResponse \<Rightarrow> invoiceNormalized" where
  "mergeAIResults dateCtor existing aiData =
     existing\<lparr>
       invoiceNumber := strOr (ai_invoiceNumber aiData) (invoiceNumber existing),
       issueDate := mergeDate dateCtor (ai_issueDate aiData) (issueDate existing),
       dueDate := mergeDate dateCtor (ai_dueDate aiData) (dueDate existing),
       currency := strOr (strOr (ai_currency aiData) (currency existing)) (Some ''EUR''),
       supplier := mergeParty (supplier existing) (ai_supplier aiData),
       customer := mergeParty (customer existing) (ai_customer aiData),
       lines := (case ai_lines aiData of
                   Some ls \<Rightarrow> if length ls > 0 then ls else lines existing
                 | None \<Rightarrow> lines existing),
       subtotalExclVat := numPresentOr (ai_subtotalExclVat aiData) (subtotalExclVat existing),
       vatTotal := numPresentOr (ai_vatTotal aiData) (vatTotal existing),
       totalInclVat := numPresentOr (ai_totalInclVat aiData) (totalInclVat existing),
       iban := strOr (ai_iban aiData) (iban existing),
       paymentReference := strOr (ai_paymentReference aiData) (paymentReference existing)\<rparr>"

datatype mappingValue = StrVal string | NumVal rat | DateVal jsdate

record mappingField =
  mf_field :: string
  mf_value :: mappingValue
  mf_source :: string
  mf_confidence :: rat
  mf_rawValue :: "string option"

definition aiField :: "string \<Rightarrow> string \<Rightarrow> string \<Rightarrow> mappingField" where
  "aiField path v src =
     \<lparr>mf_field = path, mf_value = StrVal v, mf_source = src, mf_confidence = 9 / 10,
      mf_rawValue = Some v\<rparr>"

text \<open>The fields pushed onto \<^verbatim>\<open>aiFields\<close>, in the order of the four tests.\<close>

definition aiFields :: "aiResponse \<Rightarrow> string \<Rightarrow> mappingField list" where
  "aiFields aiData src =
     (if truthyStr (ai_invoiceNumber aiData)
      then [aiField ''invoiceNumber'' (the (ai_invoiceNumber aiData)) src] else [])
     @ (if truthyStr (ai_issueDate aiData)
        then [aiField ''issueDate'' (the (ai_issueDate aiData)) src] else [])
     @ (if truthyStr (partyName (ai_supplier aiData))
        then [aiField ''supplier.name'' (the (partyName (ai_supplier aiData))) src] else [])
     @ (if truthyStr (partyName (ai_customer aiData))
        then [aiField ''customer.name'' (the (partyName (ai_customer aiData))) src] else [])"

text \<open>
  The three loops of \<^verbatim>\<open>mergeAIMappingFields\<close> over the pair of the merged
  list and the set of processed paths.
\<close>

definition pushAll ::
  "mappingField list \<times> string set \<Rightarrow> mappingField list \<Rightarrow> mappingField list \<times> string set" where
  "pushAll st fs = foldl (\<lambda>(merged, processed) f. (merged @ [f], insert (mf_field f) processed)) st fs"

definition pushUnprocessed ::
  "mappingField list \<times> string set \<Rightarrow> mappingField list \<Rightarrow> mappingField list \<times> string set" where
  "pushUnprocessed st fs =
     foldl (\<lambda>(merged, processed) f.
              if mf_field f \<notin> processed
              then (merged @ [f], insert (mf_field f) processed)
              else (merged, processed)) st fs"

definition pushNew ::
  "mappingField list \<times> string set \<Rightarrow> mappingField list \<Rightarrow> mappingField list \<times> string set" where
  "pushNew st fs =
     foldl (\<lambda>(merged, processed) f.
              if mf_field f \<notin> processed then (merged @ [f], processed)
              else (merged, processed)) st fs"

definition mergeAIMappingFields ::
  "mappingField list \<Rightarrow> aiResponse \<Rightarrow> string \<Rightarrow> mappingField list" where
  "mergeAIMappingFields existing aiData src =
     (let fs = aiFields aiData src;
          st1 = pushAll ([], {}) fs;
          st2 = pushUnprocessed st1 existing;
          st3 = pushNew st2 fs
      in fst st3)"

section \<open>AI enhancer: control flow (parser/ai.ts)\<close>

text \<open>
  A thrown value is a \<open>failure\<close>: an error object or other value with a
  message, or \<^verbatim>\<open>null\<close>/\<^verbatim>\<open>undefined\<close>, on which reading \<^verbatim>\<open>.message\<close> throws
  a \<^verbatim>\<open>TypeError\<close> in turn.  A computation that may throw returns
  \<open>failure + 'a\<close>.  Messages are kept only as far as the source builds them
  from constants.
\<close>

datatype failure = Failure string | ThrownNullish

type_synonym buffer = string

definition pdfMime :: string where
  "pdfMime = ''application/pdf''"

definition xlsxMime :: string where
  "xlsxMime = ''application/vnd.openxmlformats-officedocument.spreadsheetml.sheet''"

text \<open>
  A prompt is represented by the values interpolated into its template, the
  fixed wording left out: \<^verbatim>\<open>buildAIPrompt\<close> embeds up to 5000 characters of the
  extracted text and reads the candidate invoice; the PDF prompt wraps it; the
  spreadsheet prompt appends up to 20000 characters of the text; the text-only
  retry prompt puts up to 15000 characters in front.
\<close>

datatype promptText =
    BasePrompt string invoiceNormalized
  | PdfPrompt promptText
  | ExcelPrompt promptText string
  | TextOnlyPrompt string promptText

definition buildAIPrompt :: "invoiceNormalized \<Rightarrow> mappingField list \<Rightarrow> string \<Rightarrow> promptText" where
  "buildAIPrompt existing mappingFields extractedText = BasePrompt (take 5000 extractedText) existing"

record geminiRequest =
  apiKey :: string
  attachment :: "buffer option"
  prompt :: promptText

text \<open>
  The response of the completion service: the \<^verbatim>\<open>ok\<close> flag, the body read as
  text (for an error status), and the text of the first candidate in the body
  read as JSON (\<open>None\<close> when there is none); reading the body may throw.
\<close>

record httpResponse =
  ok :: bool
  errorText :: "failure + string"
  content :: "failure + string option"

text \<open>
  What the enhancer takes from outside: the configured key, the two text
  extractors, the HTTP call, \<^verbatim>\<open>JSON.parse\<close> (whose result \<open>None\<close> is a falsy
  JSON value) and the \<^verbatim>\<open>Date\<close> constructor on strings.
\<close>

record aiWorld =
  geminiApiKey :: "string option"
  pdfParse :: "buffer \<Rightarrow> failure + string"
  xlsxToText :: "buffer \<Rightarrow> failure + string"
  fetch :: "geminiRequest \<Rightarrow> failure + httpResponse"
  jsonParse :: "string \<Rightarrow> failure + aiResponse option"
  newDate :: "string \<Rightarrow> jsdate"

record aiResult =
  res_invoice :: invoiceNormalized
  res_mappingFields :: "mappingField list"
  aiUsed :: bool

text \<open>
  \<^verbatim>\<open>s.replace(/p\n?/g, '')\<close> for a literal \<open>p\<close>: \<open>k\<close> counts the characters
  of a match still to be dropped, \<open>nl\<close> says that a line feed following the
  match is to be dropped too.
\<close>

fun removeFence :: "string \<Rightarrow> nat \<Rightarrow> bool \<Rightarrow> string \<Rightarrow> string" where
  "removeFence p k nl [] = []"
| "removeFence p (Suc k) nl (c # cs) = removeFence p k nl cs"
| "removeFence p 0 nl (c # cs) =
     (if nl \<and> c = CHR 0x0A then removeFence p 0 False cs
      else if p \<noteq> [] \<and> startsWith (c # cs) p then removeFence p (length p - 1) True cs
      else c # removeFence p 0 False cs)"

definition stripFences :: "string \<Rightarrow> string" where
  "stripFences c =
     (let jsonText = trim c in
      if startsWith jsonText ''```json''
      then trim (removeFence ''```'' 0 False (removeFence ''```json'' 0 False jsonText))
      else if startsWith jsonText ''```''
      then trim (removeFence ''```'' 0 False jsonText)
      else jsonText)"

text \<open>The two requests \<^verbatim>\<open>callGeminiAPI\<close> can send.\<close>

definition firstRequest ::
  "string \<Rightarrow> promptText \<Rightarrow> string \<Rightarrow> string \<Rightarrow> buffer \<Rightarrow> geminiRequest" where
  "firstRequest key basePrompt extractedText mimeType buf =
     \<lparr>apiKey = key,
      attachment = (if mimeType = pdfMime then Some buf else None),
      prompt = (if mimeType = pdfMime then PdfPrompt basePrompt
                else if extractedText \<noteq> [] then ExcelPrompt basePrompt (take 20000 extractedText)
                else basePrompt)\<rparr>"

definition retryRequest :: "string \<Rightarrow> promptText \<Rightarrow> string \<Rightarrow> geminiRequest" where
  "retryRequest key basePrompt extractedText =
     \<lparr>apiKey = key, attachment = None,
      prompt = TextOnlyPrompt (take 15000 extractedText) basePrompt\<rparr>"

text \<open>
  \<^verbatim>\<open>callGeminiAPI\<close>.  A PDF goes out as an attachment with the PDF prompt.  On
  an error status, and only for a PDF with extracted text, the call is retried
  once with the text-only prompt; the retry's parse is not guarded.  On an
  OK status an empty content throws, and a parse failure is re-thrown as a
  new error.
\<close>

definition callGeminiAPI ::
  "aiWorld \<Rightarrow> string \<Rightarrow> promptText \<Rightarrow> string \<Rightarrow> string \<Rightarrow> buffer
     \<Rightarrow> failure + aiResponse option" where
  "callGeminiAPI w key basePrompt extractedText mimeType buf =
     (let request = firstRequest key basePrompt extractedText mimeType buf in
      case fetch w request of
        Inl e \<Rightarrow> Inl e
      | Inr response \<Rightarrow>
          if \<not> ok response then
            (case errorText response of
               Inl e \<Rightarrow> Inl e
             | Inr txt \<Rightarrow>
                 (let apiError = Inl (Failure (''Gemini API error: '' @ txt)) in
                  if mimeType = pdfMime \<and> attachment request \<noteq> None \<and> extractedText \<noteq> [] then
                    (case fetch w (retryRequest key basePrompt extractedText) of
                       Inl e \<Rightarrow> Inl e
                     | Inr retry \<Rightarrow>
                         if ok retry then
                           (case content retry of
                              Inl e \<Rightarrow> Inl e
                            | Inr c \<Rightarrow>
                                if truthyStr c then jsonParse w (stripFences (the c))
                                else apiError)
                         else apiError)
                  else apiError))
          else
            (case content response of
               Inl e \<Rightarrow> Inl e
             | Inr c \<Rightarrow>
                 if \<not> truthyStr c then Inl (Failure ''Gemini returned empty response'')
                 else (case jsonParse w (stripFences (the c)) of
                         Inl e \<Rightarrow> Inl (Failure ''Gemini returned invalid JSON response'')
                       | Inr parsed \<Rightarrow> Inr parsed)))"

text \<open>
  The text extraction at the head of the \<^verbatim>\<open>try\<close> block: each extractor has
  its own \<^verbatim>\<open>try\<close>/\<^verbatim>\<open>catch\<close>, which logs and goes on with the empty text.
\<close>

definition extractText :: "aiWorld \<Rightarrow> string \<Rightarrow> buffer \<Rightarrow> string" where
  "extractText w mimeType buf =
     (if mimeType = pdfMime then (case pdfParse w buf of Inl e \<Rightarrow> [] | Inr t \<Rightarrow> t)
      else if mimeType = xlsxMime then (case xlsxToText w buf of Inl e \<Rightarrow> [] | Inr t \<Rightarrow> t)
      else [])"

text \<open>
  The \<^verbatim>\<open>try\<close> block of \<^verbatim>\<open>parseWithAI\<close>.  The handler around the service call
  logs \<^verbatim>\<open>geminiError.message\<close> and re-throws; for a thrown \<^verbatim>\<open>null\<close> that
  read throws a \<^verbatim>\<open>TypeError\<close> instead.
\<close>

definition aiTryBlock ::
  "aiWorld \<Rightarrow> string \<Rightarrow> buffer \<Rightarrow> string \<Rightarrow> invoiceNormalized \<Rightarrow> mappingField list
     \<Rightarrow> failure + aiResult" where
  "aiTryBlock w key buf mimeType existingInvoice existingMappingFields =
     (let extractedText = extractText w mimeType buf;
          basePrompt = buildAIPrompt existingInvoice existingMappingFields extractedText
      in case callGeminiAPI w key basePrompt extractedText mimeType buf of
           Inl geminiError \<Rightarrow>
             (case geminiError of
                ThrownNullish \<Rightarrow> Inl (Failure ''TypeError'')
              | Failure m \<Rightarrow> Inl (Failure m))
         | Inr aiData \<Rightarrow>
             (case aiData of
                None \<Rightarrow> Inl (Failure ''Gemini API returned no response'')
              | Some a \<Rightarrow>
                  Inr \<lparr>res_invoice = mergeAIResults (newDate w) existingInvoice a,
                       res_mappingFields = mergeAIMappingFields existingMappingFields a ''ai-gemini'',
                       aiUsed = True\<rparr>))"

text \<open>The no-op result: the candidate as given, \<^verbatim>\<open>aiUsed: false\<close>.\<close>

definition unchangedResult :: "invoiceNormalized \<Rightarrow> mappingField list \<Rightarrow> aiResult" where
  "unchangedResult existingInvoice existingMappingFields =
     \<lparr>res_invoice = existingInvoice, res_mappingFields = existingMappingFields, aiUsed = False\<rparr>"

text \<open>
  \<^verbatim>\<open>parseWithAI\<close>.  Without a key (absent, or empty once trimmed) the
  candidate is returned.  The \<^verbatim>\<open>catch\<close> of the \<^verbatim>\<open>try\<close> block logs
  \<^verbatim>\<open>error.message\<close> and \<^verbatim>\<open>error.stack\<close>, which itself throws for a thrown
  \<^verbatim>\<open>null\<close>, and returns the candidate.
\<close>

definition parseWithAI ::
  "aiWorld \<Rightarrow> buffer \<Rightarrow> string \<Rightarrow> string \<Rightarrow> invoiceNormalized \<Rightarrow> mappingField list
     \<Rightarrow> failure + aiResult" where
  "parseWithAI w buf filename mimeType existingInvoice existingMappingFields =
     (let geminiKey = map_option trim (geminiApiKey w);
          unchanged = unchangedResult existingInvoice existingMappingFields
      in if \<not> truthyStr geminiKey then Inr unchanged
         else case aiTryBlock w (the geminiKey) buf mimeType existingInvoice existingMappingFields of
                Inl error \<Rightarrow>
                  (case error of
                     ThrownNullish \<Rightarrow> Inl (Failure ''TypeError'')
                   | Failure m \<Rightarrow> Inr unchanged)
              | Inr result \<Rightarrow> Inr result)"

section \<open>UBL serializer (mapping/toUbl.ts)\<close>

text \<open>
  The serializer builds a JavaScript object and hands it to the XML builder
  (xmlbuilder2, a library outside the repository).  The model is that object:
  strings, numbers, objects as lists of key and value in insertion order,
  arrays.  Assigning to a key replaces its value in place or appends the key.
\<close>

datatype jsval = JStr string | JNum rat | JObj "(string \<times> jsval) list" | JArr "jsval list"

definition setProp :: "string \<Rightarrow> jsval \<Rightarrow> (string \<times> jsval) list \<Rightarrow> (string \<times> jsval) list" where
  "setProp k v fs = AList.update k v fs"

fun getPath :: "string list \<Rightarrow> jsval \<Rightarrow> jsval option" where
  "getPath [] v = Some v"
| "getPath (k # ks) (JObj fs) = (case map_of fs k of None \<Rightarrow> None | Some v \<Rightarrow> getPath ks v)"
| "getPath (k # ks) v = None"

text \<open>
  The clock and the local-time calendar: the time value of \<^verbatim>\<open>new Date()\<close> and
  the getters \<^verbatim>\<open>getFullYear\<close>, \<^verbatim>\<open>getMonth\<close>, \<^verbatim>\<open>getDate\<close> on a valid time
  value.
\<close>

record dateEnv =
  currentTime :: int
  getFullYear :: "int \<Rightarrow> int"
  getMonth :: "int \<Rightarrow> int"
  getDate :: "int \<Rightarrow> int"

text \<open>
  \<^verbatim>\<open>formatDateForUBL\<close> (normalize.ts).  On an invalid date every getter
  returns NaN, printed as \<^verbatim>\<open>NaN\<close>.
\<close>

definition formatDateForUBL :: "dateEnv \<Rightarrow> jsdate \<Rightarrow> string" where
  "formatDateForUBL env d =
     (case d of
        None \<Rightarrow> ''NaN-NaN-NaN''
      | Some t \<Rightarrow>
          showInt (getFullYear env t) @ ''-'' @ padStart2 (showInt (getMonth env t + 1))
          @ ''-'' @ padStart2 (showInt (getDate env t)))"

text \<open>\<^verbatim>\<open>s || d\<close> for an optional string and a string.\<close>

definition strOrLit :: "string option \<Rightarrow> string \<Rightarrow> string" where
  "strOrLit x d = (case x of None \<Rightarrow> d | Some s \<Rightarrow> if s = [] then d else s)"

definition amount :: "string \<Rightarrow> rat \<Rightarrow> jsval" where
  "amount cur v = JObj [(''@_currencyID'', JStr cur), (''#'', JNum v)]"

definition vatScheme :: jsval where
  "vatScheme = JObj [(''cbc:ID'', JStr ''VAT'')]"

definition buildParty :: "party option \<Rightarrow> jsval" where
  "buildParty p =
     (let u0 = [(''cac:PartyName'', JObj [(''cbc:Name'', JStr (strOrLit (partyName p) []))])];
          a0 = [(''cac:Country'',
                  JObj [(''cbc:IdentificationCode'', JStr (strOrLit (partyCountryCode p) ''BE''))])];
          st = (case partyAddress p of None \<Rightarrow> None | Some a \<Rightarrow> street a);
          ci = (case partyAddress p of None \<Rightarrow> None | Some a \<Rightarrow> city a);
          pc = (case partyAddress p of None \<Rightarrow> None | Some a \<Rightarrow> postalCode a);
          a1 = (if truthyStr st then setProp ''cbc:StreetName'' (JStr (the st)) a0 else a0);
          a2 = (if truthyStr ci then setProp ''cbc:CityName'' (JStr (the ci)) a1 else a1);
          a3 = (if truthyStr pc then setProp ''cbc:PostalZone'' (JStr (the pc)) a2 else a2);
          u1 = setProp ''cac:PostalAddress'' (JObj a3) u0;
          u2 = (if truthyStr (partyVatNumber p)
                then setProp ''cac:PartyTaxScheme''
                       (JObj [(''cbc:CompanyID'', JStr (the (partyVatNumber p))),
                              (''cac:TaxScheme'', vatScheme)]) u1
                else u1);
          kbo = (case p of None \<Rightarrow> None | Some q \<Rightarrow> kboNumber q);
          u3 = (if truthyStr (partyName p)
                then setProp ''cac:PartyLegalEntity''
                       (JObj (let e0 = [(''cbc:RegistrationName'', JStr (the (partyName p)))] in
                              if truthyStr kbo
                              then setProp ''cac:CompanyID''
                                     (JObj [(''@_schemeID'', JStr ''BE:CBE''), (''#'', JStr (the kbo))]) e0
                              else e0)) u2
                else u2)
      in JObj u3)"

definition taxCategory :: "string \<Rightarrow> rat \<Rightarrow> jsval" where
  "taxCategory ident percent =
     JObj [(''cbc:ID'', JStr ident), (''cbc:Percent'', JNum percent), (''cac:TaxScheme'', vatScheme)]"

definition taxBlock :: "string \<Rightarrow> rat \<Rightarrow> rat \<Rightarrow> string \<Rightarrow> rat \<Rightarrow> jsval" where
  "taxBlock cur taxAmount taxable ident percent =
     JObj [(''cbc:TaxAmount'', amount cur taxAmount),
           (''cac:TaxSubtotal'',
              JObj [(''cbc:TaxableAmount'', amount cur taxable),
                    (''cbc:TaxAmount'', amount cur taxAmount),
                    (''cac:TaxCategory'', taxCategory ident percent)])]"

definition buildInvoiceLine :: "invoiceLine \<Rightarrow> nat \<Rightarrow> string \<Rightarrow> jsval" where
  "buildInvoiceLine line lineNumber cur =
     (let qty = numOr (quantity line) 1;
          price = numOr (unitPrice line) 0;
          total = numOr (lineTotal line) (roundTo2Decimals (qty * price));
          rate = numOr (vatRate line) 0;
          vatAmount = roundTo2Decimals ((total * rate) / 100)
      in JObj [(''cbc:ID'', JStr (showNat lineNumber)),
               (''cbc:InvoicedQuantity'',
                  JObj [(''@_unitCode'', JStr (strOrLit (unitOfMeasure line) ''C62'')),
                        (''#'', JNum qty)]),
               (''cbc:LineExtensionAmount'', amount cur total),
               (''cac:Item'', JObj [(''cbc:Description'', JStr (strOrLit (description line) ''Item''))]),
               (''cac:Price'', JObj [(''cbc:PriceAmount'', amount cur price)]),
               (''cac:TaxTotal'',
                  taxBlock cur vatAmount total (strOrLit (vatCategory line) ''S'') rate)])"

text \<open>
  The \<^verbatim>\<open>Map\<close> of VAT groups, keyed by rate, in insertion order: the body of
  the \<^verbatim>\<open>forEach\<close> over the lines.
\<close>

definition addVatGroup ::
  "(rat \<times> rat \<times> rat) list \<Rightarrow> invoiceLine \<Rightarrow> (rat \<times> rat \<times> rat) list" where
  "addVatGroup groups line =
     (case (vatRate line, lineTotal line) of
        (Some rate, Some taxable) \<Rightarrow>
          (let tax = roundTo2Decimals ((taxable * rate) / 100) in
           case map_of groups rate of
             Some (exTaxable, exTax) \<Rightarrow> AList.update rate (exTaxable + taxable, exTax + tax) groups
           | None \<Rightarrow> AList.update rate (taxable, tax) groups)
      | _ \<Rightarrow> groups)"

definition vatGroups :: "invoiceLine list \<Rightarrow> (rat \<times> rat \<times> rat) list" where
  "vatGroups ls = foldl addVatGroup [] ls"

definition buildTaxTotals :: "invoiceNormalized \<Rightarrow> string \<Rightarrow> jsval list" where
  "buildTaxTotals x cur =
     (let taxTotals = map (\<lambda>(rate, taxable, tax).
                              taxBlock cur (roundTo2Decimals tax) (roundTo2Decimals taxable) ''S'' rate)
                          (vatGroups (lines x))
      in if length taxTotals = 0 \<and> truthyNum (vatTotal x)
         then taxTotals @ [taxBlock cur (the (vatTotal x)) (numOr (subtotalExclVat x) 0) ''S'' 0]
         else taxTotals)"

definition buildLegalMonetaryTotal :: "invoiceNormalized \<Rightarrow> string \<Rightarrow> jsval" where
  "buildLegalMonetaryTotal x cur =
     (let subtotal0 = (if subtotalExclVat x = None \<and> length (lines x) > 0
                       then Some (sumLineTotals (lines x)) else subtotalExclVat x);
          vatTotal0 = (if vatTotal x = None \<and> length (lines x) > 0
                       then Some (sumVatRounded (lines x)) else vatTotal x);
          subtotal = numOr subtotal0 0;
          vat = numOr vatTotal0 0;
          total = numOr (totalInclVat x) (roundTo2Decimals (subtotal + vat))
      in JObj [(''cbc:LineExtensionAmount'', amount cur (roundTo2Decimals subtotal)),
               (''cbc:TaxExclusiveAmount'', amount cur (roundTo2Decimals subtotal)),
               (''cbc:TaxInclusiveAmount'', amount cur (roundTo2Decimals total)),
               (''cbc:PayableAmount'', amount cur (roundTo2Decimals total))])"

text \<open>The defaults of \<^verbatim>\<open>safeInvoice\<close>.\<close>

definition defaultSupplier :: party where
  "defaultSupplier =
     \<lparr>name = Some [], address = Some \<lparr>street = None, city = None, postalCode = None,
                                      countryCode = Some ''BE'', country = None\<rparr>,
      vatNumber = None, kboNumber = None, taxRegistrationId = None\<rparr>"

definition defaultCustomer :: party where
  "defaultCustomer =
     \<lparr>name = Some [], address = None, vatNumber = None, kboNumber = None,
      taxRegistrationId = None\<rparr>"

definition safeInvoice :: "dateEnv \<Rightarrow> invoiceNormalized \<Rightarrow> invoiceNormalized" where
  "safeInvoice env x =
     x\<lparr>invoiceNumber := Some (strOrLit (invoiceNumber x) ''UNKNOWN''),
       issueDate := (case issueDate x of None \<Rightarrow> Some (Some (currentTime env)) | Some d \<Rightarrow> Some d),
       currency := Some (strOrLit (currency x) ''EUR''),
       lines := (if length (lines x) > 0 then lines x else []),
       supplier := (case supplier x of None \<Rightarrow> Some defaultSupplier | Some p \<Rightarrow> Some p),
       customer := (case customer x of None \<Rightarrow> Some defaultCustomer | Some p \<Rightarrow> Some p)\<rparr>"

text \<open>
  The \<^verbatim>\<open>Invoice\<close> element built by \<^verbatim>\<open>convertToUBL\<close>: the initial object, the
  assignments to it in their order, the namespace attributes in front.
\<close>

definition invoiceElement :: "dateEnv \<Rightarrow> invoiceNormalized \<Rightarrow> (string \<times> jsval) list" where
  "invoiceElement env x =
     (let cur = strOrLit (currency x) ''EUR'';
          safe = safeInvoice env x;
          u0 = [(''cbc:CustomizationID'',
                   JStr ''urn:cen.eu:en16931:2017#compliant#urn:fdc:peppol.eu:2017:poacc:billing:3.0''),
                (''cbc:ProfileID'', JStr ''urn:fdc:peppol.eu:2017:poacc:billing:01:1.0''),
                (''cbc:ID'', JStr (the (invoiceNumber safe))),
                (''cbc:IssueDate'', JStr (formatDateForUBL env (the (issueDate safe)))),
                (''cbc:DocumentCurrencyCode'', JStr cur),
                (''cbc:InvoiceTypeCode'', JObj [(''@_listID'', JStr ''UN/ECE 1001''), (''#'', JStr ''380'')]),
                (''cac:AccountingSupplierParty'', JObj []),
                (''cac:AccountingCustomerParty'', JObj []),
                (''cac:TaxTotal'', JArr []),
                (''cac:LegalMonetaryTotal'', JObj []),
                (''cac:InvoiceLine'', JArr [])];
          u1 = (case dueDate safe of
                  Some d \<Rightarrow> setProp ''cbc:DueDate'' (JStr (formatDateForUBL env d)) u0
                | None \<Rightarrow> u0);
          u2 = setProp ''cac:AccountingSupplierParty''
                 (JObj [(''cac:Party'', buildParty (supplier safe))]) u1;
          u3 = setProp ''cac:AccountingCustomerParty''
                 (JObj [(''cac:Party'', buildParty (customer safe))]) u2;
          invoiceLines = map (\<lambda>(index, line). buildInvoiceLine line (index + 1) cur)
                             (enumerate 0 (lines safe));
          u4 = setProp ''cac:InvoiceLine'' (JArr invoiceLines) u3;
          taxTotals = buildTaxTotals safe cur;
          u5 = setProp ''cac:TaxTotal''
                 (JArr (if length taxTotals > 0 then taxTotals
                        else [JObj [(''cbc:TaxAmount'', amount cur 0)]])) u4;
          u6 = setProp ''cac:LegalMonetaryTotal'' (buildLegalMonetaryTotal safe cur) u5
      in [(''@xmlns'', JStr ''urn:oasis:names:specification:ubl:schema:xsd:Invoice-2''),
          (''@xmlns:cac'', JStr ''urn:oasis:names:specification:ubl:schema:xsd:CommonAggregateComponents-2''),
          (''@xmlns:cbc'', JStr ''urn:oasis:names:specification:ubl:schema:xsd:CommonBasicComponents-2'')]
         @ u6)"

text \<open>\<^verbatim>\<open>convertToUBL\<close>: the object given to the XML builder.\<close>

definition convertToUBL :: "dateEnv \<Rightarrow> invoiceNormalized \<Rightarrow> jsval" where
  "convertToUBL env x = JObj [(''Invoice'', JObj (invoiceElement env x))]"

section \<open>The arithmetic in binary64 (normalize.ts, validation/rules.ts)\<close>

text \<open>
  The numbers of the source are IEEE 754 binary64 values: every arithmetic
  operation returns the double nearest to its exact result, a tie going to
  the even significand.  The sections above read the arithmetic of the
  normalizer and the validator as exact; this section reads it as the source
  computes it.  A finite double is modelled by the rational number it
  denotes, and \<open>fl\<close> rounds a rational to the nearest double: 53 significant
  bits, the exponent not below \<open>-1022\<close> (gradual underflow).  Results beyond
  the largest finite double (\<^verbatim>\<open>Infinity\<close>), \<^verbatim>\<open>NaN\<close> and the sign of zero are
  not modelled: the statements on this arithmetic bound the magnitudes they
  are about, so that no operation overflows.
\<close>

text \<open>The exponent of a positive rational \<open>x\<close>: the \<open>e\<close> with \<^verbatim>\<open>2^e <= x < 2^(e+1)\<close>.\<close>

definition ilog2 :: "rat \<Rightarrow> int" where
  "ilog2 x = (case quotient_of x of (a, b) \<Rightarrow>
     (let d = bitlen a - bitlen b in if 2 powi d \<le> x then d else d - 1))"

text \<open>The nearest integer, a tie going to the even one.\<close>

definition roundTiesToEven :: "rat \<Rightarrow> int" where
  "roundTiesToEven r = (let f = \<lfloor>r\<rfloor>; d = r - of_int f in
     if d < 1 / 2 then f else if 1 / 2 < d then f + 1 else if even f then f else f + 1)"

text \<open>
  The nearest double: with \<open>e\<close> the exponent of \<open>x\<close>, the doubles around \<open>x\<close>
  are the multiples of \<^verbatim>\<open>u = 2^(e-52)\<close>.
\<close>

definition fl :: "rat \<Rightarrow> rat" where
  "fl x = (if x = 0 then 0 else
     (let e = max (ilog2 \<bar>x\<bar>) (- 1022); u = 2 powi (e - 52) in
      of_int (roundTiesToEven (x / u)) * u))"

text \<open>The four operations on doubles, and the literal \<^verbatim>\<open>0.01\<close>.\<close>

definition add64 :: "rat \<Rightarrow> rat \<Rightarrow> rat" where
  "add64 a b = fl (a + b)"

definition sub64 :: "rat \<Rightarrow> rat \<Rightarrow> rat" where
  "sub64 a b = fl (a - b)"

definition mul64 :: "rat \<Rightarrow> rat \<Rightarrow> rat" where
  "mul64 a b = fl (a * b)"

definition div64 :: "rat \<Rightarrow> rat \<Rightarrow> rat" where
  "div64 a b = fl (a / b)"

definition cent64 :: rat where
  "cent64 = fl (1 / 100)"

text \<open>
  \<^verbatim>\<open>roundTo2Decimals\<close> on doubles: \<^verbatim>\<open>Math.round(value * 100) / 100\<close>, the
  product and the quotient rounded to doubles.  \<^verbatim>\<open>Math.round\<close> is exact: the
  integer it returns is a double.
\<close>

definition roundTo2Decimals64 :: "rat \<Rightarrow> rat" where
  "roundTo2Decimals64 v = div64 (of_int (math_round (mul64 v 100))) 100"

text \<open>\<^verbatim>\<open>normalizeLine\<close>, \<^verbatim>\<open>calculateTotals\<close> and \<^verbatim>\<open>normalizeInvoice\<close> on doubles.\<close>

definition normalizeLine64 :: "invoiceLine \<Rightarrow> invoiceLine" where
  "normalizeLine64 line =
     (let n1 = (case quantity line of None \<Rightarrow> line\<lparr>quantity := Some 1\<rparr> | Some _ \<Rightarrow> line);
          n2 = (case (unitPrice n1, quantity n1) of
                  (Some p, Some q) \<Rightarrow>
                    (case lineTotal n1 of
                       None \<Rightarrow> n1\<lparr>lineTotal := Some (roundTo2Decimals64 (mul64 p q))\<rparr>
                     | Some _ \<Rightarrow> n1)
                | _ \<Rightarrow> n1);
          n3 = (case vatRate n2 of
                  Some r \<Rightarrow>
                    (let m = n2\<lparr>vatRate := Some (roundTo2Decimals64 r)\<rparr> in
                     if \<not> truthyStr (vatCategory m) then m\<lparr>vatCategory := Some ''S''\<rparr> else m)
                | None \<Rightarrow> n2);
          n4 = (if \<not> truthyStr (unitOfMeasure n3) then n3\<lparr>unitOfMeasure := Some ''C62''\<rparr> else n3)
      in n4)"

definition sumLineTotals64 :: "invoiceLine list \<Rightarrow> rat" where
  "sumLineTotals64 ls = foldl (\<lambda>sum line. add64 sum (numOr (lineTotal line) 0)) 0 ls"

definition sumVatExact64 :: "invoiceLine list \<Rightarrow> rat" where
  "sumVatExact64 ls = foldl (\<lambda>sum line.
       if truthyNum (lineTotal line) \<and> truthyNum (vatRate line)
       then add64 sum (div64 (mul64 (the (lineTotal line)) (the (vatRate line))) 100)
       else sum) 0 ls"

definition calculateTotals64 :: "'p invoice \<Rightarrow> 'p invoice" where
  "calculateTotals64 iv =
     (let i1 = (if lines iv \<noteq> [] then
                  (case subtotalExclVat iv of
                     None \<Rightarrow> iv\<lparr>subtotalExclVat := Some (roundTo2Decimals64 (sumLineTotals64 (lines iv)))\<rparr>
                   | Some _ \<Rightarrow> iv)
                else iv);
          i2 = (if lines i1 \<noteq> [] \<and> vatTotal i1 = None
                then i1\<lparr>vatTotal := Some (roundTo2Decimals64 (sumVatExact64 (lines i1)))\<rparr>
                else i1);
          i3 = (case (subtotalExclVat i2, vatTotal i2) of
                  (Some s, Some v) \<Rightarrow>
                    (case totalInclVat i2 of
                       None \<Rightarrow> i2\<lparr>totalInclVat := Some (roundTo2Decimals64 (add64 s v))\<rparr>
                     | Some _ \<Rightarrow> i2)
                | _ \<Rightarrow> i2)
      in i3)"

definition normalizeLines64 :: "'p invoice \<Rightarrow> 'p invoice" where
  "normalizeLines64 x = x\<lparr>lines := map normalizeLine64 (lines x)\<rparr>"

definition normalizeInvoice64 :: "invoiceNormalized \<Rightarrow> invoiceNormalized" where
  "normalizeInvoice64 x =
     (let n1 = normalizeCurrency x;
          n2 = n1\<lparr>supplier := map_option normalizePartyVat (supplier n1)\<rparr>;
          n3 = n2\<lparr>customer := map_option normalizePartyVat (customer n2)\<rparr>;
          n4 = normalizeIbanField n3;
          n5 = normalizeLines64 n4;
          n6 = calculateTotals64 n5
      in n6)"

text \<open>The arithmetic checks of \<^verbatim>\<open>validateBusinessRules\<close> on doubles.\<close>

definition checkLine64 :: "nat \<Rightarrow> invoiceLine \<Rightarrow> validationError list" where
  "checkLine64 index line =
     (let linePath = ''InvoiceLine['' @ showNat index @ '']'' in
      (if blankStr (description line)
       then [finding ''WARN_MISSING_LINE_DESCRIPTION'' Warning (linePath @ ''.Item.Description'')]
       else [])
      @
      (case (quantity line, unitPrice line, lineTotal line) of
         (Some q, Some p, Some t) \<Rightarrow>
           (let calculatedTotal = roundTo2Decimals64 (mul64 (numOr (Some q) 0) (numOr (Some p) 0));
                actualTotal = roundTo2Decimals64 t;
                difference = \<bar>sub64 calculatedTotal actualTotal\<bar>
            in if difference > cent64
               then [finding ''ERR_INVALID_LINE_AMOUNT'' Error (linePath @ ''.LineExtensionAmount'')]
               else [])
       | _ \<Rightarrow> []))"

definition checkLines64 :: "invoiceNormalized \<Rightarrow> validationError list" where
  "checkLines64 x = concat (map (\<lambda>(index, line). checkLine64 index line) (enumerate 0 (lines x)))"

definition sumVatRounded64 :: "invoiceLine list \<Rightarrow> rat" where
  "sumVatRounded64 ls = foldl (\<lambda>sum line.
       if truthyNum (lineTotal line) \<and> truthyNum (vatRate line)
       then add64 sum
              (roundTo2Decimals64 (div64 (mul64 (the (lineTotal line)) (the (vatRate line))) 100))
       else sum) 0 ls"

definition checkSubtotal64 :: "invoiceNormalized \<Rightarrow> validationError list" where
  "checkSubtotal64 x =
     (let calculatedSubtotal = sumLineTotals64 (lines x) in
      case subtotalExclVat x of
        Some s \<Rightarrow>
          if \<bar>sub64 calculatedSubtotal s\<bar> > cent64
          then [finding ''ERR_INVALID_SUBTOTAL'' Error ''Invoice.LegalMonetaryTotal.TaxExclusiveAmount'']
          else []
      | None \<Rightarrow> [])"

definition checkVatTotal64 :: "invoiceNormalized \<Rightarrow> validationError list" where
  "checkVatTotal64 x =
     (let calculatedVatTotal = sumVatRounded64 (lines x) in
      case vatTotal x of
        Some v \<Rightarrow>
          if calculatedVatTotal > 0 \<and> \<bar>sub64 calculatedVatTotal v\<bar> > cent64
          then [finding ''ERR_INVALID_VAT_TOTAL'' Error ''Invoice.TaxTotal.TaxAmount'']
          else []
      | None \<Rightarrow> [])"

definition checkTotalInclVat64 :: "invoiceNormalized \<Rightarrow> validationError list" where
  "checkTotalInclVat64 x =
     (case (subtotalExclVat x, vatTotal x, totalInclVat x) of
        (Some s, Some v, Some t) \<Rightarrow>
          (let calculatedTotal = roundTo2Decimals64 (add64 s v);
               actualTotal = roundTo2Decimals64 t
           in if \<bar>sub64 calculatedTotal actualTotal\<bar> > cent64
              then [finding ''ERR_INVALID_TOTAL'' Error ''Invoice.LegalMonetaryTotal.TaxInclusiveAmount'']
              else [])
      | _ \<Rightarrow> [])"

definition checkTotals64 :: "invoiceNormalized \<Rightarrow> validationError list" where
  "checkTotals64 x =
     (if lines x \<noteq> [] then checkSubtotal64 x @ checkVatTotal64 x @ checkTotalInclVat64 x else [])"

definition validateBusinessRules64 :: "int \<Rightarrow> invoiceNormalized \<Rightarrow> validationError list" where
  "validateBusinessRules64 now x =
     checkInvoiceId x @ checkIssueDate now x @ checkSupplierName x @ checkSupplierCountry x
     @ checkCustomerName x @ checkHasLines x @ checkLines64 x @ checkTotals64 x
     @ checkVatNumber (supplier x) SupplierRole @ checkVatNumber (customer x) CustomerRole
     @ checkCurrency x"


section \<open>Example inputs\<close>

text \<open>The empty invoice \<^verbatim>\<open>{ lines: [] }\<close>.\<close>

definition emptyInvoice :: invoiceNormalized where
  "emptyInvoice =
     \<lparr>invoiceNumber = None, issueDate = None, dueDate = None, currency = None,
      supplier = None, customer = None, paymentReference = None, iban = None, bic = None,
      lines = [], subtotalExclVat = None, vatTotal = None, totalInclVat = None,
      sourceType = None, sourceFile = None, extractionConfidence = None\<rparr>"

text \<open>
  An invoice whose supplier is the party object at reference 0, with a VAT
  number written in lower case and with spaces.
\<close>

definition supplierStore :: store where
  "supplierStore = Map.empty(0 \<mapsto> \<lparr>name = Some ''Acme'', address = None,
       vatNumber = Some ''be 0123 456 789'', kboNumber = None, taxRegistrationId = None\<rparr>)"

definition supplierInvoice :: "ref invoice" where
  "supplierInvoice =
     \<lparr>invoiceNumber = Some ''INV-1'', issueDate = None, dueDate = None, currency = None,
      supplier = Some 0, customer = None, paymentReference = None, iban = None, bic = None,
      lines = [], subtotalExclVat = None, vatTotal = None, totalInclVat = None,
      sourceType = None, sourceFile = None, extractionConfidence = None\<rparr>"

text \<open>A line with a description, quantity, unit price, VAT rate and line total.\<close>

definition simpleLine :: "string \<Rightarrow> rat \<Rightarrow> rat \<Rightarrow> rat \<Rightarrow> rat \<Rightarrow> invoiceLine" where
  "simpleLine d q p r t =
     \<lparr>description = Some d, quantity = Some q, unitPrice = Some p, unitOfMeasure = Some ''C62'',
      vatRate = Some r, vatCategory = Some ''S'', lineTotal = Some t,
      confidence = None, source = None\<rparr>"

text \<open>No lines, but stated totals 100.00 + 21.00 = 121.00.\<close>

definition statedTotalsNoLines :: invoiceNormalized where
  "statedTotalsNoLines =
     emptyInvoice\<lparr>subtotalExclVat := Some 100, vatTotal := Some 21, totalInclVat := Some 121\<rparr>"


text \<open>One line of 100.00 at 21% VAT, with a stated VAT total of 25.00.\<close>

definition wrongVatInvoice :: invoiceNormalized where
  "wrongVatInvoice =
     emptyInvoice\<lparr>lines := [simpleLine ''Consulting'' 1 100 21 100],
       subtotalExclVat := Some 100, vatTotal := Some 25, totalInclVat := Some 125\<rparr>"

text \<open>
  Four lines of 0.50 at 21% VAT: the subtotal is 2.00, the VAT on it 0.42 and
  the total 2.42.  The second invoice states these totals, the first leaves
  them to the normalizer.
\<close>

definition fourLines :: invoiceNormalized where
  "fourLines = emptyInvoice\<lparr>lines := replicate 4 (simpleLine ''Sticker'' 1 (1 / 2) 21 (1 / 2))\<rparr>"

definition fourLinesWithTotals :: invoiceNormalized where
  "fourLinesWithTotals =
     fourLines\<lparr>subtotalExclVat := Some 2, vatTotal := Some (42 / 100),
       totalInclVat := Some (242 / 100)\<rparr>"

text \<open>
  The candidate of the merge example: invoice number \<^verbatim>\<open>OLD-1\<close>, found in the PDF
  text with confidence 0.6; and three AI responses: an empty one, one with the
  invoice number \<^verbatim>\<open>NEW-2\<close>, one with an empty invoice number.
\<close>

definition candidateOld :: invoiceNormalized where
  "candidateOld = emptyInvoice\<lparr>invoiceNumber := Some ''OLD-1''\<rparr>"

definition candidateOldFields :: "mappingField list" where
  "candidateOldFields =
     [\<lparr>mf_field = ''invoiceNumber'', mf_value = StrVal ''OLD-1'', mf_source = ''pdf-text'',
       mf_confidence = 6 / 10, mf_rawValue = Some ''OLD-1''\<rparr>]"

definition emptyAi :: aiResponse where
  "emptyAi =
     \<lparr>ai_invoiceNumber = None, ai_issueDate = None, ai_dueDate = None, ai_currency = None,
      ai_supplier = None, ai_customer = None, ai_lines = None, ai_subtotalExclVat = None,
      ai_vatTotal = None, ai_totalInclVat = None, ai_iban = None,
      ai_paymentReference = None\<rparr>"

definition aiNew2 :: aiResponse where
  "aiNew2 = emptyAi\<lparr>ai_invoiceNumber := Some ''NEW-2''\<rparr>"

definition aiBlank :: aiResponse where
  "aiBlank = emptyAi\<lparr>ai_invoiceNumber := Some []\<rparr>"

text \<open>
  A candidate with a supplier, an IBAN, a line and a subtotal, with three
  initial mapping fields (two of them for the invoice number); and an AI
  response with an empty invoice number, a supplier of which some sub-fields
  are empty or missing, an empty line array and a VAT total.
\<close>

definition candidateAcme :: invoiceNormalized where
  "candidateAcme =
     emptyInvoice\<lparr>invoiceNumber := Some ''OLD-1'', currency := Some ''USD'',
       supplier := Some \<lparr>name = Some ''Acme'',
         address = Some \<lparr>street = Some ''Main St 1'', city = Some ''Gent'', postalCode = Some ''9000'',
                          countryCode = Some ''BE'', country = Some ''Belgium''\<rparr>,
         vatNumber = Some ''BE0123456789'', kboNumber = Some ''0123456789'',
         taxRegistrationId = None\<rparr>,
       iban := Some ''BE68539007547034'',
       lines := [simpleLine ''Consulting'' 1 100 21 100],
       subtotalExclVat := Some 100\<rparr>"

definition aiAcme :: aiResponse where
  "aiAcme =
     emptyAi\<lparr>ai_invoiceNumber := Some [],
       ai_supplier := Some \<lparr>name = Some ''Acme NV'',
         address = Some \<lparr>street = Some [], city = None, postalCode = Some ''9050'',
                          countryCode = None, country = None\<rparr>,
         vatNumber = None, kboNumber = Some [], taxRegistrationId = Some ''T-1''\<rparr>,
       ai_lines := Some [],
       ai_vatTotal := Some 21\<rparr>"

definition candidateAcmeFields :: "mappingField list" where
  "candidateAcmeFields =
     [\<lparr>mf_field = ''invoiceNumber'', mf_value = StrVal ''OLD-1'', mf_source = ''pdf-text'',
       mf_confidence = 6 / 10, mf_rawValue = Some ''OLD-1''\<rparr>,
      \<lparr>mf_field = ''supplier.name'', mf_value = StrVal ''Acme'', mf_source = ''pdf-text'',
       mf_confidence = 5 / 10, mf_rawValue = Some ''Acme''\<rparr>,
      \<lparr>mf_field = ''invoiceNumber'', mf_value = StrVal ''OLD-9'', mf_source = ''regex-match'',
       mf_confidence = 3 / 10, mf_rawValue = Some ''OLD-9''\<rparr>]"

text \<open>A \<^verbatim>\<open>Date\<close> constructor for which no string is a valid date.\<close>

definition noValidDate :: "string \<Rightarrow> jsdate" where
  "noValidDate s = None"

text \<open>
  A world with a key in which reading the PDF text fails and the service
  answers with the invoice number \<^verbatim>\<open>NEW-2\<close>; and one without a key.
\<close>

definition pdfTextFailsWorld :: aiWorld where
  "pdfTextFailsWorld =
     \<lparr>geminiApiKey = Some ''test-key'',
      pdfParse = (\<lambda>b. Inl (Failure ''Invalid PDF structure'')),
      xlsxToText = (\<lambda>b. Inr []),
      fetch = (\<lambda>r. Inr \<lparr>ok = True, errorText = Inr [], content = Inr (Some ''{ invoiceNumber: NEW-2 }'')\<rparr>),
      jsonParse = (\<lambda>s. Inr (Some aiNew2)),
      newDate = noValidDate\<rparr>"

definition noKeyWorld :: aiWorld where
  "noKeyWorld = pdfTextFailsWorld\<lparr>geminiApiKey := None\<rparr>"

text \<open>A world with a key in which the service cannot be reached.\<close>

definition networkDownWorld :: aiWorld where
  "networkDownWorld = pdfTextFailsWorld\<lparr>fetch := (\<lambda>r. Inl (Failure ''fetch failed''))\<rparr>"

text \<open>
  Two worlds in which the PDF text is read and the request with the PDF
  attached gets an error status: in the first the text-only retry gets the
  error status too, in the second it is answered.
\<close>

definition retryFailsWorld :: aiWorld where
  "retryFailsWorld =
     \<lparr>geminiApiKey = Some ''test-key'',
      pdfParse = (\<lambda>b. Inr ''Invoice NEW-2''),
      xlsxToText = (\<lambda>b. Inr []),
      fetch = (\<lambda>r. Inr \<lparr>ok = False, errorText = Inr ''quota exceeded'', content = Inr None\<rparr>),
      jsonParse = (\<lambda>s. Inr (Some aiNew2)),
      newDate = noValidDate\<rparr>"

definition retrySucceedsWorld :: aiWorld where
  "retrySucceedsWorld = retryFailsWorld\<lparr>fetch := (\<lambda>r.
       if attachment r = None
       then Inr \<lparr>ok = True, errorText = Inr [], content = Inr (Some ''{ invoiceNumber: NEW-2 }'')\<rparr>
       else Inr \<lparr>ok = False, errorText = Inr ''document not supported'', content = Inr None\<rparr>)\<rparr>"

text \<open>A clock and calendar showing 3 November 2026.\<close>

definition sampleEnv :: dateEnv where
  "sampleEnv =
     \<lparr>currentTime = 1793664000000, getFullYear = (\<lambda>t. 2026), getMonth = (\<lambda>t. 10),
      getDate = (\<lambda>t. 3)\<rparr>"

text \<open>
  One line of 100.00 whose VAT rate field holds the double nearest to
  39422533207684.516.
\<close>

definition largeRateInvoice :: invoiceNormalized where
  "largeRateInvoice =
     emptyInvoice\<lparr>lines := [simpleLine ''Levy'' 1 100 (fl (39422533207684516 / 1000)) 100]\<rparr>"


section \<open>Auxiliary definitions for the proofs\<close>

text \<open>The service call as \<^verbatim>\<open>parseWithAI\<close> makes it.\<close>

definition serviceCall ::
  "aiWorld \<Rightarrow> buffer \<Rightarrow> string \<Rightarrow> invoiceNormalized \<Rightarrow> mappingField list
     \<Rightarrow> failure + aiResponse option" where
  "serviceCall w buf mimeType existingInvoice existingMappingFields =
     callGeminiAPI w (the (map_option trim (geminiApiKey w)))
       (buildAIPrompt existingInvoice existingMappingFields (extractText w mimeType buf))
       (extractText w mimeType buf) mimeType buf"


text \<open>The codes of the checks of \<^verbatim>\<open>validateBusinessRules\<close> other than the three totals checks.\<close>

definition otherCodes :: "string set" where
  "otherCodes = {''WARN_MISSING_INVOICE_ID'', ''WARN_MISSING_ISSUE_DATE'', ''ERR_INVALID_ISSUE_DATE'',
     ''ERR_FUTURE_ISSUE_DATE'', ''WARN_MISSING_SUPPLIER_NAME'', ''WARN_MISSING_SUPPLIER_COUNTRY'',
     ''WARN_MISSING_CUSTOMER_NAME'', ''WARN_NO_INVOICE_LINES'', ''WARN_MISSING_LINE_DESCRIPTION'',
     ''ERR_INVALID_LINE_AMOUNT'', ''ERR_INVALID_VAT_FORMAT'', ''WARN_NON_EUR_CURRENCY''}"

section \<open>Rounding and string canonicalisation\<close>


lemma math_round_of_int: "math_round (of_int n) = n"
  unfolding math_round_def by linarith

lemma roundTo2Decimals_cents: "roundTo2Decimals (of_int k / 100) = of_int k / 100"
  by (simp add: roundTo2Decimals_def math_round_of_int)

lemma upperChar_idem: "upperChar (upperChar c) = upperChar c"
proof -
  have "of_char (char_of (of_char c - (32::nat))) = (of_char c - (32::nat)) mod 256"
    by (rule of_char_of)
  then show ?thesis
    by (auto simp add: upperChar_def Let_def)
qed

lemma toUpperCase_idem: "toUpperCase (toUpperCase s) = toUpperCase s"
  by (simp add: toUpperCase_def upperChar_idem)

lemma isSpace_upperChar: "isSpace (upperChar c) = isSpace c"
proof -
  have "of_char (char_of (of_char c - (32::nat))) = (of_char c - (32::nat)) mod 256"
    by (rule of_char_of)
  then show ?thesis
    by (auto simp add: upperChar_def isSpace_def Let_def)
qed

lemma removeWhitespace_toUpperCase:
  "removeWhitespace (toUpperCase s) = toUpperCase (removeWhitespace s)"
  by (induction s) (simp_all add: removeWhitespace_def toUpperCase_def isSpace_upperChar)

lemma removeWhitespace_idem: "removeWhitespace (removeWhitespace s) = removeWhitespace s"
  by (simp add: removeWhitespace_def)

lemma canon_idem:
  "toUpperCase (removeWhitespace (toUpperCase (removeWhitespace s))) = toUpperCase (removeWhitespace s)"
  by (simp add: removeWhitespace_toUpperCase removeWhitespace_idem toUpperCase_idem)

lemma normalizeIBAN_idem: "normalizeIBAN (normalizeIBAN s) = normalizeIBAN s"
  by (simp add: normalizeIBAN_def canon_idem)

lemma canon_prefix:
  "toUpperCase (removeWhitespace (p @ toUpperCase (removeWhitespace s)))
     = toUpperCase (removeWhitespace p) @ toUpperCase (removeWhitespace s)"
  using canon_idem[of s] by (simp add: removeWhitespace_def toUpperCase_def)

lemma canon_BE: "toUpperCase (removeWhitespace ''BE'') = ''BE''"
  by code_simp

lemma canon_NL: "toUpperCase (removeWhitespace ''NL'') = ''NL''"
  by code_simp

lemma prefix_BE: "hasCountryPrefix (''BE'' @ s)"
  by (simp add: hasCountryPrefix_def isUpperAZ_def)

lemma prefix_NL: "hasCountryPrefix (''NL'' @ s)"
  by (simp add: hasCountryPrefix_def isUpperAZ_def)

lemma normalizeVATNumber_idem: "normalizeVATNumber (normalizeVATNumber v) = normalizeVATNumber v"
proof -
  let ?n = "toUpperCase (removeWhitespace v)"
  consider (pre) "hasCountryPrefix ?n"
    | (be) "\<not> hasCountryPrefix ?n" "isTenDigits ?n"
    | (nl) "\<not> hasCountryPrefix ?n" "\<not> isTenDigits ?n" "isDutchShape ?n"
    | (other) "\<not> hasCountryPrefix ?n" "\<not> isTenDigits ?n" "\<not> isDutchShape ?n"
    by blast
  then show ?thesis
  proof cases
    case pre
    then have "normalizeVATNumber v = ?n" by (simp add: normalizeVATNumber_def)
    with pre show ?thesis by (simp add: normalizeVATNumber_def canon_idem)
  next
    case be
    then have e: "normalizeVATNumber v = ''BE'' @ ?n" by (simp add: normalizeVATNumber_def)
    have "toUpperCase (removeWhitespace (''BE'' @ ?n)) = ''BE'' @ ?n"
      using canon_prefix[of "''BE''" v] canon_BE by simp
    then show ?thesis unfolding e using prefix_BE[of ?n]
      by (simp add: normalizeVATNumber_def[of "''BE'' @ ?n"] del: append.simps)
  next
    case nl
    then have e: "normalizeVATNumber v = ''NL'' @ ?n" by (simp add: normalizeVATNumber_def)
    have "toUpperCase (removeWhitespace (''NL'' @ ?n)) = ''NL'' @ ?n"
      using canon_prefix[of "''NL''" v] canon_NL by simp
    then show ?thesis unfolding e using prefix_NL[of ?n]
      by (simp add: normalizeVATNumber_def[of "''NL'' @ ?n"] del: append.simps)
  next
    case other
    then have "normalizeVATNumber v = ?n" by (simp add: normalizeVATNumber_def)
    with other show ?thesis by (simp add: normalizeVATNumber_def canon_idem)
  qed
qed

section \<open>The normalizer, field by field\<close>

lemma normalizeLine_fields:
  "quantity (normalizeLine l) = Some (case quantity l of None \<Rightarrow> 1 | Some q \<Rightarrow> q)"
  "unitPrice (normalizeLine l) = unitPrice l"
  "lineTotal (normalizeLine l) =
     (case lineTotal l of
        Some t \<Rightarrow> Some t
      | None \<Rightarrow> (case unitPrice l of
                   Some p \<Rightarrow> Some (roundTo2Decimals (p * (case quantity l of None \<Rightarrow> 1 | Some q \<Rightarrow> q)))
                 | None \<Rightarrow> None))"
  "vatRate (normalizeLine l) = map_option roundTo2Decimals (vatRate l)"
  "vatCategory (normalizeLine l) =
     (if vatRate l \<noteq> None \<and> \<not> truthyStr (vatCategory l) then Some ''S'' else vatCategory l)"
  "unitOfMeasure (normalizeLine l) =
     (if \<not> truthyStr (unitOfMeasure l) then Some ''C62'' else unitOfMeasure l)"
  "description (normalizeLine l) = description l"
  "confidence (normalizeLine l) = confidence l"
  "source (normalizeLine l) = source l"
  by (simp_all add: normalizeLine_def Let_def split: option.splits)


lemma calculateTotals_fields:
  "subtotalExclVat (calculateTotals y) =
     (case subtotalExclVat y of
        Some s \<Rightarrow> Some s
      | None \<Rightarrow> if lines y \<noteq> [] then Some (roundTo2Decimals (sumLineTotals (lines y))) else None)"
  "vatTotal (calculateTotals y) =
     (case vatTotal y of
        Some v \<Rightarrow> Some v
      | None \<Rightarrow> if lines y \<noteq> [] then Some (roundTo2Decimals (sumVatExact (lines y))) else None)"
  "totalInclVat (calculateTotals y) =
     (case totalInclVat y of
        Some t \<Rightarrow> Some t
      | None \<Rightarrow>
          (case (subtotalExclVat (calculateTotals y), vatTotal (calculateTotals y)) of
             (Some s, Some v) \<Rightarrow> Some (roundTo2Decimals (s + v))
           | _ \<Rightarrow> None))"
  "lines (calculateTotals y) = lines y"
  "invoiceNumber (calculateTotals y) = invoiceNumber y"
  "issueDate (calculateTotals y) = issueDate y"
  "dueDate (calculateTotals y) = dueDate y"
  "currency (calculateTotals y) = currency y"
  "supplier (calculateTotals y) = supplier y"
  "customer (calculateTotals y) = customer y"
  "paymentReference (calculateTotals y) = paymentReference y"
  "iban (calculateTotals y) = iban y"
  "bic (calculateTotals y) = bic y"
  "sourceType (calculateTotals y) = sourceType y"
  "sourceFile (calculateTotals y) = sourceFile y"
  "extractionConfidence (calculateTotals y) = extractionConfidence y"
  "invoice.more (calculateTotals y) = invoice.more y"
  by (simp_all add: calculateTotals_def Let_def split: option.splits)

lemma toUpperCase_Nil: "(toUpperCase s = []) = (s = [])"
  by (simp add: toUpperCase_def)

lemma normalizePartyVat_idem: "normalizePartyVat (normalizePartyVat p) = normalizePartyVat p"
  by (cases "vatNumber p")
     (auto simp add: normalizePartyVat_def truthyStr_def normalizeVATNumber_idem)


lemma normalizeInvoice_fields:
  "currency (normalizeInvoice x) =
     Some (toUpperCase (if truthyStr (currency x) then the (currency x) else ''EUR''))"
  "supplier (normalizeInvoice x) = map_option normalizePartyVat (supplier x)"
  "customer (normalizeInvoice x) = map_option normalizePartyVat (customer x)"
  "iban (normalizeInvoice x) =
     (if truthyStr (iban x) then map_option normalizeIBAN (iban x) else iban x)"
  "lines (normalizeInvoice x) = map normalizeLine (lines x)"
  "subtotalExclVat (normalizeInvoice x) =
     (case subtotalExclVat x of
        Some s \<Rightarrow> Some s
      | None \<Rightarrow> if lines x \<noteq> []
                then Some (roundTo2Decimals (sumLineTotals (map normalizeLine (lines x))))
                else None)"
  "vatTotal (normalizeInvoice x) =
     (case vatTotal x of
        Some v \<Rightarrow> Some v
      | None \<Rightarrow> if lines x \<noteq> []
                then Some (roundTo2Decimals (sumVatExact (map normalizeLine (lines x))))
                else None)"
  "totalInclVat (normalizeInvoice x) =
     (case totalInclVat x of
        Some t \<Rightarrow> Some t
      | None \<Rightarrow>
          (case (subtotalExclVat (normalizeInvoice x), vatTotal (normalizeInvoice x)) of
             (Some s, Some v) \<Rightarrow> Some (roundTo2Decimals (s + v))
           | _ \<Rightarrow> None))"
  "invoiceNumber (normalizeInvoice x) = invoiceNumber x"
  "issueDate (normalizeInvoice x) = issueDate x"
  "dueDate (normalizeInvoice x) = dueDate x"
  "paymentReference (normalizeInvoice x) = paymentReference x"
  "bic (normalizeInvoice x) = bic x"
  "sourceType (normalizeInvoice x) = sourceType x"
  "sourceFile (normalizeInvoice x) = sourceFile x"
  "extractionConfidence (normalizeInvoice x) = extractionConfidence x"
  by (simp_all add: normalizeInvoice_def calculateTotals_fields normalizeCurrency_def
        normalizeIbanField_def normalizeLines_def Let_def truthyStr_def
        split: option.splits)

section \<open>The normalizer on the store agrees with the normalizer on values\<close>


lemma normalizeInvoiceStore_fst_fields:
  "currency (fst (normalizeInvoiceStore h x)) =
     Some (toUpperCase (if truthyStr (currency x) then the (currency x) else ''EUR''))"
  "supplier (fst (normalizeInvoiceStore h x)) = supplier x"
  "customer (fst (normalizeInvoiceStore h x)) = customer x"
  "iban (fst (normalizeInvoiceStore h x)) =
     (if truthyStr (iban x) then map_option normalizeIBAN (iban x) else iban x)"
  "lines (fst (normalizeInvoiceStore h x)) = map normalizeLine (lines x)"
  "subtotalExclVat (fst (normalizeInvoiceStore h x)) =
     (case subtotalExclVat x of
        Some s \<Rightarrow> Some s
      | None \<Rightarrow> if lines x \<noteq> []
                then Some (roundTo2Decimals (sumLineTotals (map normalizeLine (lines x))))
                else None)"
  "vatTotal (fst (normalizeInvoiceStore h x)) =
     (case vatTotal x of
        Some v \<Rightarrow> Some v
      | None \<Rightarrow> if lines x \<noteq> []
                then Some (roundTo2Decimals (sumVatExact (map normalizeLine (lines x))))
                else None)"
  "totalInclVat (fst (normalizeInvoiceStore h x)) =
     (case totalInclVat x of
        Some t \<Rightarrow> Some t
      | None \<Rightarrow>
          (case (subtotalExclVat (fst (normalizeInvoiceStore h x)),
                 vatTotal (fst (normalizeInvoiceStore h x))) of
             (Some s, Some v) \<Rightarrow> Some (roundTo2Decimals (s + v))
           | _ \<Rightarrow> None))"
  "invoiceNumber (fst (normalizeInvoiceStore h x)) = invoiceNumber x"
  "issueDate (fst (normalizeInvoiceStore h x)) = issueDate x"
  "dueDate (fst (normalizeInvoiceStore h x)) = dueDate x"
  "paymentReference (fst (normalizeInvoiceStore h x)) = paymentReference x"
  "bic (fst (normalizeInvoiceStore h x)) = bic x"
  "sourceType (fst (normalizeInvoiceStore h x)) = sourceType x"
  "sourceFile (fst (normalizeInvoiceStore h x)) = sourceFile x"
  "extractionConfidence (fst (normalizeInvoiceStore h x)) = extractionConfidence x"
  by (simp_all add: normalizeInvoiceStore_def calculateTotals_fields normalizeCurrency_def
        normalizeIbanField_def normalizeLines_def Let_def truthyStr_def
        split: option.splits)

lemma normalizeInvoiceStore_snd:
  "snd (normalizeInvoiceStore h x) = assignVat (assignVat h (supplier x)) (customer x)"
  by (simp add: normalizeInvoiceStore_def normalizeCurrency_def Let_def)

lemma deref_fields:
  "invoiceNumber (deref h x) = invoiceNumber x"
  "issueDate (deref h x) = issueDate x"
  "dueDate (deref h x) = dueDate x"
  "currency (deref h x) = currency x"
  "supplier (deref h x) = (case supplier x of None \<Rightarrow> None | Some a \<Rightarrow> h a)"
  "customer (deref h x) = (case customer x of None \<Rightarrow> None | Some a \<Rightarrow> h a)"
  "paymentReference (deref h x) = paymentReference x"
  "iban (deref h x) = iban x"
  "bic (deref h x) = bic x"
  "lines (deref h x) = lines x"
  "subtotalExclVat (deref h x) = subtotalExclVat x"
  "vatTotal (deref h x) = vatTotal x"
  "totalInclVat (deref h x) = totalInclVat x"
  "sourceType (deref h x) = sourceType x"
  "sourceFile (deref h x) = sourceFile x"
  "extractionConfidence (deref h x) = extractionConfidence x"
  by (simp_all add: deref_def)

lemma assignVat_twice_supplier:
  "(case s of None \<Rightarrow> None | Some a \<Rightarrow> assignVat (assignVat h s) c a)
     = map_option normalizePartyVat (case s of None \<Rightarrow> None | Some a \<Rightarrow> h a)"
  by (auto simp add: assignVat_def normalizePartyVat_idem split: option.splits)

lemma assignVat_twice_customer:
  "(case c of None \<Rightarrow> None | Some a \<Rightarrow> assignVat (assignVat h s) c a)
     = map_option normalizePartyVat (case c of None \<Rightarrow> None | Some a \<Rightarrow> h a)"
  by (auto simp add: assignVat_def normalizePartyVat_idem split: option.splits)

lemma normalizeInvoiceStore_value:
  "deref (snd (normalizeInvoiceStore h x)) (fst (normalizeInvoiceStore h x))
     = normalizeInvoice (deref h x)"
proof (rule invoice.equality)
  show "supplier (deref (snd (normalizeInvoiceStore h x)) (fst (normalizeInvoiceStore h x)))
      = supplier (normalizeInvoice (deref h x))"
    by (simp add: deref_fields normalizeInvoice_fields normalizeInvoiceStore_fst_fields
          normalizeInvoiceStore_snd assignVat_twice_supplier)
  show "customer (deref (snd (normalizeInvoiceStore h x)) (fst (normalizeInvoiceStore h x)))
      = customer (normalizeInvoice (deref h x))"
    by (simp add: deref_fields normalizeInvoice_fields normalizeInvoiceStore_fst_fields
          normalizeInvoiceStore_snd assignVat_twice_customer)
  show s: "subtotalExclVat (deref (snd (normalizeInvoiceStore h x)) (fst (normalizeInvoiceStore h x)))
      = subtotalExclVat (normalizeInvoice (deref h x))"
    by (simp add: deref_fields normalizeInvoice_fields normalizeInvoiceStore_fst_fields
          split: option.splits)
  show v: "vatTotal (deref (snd (normalizeInvoiceStore h x)) (fst (normalizeInvoiceStore h x)))
      = vatTotal (normalizeInvoice (deref h x))"
    by (simp add: deref_fields normalizeInvoice_fields normalizeInvoiceStore_fst_fields
          split: option.splits)
  show "totalInclVat (deref (snd (normalizeInvoiceStore h x)) (fst (normalizeInvoiceStore h x)))
      = totalInclVat (normalizeInvoice (deref h x))"
    using s v
    by (simp add: deref_fields normalizeInvoice_fields(8)[of "deref h x"]
          normalizeInvoiceStore_fst_fields(8)[of h x] cong: option.case_cong)
qed (simp_all add: deref_fields normalizeInvoice_fields normalizeInvoiceStore_fst_fields)

section \<open>The findings of each check of the validator\<close>


lemma finding_simps:
  "code (finding c s p) = c" "severity (finding c s p) = s" "fieldPath (finding c s p) = Some p"
  by (simp_all add: finding_def)

lemma checkInvoiceId_elem:
  "e \<in> set (checkInvoiceId x) \<Longrightarrow> code e = ''WARN_MISSING_INVOICE_ID'' \<and> severity e = Warning"
  by (auto simp add: checkInvoiceId_def finding_simps split: if_splits)

lemma checkIssueDate_elem:
  "e \<in> set (checkIssueDate now x) \<Longrightarrow>
     (code e = ''WARN_MISSING_ISSUE_DATE'' \<and> severity e = Warning)
   \<or> (code e = ''ERR_INVALID_ISSUE_DATE'' \<and> severity e = Error)
   \<or> (code e = ''ERR_FUTURE_ISSUE_DATE'' \<and> severity e = Warning)"
  by (auto simp add: checkIssueDate_def finding_simps split: if_splits option.splits)

lemma checkSupplierName_elem:
  "e \<in> set (checkSupplierName x) \<Longrightarrow> code e = ''WARN_MISSING_SUPPLIER_NAME'' \<and> severity e = Warning"
  by (auto simp add: checkSupplierName_def finding_simps split: if_splits)

lemma checkSupplierCountry_elem:
  "e \<in> set (checkSupplierCountry x) \<Longrightarrow> code e = ''WARN_MISSING_SUPPLIER_COUNTRY'' \<and> severity e = Warning"
  by (auto simp add: checkSupplierCountry_def finding_simps split: if_splits)

lemma checkCustomerName_elem:
  "e \<in> set (checkCustomerName x) \<Longrightarrow> code e = ''WARN_MISSING_CUSTOMER_NAME'' \<and> severity e = Warning"
  by (auto simp add: checkCustomerName_def finding_simps split: if_splits)

lemma checkHasLines_elem:
  "e \<in> set (checkHasLines x) \<Longrightarrow> code e = ''WARN_NO_INVOICE_LINES'' \<and> severity e = Warning"
  by (auto simp add: checkHasLines_def finding_simps split: if_splits)

lemma checkLine_shape:
  "\<exists>c. checkLine i l =
     (if blankStr (description l)
      then [finding ''WARN_MISSING_LINE_DESCRIPTION'' Warning
              (''InvoiceLine['' @ showNat i @ '']'' @ ''.Item.Description'')]
      else [])
     @ (if c then [finding ''ERR_INVALID_LINE_AMOUNT'' Error
              (''InvoiceLine['' @ showNat i @ '']'' @ ''.LineExtensionAmount'')]
        else [])"
proof (cases "quantity l")
  case None
  then show ?thesis unfolding checkLine_def Let_def by (intro exI[of _ False]) simp
next
  case q: (Some q)
  show ?thesis
  proof (cases "unitPrice l")
    case None
    with q show ?thesis unfolding checkLine_def Let_def by (intro exI[of _ False]) simp
  next
    case p: (Some p)
    show ?thesis
    proof (cases "lineTotal l")
      case None
      with q p show ?thesis unfolding checkLine_def Let_def by (intro exI[of _ False]) simp
    next
      case (Some t)
      with q p show ?thesis unfolding checkLine_def Let_def
        by (intro exI[of _ "\<bar>roundTo2Decimals (numOr (Some q) 0 * numOr (Some p) 0) - roundTo2Decimals t\<bar> > 1 / 100"]) simp
    qed
  qed
qed

lemma checkLine_elem:
  "e \<in> set (checkLine i l) \<Longrightarrow>
     (code e = ''WARN_MISSING_LINE_DESCRIPTION'' \<and> severity e = Warning)
   \<or> (code e = ''ERR_INVALID_LINE_AMOUNT'' \<and> severity e = Error)"
proof -
  assume a: "e \<in> set (checkLine i l)"
  from checkLine_shape[of i l] obtain c where
    "checkLine i l =
     (if blankStr (description l)
      then [finding ''WARN_MISSING_LINE_DESCRIPTION'' Warning
              (''InvoiceLine['' @ showNat i @ '']'' @ ''.Item.Description'')]
      else [])
     @ (if c then [finding ''ERR_INVALID_LINE_AMOUNT'' Error
              (''InvoiceLine['' @ showNat i @ '']'' @ ''.LineExtensionAmount'')]
        else [])" by blast
  with a show ?thesis
    by (cases "blankStr (description l)"; cases c) (auto simp add: finding_simps)
qed

lemma checkLines_elem:
  "e \<in> set (checkLines x) \<Longrightarrow>
     (code e = ''WARN_MISSING_LINE_DESCRIPTION'' \<and> severity e = Warning)
   \<or> (code e = ''ERR_INVALID_LINE_AMOUNT'' \<and> severity e = Error)"
  unfolding checkLines_def using checkLine_elem by fastforce

lemma checkSubtotal_shape:
  "checkSubtotal x = [] \<or> checkSubtotal x =
     [finding ''ERR_INVALID_SUBTOTAL'' Error ''Invoice.LegalMonetaryTotal.TaxExclusiveAmount'']"
  by (simp add: checkSubtotal_def Let_def split: option.splits)

lemma checkVatTotal_shape:
  "checkVatTotal x = [] \<or> checkVatTotal x =
     [finding ''ERR_INVALID_VAT_TOTAL'' Error ''Invoice.TaxTotal.TaxAmount'']"
  by (simp add: checkVatTotal_def Let_def split: option.splits)

lemma checkTotalInclVat_shape:
  "checkTotalInclVat x = [] \<or> checkTotalInclVat x =
     [finding ''ERR_INVALID_TOTAL'' Error ''Invoice.LegalMonetaryTotal.TaxInclusiveAmount'']"
  by (simp add: checkTotalInclVat_def Let_def split: option.splits)

lemma checkSubtotal_elem:
  "e \<in> set (checkSubtotal x) \<Longrightarrow> code e = ''ERR_INVALID_SUBTOTAL'' \<and> severity e = Error"
  using checkSubtotal_shape[of x] by (auto simp add: finding_simps)

lemma checkVatTotal_elem:
  "e \<in> set (checkVatTotal x) \<Longrightarrow> code e = ''ERR_INVALID_VAT_TOTAL'' \<and> severity e = Error"
  using checkVatTotal_shape[of x] by (auto simp add: finding_simps)

lemma checkTotalInclVat_elem:
  "e \<in> set (checkTotalInclVat x) \<Longrightarrow> code e = ''ERR_INVALID_TOTAL'' \<and> severity e = Error"
  using checkTotalInclVat_shape[of x] by (auto simp add: finding_simps)

lemma validateVATNumberFormat_cases:
  "validateVATNumberFormat v r = None
   \<or> validateVATNumberFormat v r = Some (finding ''ERR_INVALID_VAT_FORMAT'' Error (vatFieldPath r))"
  by (simp add: validateVATNumberFormat_def Let_def)

lemma validateVATNumberFormat_Some:
  "validateVATNumberFormat v r = Some e \<Longrightarrow>
     code e = ''ERR_INVALID_VAT_FORMAT'' \<and> severity e = Error"
  using validateVATNumberFormat_cases[of v r] by (auto simp add: finding_simps)

lemma checkVatNumber_cases:
  "checkVatNumber p r = [] \<or> (\<exists>v e. validateVATNumberFormat v r = Some e \<and> checkVatNumber p r = [e])"
proof (cases "partyVatNumber p")
  case None
  then show ?thesis unfolding checkVatNumber_def by simp
next
  case (Some v)
  show ?thesis
  proof (cases "v = []")
    case True
    with Some show ?thesis unfolding checkVatNumber_def by simp
  next
    case False
    show ?thesis
    proof (cases "validateVATNumberFormat v r")
      case None
      with Some False have "checkVatNumber p r = []" unfolding checkVatNumber_def by simp
      then show ?thesis by blast
    next
      case (Some e)
      with \<open>partyVatNumber p = Some v\<close> False have "checkVatNumber p r = [e]"
        unfolding checkVatNumber_def by simp
      with Some show ?thesis by blast
    qed
  qed
qed

lemma checkVatNumber_elem:
  "e \<in> set (checkVatNumber p r) \<Longrightarrow> code e = ''ERR_INVALID_VAT_FORMAT'' \<and> severity e = Error"
  using checkVatNumber_cases[of p r] validateVATNumberFormat_Some by fastforce

lemma checkCurrency_elem:
  "e \<in> set (checkCurrency x) \<Longrightarrow> code e = ''WARN_NON_EUR_CURRENCY'' \<and> severity e = Warning"
  by (auto simp add: checkCurrency_def finding_simps split: if_splits option.splits)

lemma set_validateBusinessRules:
  "set (validateBusinessRules now x) =
     set (checkInvoiceId x) \<union> set (checkIssueDate now x) \<union> set (checkSupplierName x)
     \<union> set (checkSupplierCountry x) \<union> set (checkCustomerName x) \<union> set (checkHasLines x)
     \<union> set (checkLines x) \<union> set (checkTotals x)
     \<union> set (checkVatNumber (supplier x) SupplierRole)
     \<union> set (checkVatNumber (customer x) CustomerRole) \<union> set (checkCurrency x)"
  by (simp add: validateBusinessRules_def Un_assoc)

lemma set_checkTotals:
  "set (checkTotals x) =
     (if lines x \<noteq> [] then set (checkSubtotal x) \<union> set (checkVatTotal x) \<union> set (checkTotalInclVat x)
      else {})"
  by (auto simp add: checkTotals_def)


lemma validateBusinessRules_severity:
  "e \<in> set (validateBusinessRules now x) \<Longrightarrow>
     severity e = Warning
     \<or> code e \<in> {''ERR_INVALID_ISSUE_DATE'', ''ERR_INVALID_LINE_AMOUNT'', ''ERR_INVALID_SUBTOTAL'',
                  ''ERR_INVALID_VAT_TOTAL'', ''ERR_INVALID_TOTAL'', ''ERR_INVALID_VAT_FORMAT''}"
  unfolding set_validateBusinessRules set_checkTotals
  using checkInvoiceId_elem[of e x] checkIssueDate_elem[of e now x] checkSupplierName_elem[of e x]
    checkSupplierCountry_elem[of e x] checkCustomerName_elem[of e x] checkHasLines_elem[of e x]
    checkLines_elem[of e x] checkSubtotal_elem[of e x] checkVatTotal_elem[of e x]
    checkTotalInclVat_elem[of e x] checkVatNumber_elem[of e "supplier x" SupplierRole]
    checkVatNumber_elem[of e "customer x" CustomerRole] checkCurrency_elem[of e x]
  by (cases "lines x = []") auto

lemma isValid_iff: "isValid (buildValidationReport errs) = (\<forall>e \<in> set errs. severity e \<noteq> Error)"
  by (simp add: buildValidationReport_def Let_def filter_empty_conv)

lemma warnings_build: "warnings (buildValidationReport errs) = filter (\<lambda>e. severity e = Warning) errs"
  by (simp add: buildValidationReport_def Let_def)

lemma errors_build: "errors (buildValidationReport errs) = filter (\<lambda>e. severity e = Error) errs"
  by (simp add: buildValidationReport_def Let_def)

lemma missing_required_shape:
  assumes "blankStr (invoiceNumber x)" "issueDate x = None" "blankStr (partyName (supplier x))"
    "\<not> truthyStr (partyCountryCode (supplier x))" "blankStr (partyName (customer x))"
    "lines x = []"
  shows "validateBusinessRules now x =
     [finding ''WARN_MISSING_INVOICE_ID'' Warning ''Invoice.ID'',
      finding ''WARN_MISSING_ISSUE_DATE'' Warning ''Invoice.IssueDate'',
      finding ''WARN_MISSING_SUPPLIER_NAME'' Warning
        ''Invoice.AccountingSupplierParty.Party.PartyName.Name'',
      finding ''WARN_MISSING_SUPPLIER_COUNTRY'' Warning
        ''Invoice.AccountingSupplierParty.Party.PostalAddress.Country.IdentificationCode'',
      finding ''WARN_MISSING_CUSTOMER_NAME'' Warning
        ''Invoice.AccountingCustomerParty.Party.PartyName.Name'',
      finding ''WARN_NO_INVOICE_LINES'' Warning ''Invoice.InvoiceLine'']
     @ checkVatNumber (supplier x) SupplierRole @ checkVatNumber (customer x) CustomerRole
     @ checkCurrency x"
  using assms
  by (simp add: validateBusinessRules_def checkInvoiceId_def checkIssueDate_def
        checkSupplierName_def checkSupplierCountry_def checkCustomerName_def checkHasLines_def
        checkLines_def checkTotals_def)

lemma normalizeInvoiceStore_frame:
  "Some a \<noteq> supplier x \<Longrightarrow> Some a \<noteq> customer x \<Longrightarrow>
     snd (normalizeInvoiceStore h x) a = h a"
  by (auto simp add: normalizeInvoiceStore_snd assignVat_def split: option.splits)

section \<open>The codes of the checks other than the totals checks\<close>

lemma other_checks_codes:
  "code ` set (checkInvoiceId x) \<subseteq> otherCodes"
  "code ` set (checkIssueDate now x) \<subseteq> otherCodes"
  "code ` set (checkSupplierName x) \<subseteq> otherCodes"
  "code ` set (checkSupplierCountry x) \<subseteq> otherCodes"
  "code ` set (checkCustomerName x) \<subseteq> otherCodes"
  "code ` set (checkHasLines x) \<subseteq> otherCodes"
  "code ` set (checkLines x) \<subseteq> otherCodes"
  "code ` set (checkVatNumber p r) \<subseteq> otherCodes"
  "code ` set (checkCurrency x) \<subseteq> otherCodes"
proof -
  show "code ` set (checkInvoiceId x) \<subseteq> otherCodes"
    using checkInvoiceId_elem[of _ x] unfolding otherCodes_def by (intro image_subsetI) simp
  show "code ` set (checkIssueDate now x) \<subseteq> otherCodes"
    using checkIssueDate_elem[of _ now x] unfolding otherCodes_def by (intro image_subsetI) auto
  show "code ` set (checkSupplierName x) \<subseteq> otherCodes"
    using checkSupplierName_elem[of _ x] unfolding otherCodes_def by (intro image_subsetI) simp
  show "code ` set (checkSupplierCountry x) \<subseteq> otherCodes"
    using checkSupplierCountry_elem[of _ x] unfolding otherCodes_def by (intro image_subsetI) simp
  show "code ` set (checkCustomerName x) \<subseteq> otherCodes"
    using checkCustomerName_elem[of _ x] unfolding otherCodes_def by (intro image_subsetI) simp
  show "code ` set (checkHasLines x) \<subseteq> otherCodes"
    using checkHasLines_elem[of _ x] unfolding otherCodes_def by (intro image_subsetI) simp
  show "code ` set (checkLines x) \<subseteq> otherCodes"
    using checkLines_elem[of _ x] unfolding otherCodes_def by (intro image_subsetI) auto
  show "code ` set (checkVatNumber p r) \<subseteq> otherCodes"
    using checkVatNumber_elem[of _ p r] unfolding otherCodes_def by (intro image_subsetI) simp
  show "code ` set (checkCurrency x) \<subseteq> otherCodes"
    using checkCurrency_elem[of _ x] unfolding otherCodes_def by (intro image_subsetI) simp
qed

lemma totals_codes_not_other:
  "''ERR_INVALID_SUBTOTAL'' \<notin> otherCodes" "''ERR_INVALID_VAT_TOTAL'' \<notin> otherCodes"
  "''ERR_INVALID_TOTAL'' \<notin> otherCodes"
  by (simp_all add: otherCodes_def)

lemma code_set_if:
  "c \<in> code ` set (if C then [finding k s p] else []) \<longleftrightarrow> c = k \<and> C"
  by (cases C) (simp_all add: finding_simps)

section \<open>Merging the mapping fields\<close>

lemma pushAll_eq: "pushAll (m, P) fs = (m @ fs, P \<union> mf_field ` set fs)"
  unfolding pushAll_def by (induction fs arbitrary: m P) simp_all

lemma pushUnprocessed_shape:
  "\<exists>r. fst (pushUnprocessed (m, P) ex) = m @ r \<and> (\<forall>g \<in> set r. mf_field g \<notin> P)
       \<and> P \<subseteq> snd (pushUnprocessed (m, P) ex)"
  unfolding pushUnprocessed_def
proof (induction ex arbitrary: m P)
  case Nil
  then show ?case by simp
next
  case (Cons f ex)
  show ?case
  proof (cases "mf_field f \<in> P")
    case True
    then show ?thesis using Cons.IH[of m P] by simp
  next
    case False
    from Cons.IH[of "m @ [f]" "insert (mf_field f) P"] obtain r where
      r: "fst (foldl (\<lambda>(merged, processed) f.
              if mf_field f \<notin> processed
              then (merged @ [f], insert (mf_field f) processed)
              else (merged, processed)) (m @ [f], insert (mf_field f) P) ex) = (m @ [f]) @ r"
        "\<forall>g \<in> set r. mf_field g \<notin> insert (mf_field f) P"
        "insert (mf_field f) P \<subseteq> snd (foldl (\<lambda>(merged, processed) f.
              if mf_field f \<notin> processed
              then (merged @ [f], insert (mf_field f) processed)
              else (merged, processed)) (m @ [f], insert (mf_field f) P) ex)"
      by blast
    show ?thesis
      using False r by (intro exI[of _ "f # r"]) simp
  qed
qed

lemma pushNew_noop:
  "mf_field ` set fs \<subseteq> P \<Longrightarrow> pushNew (m, P) fs = (m, P)"
  unfolding pushNew_def by (induction fs) simp_all

lemma mergeAIMappingFields_shape:
  "\<exists>r. mergeAIMappingFields existing aiData src = aiFields aiData src @ r
       \<and> (\<forall>g \<in> set r. mf_field g \<notin> mf_field ` set (aiFields aiData src))"
proof -
  let ?fs = "aiFields aiData src"
  let ?P = "mf_field ` set ?fs"
  from pushUnprocessed_shape[of "?fs" ?P existing] obtain r where
    r: "fst (pushUnprocessed (?fs, ?P) existing) = ?fs @ r" "\<forall>g \<in> set r. mf_field g \<notin> ?P"
       "?P \<subseteq> snd (pushUnprocessed (?fs, ?P) existing)"
    by blast
  have "pushNew (pushUnprocessed (?fs, ?P) existing) ?fs = pushUnprocessed (?fs, ?P) existing"
    using pushNew_noop[OF r(3), of "fst (pushUnprocessed (?fs, ?P) existing)"] by simp
  then have "mergeAIMappingFields existing aiData src = ?fs @ r"
    using r(1) by (simp add: mergeAIMappingFields_def Let_def pushAll_eq)
  with r(2) show ?thesis by blast
qed

lemma aiFields_distinct: "distinct (map mf_field (aiFields aiData src))"
  by (simp add: aiFields_def aiField_def)

lemma aiFields_elem:
  "f \<in> set (aiFields aiData src) \<Longrightarrow> mf_confidence f = 9 / 10 \<and> mf_source f = src"
  by (auto simp add: aiFields_def aiField_def split: if_splits)

lemma filter_distinct_key:
  "distinct (map k xs) \<Longrightarrow> x \<in> set xs \<Longrightarrow> filter (\<lambda>g. k g = k x) xs = [x]"
proof (induction xs)
  case Nil
  then show ?case by simp
next
  case (Cons y ys)
  show ?case
  proof (cases "x = y")
    case True
    have "k y \<notin> k ` set ys" using Cons.prems(1) by simp
    then have "filter (\<lambda>g. k g = k y) ys = []"
      unfolding filter_empty_conv by (metis imageI)
    with True show ?thesis by simp
  next
    case False
    with Cons.prems have "x \<in> set ys" "k y \<noteq> k x" by auto
    with Cons show ?thesis by simp
  qed
qed

lemma mergeAIMappingFields_ai_entry:
  assumes "f \<in> set (aiFields aiData src)"
  shows "filter (\<lambda>g. mf_field g = mf_field f) (mergeAIMappingFields existing aiData src) = [f]"
proof -
  from mergeAIMappingFields_shape[of existing aiData src] obtain r where
    r: "mergeAIMappingFields existing aiData src = aiFields aiData src @ r"
       "\<forall>g \<in> set r. mf_field g \<notin> mf_field ` set (aiFields aiData src)"
    by blast
  have "filter (\<lambda>g. mf_field g = mf_field f) r = []"
    using r(2) assms by (auto simp add: filter_empty_conv)
  moreover have "filter (\<lambda>g. mf_field g = mf_field f) (aiFields aiData src) = [f]"
    using filter_distinct_key[OF aiFields_distinct assms] .
  ultimately show ?thesis unfolding r(1) by simp
qed

lemma strOr_truthy: "s \<noteq> [] \<Longrightarrow> strOr (Some s) b = Some s"
  by (simp add: strOr_def truthyStr_def)

lemma strOr_falsy: "\<not> truthyStr a \<Longrightarrow> strOr a b = b"
  by (simp add: strOr_def)

lemma mergeParty_fields:
  "\<exists>m. mergeParty (Some e) (Some a) = Some m
     \<and> name m = (if truthyStr (name a) then name a else name e)
     \<and> vatNumber m = (if truthyStr (vatNumber a) then vatNumber a else vatNumber e)
     \<and> kboNumber m = (if truthyStr (kboNumber a) then kboNumber a else kboNumber e)
     \<and> taxRegistrationId m
         = (if truthyStr (taxRegistrationId a) then taxRegistrationId a else taxRegistrationId e)
     \<and> address m \<noteq> None
     \<and> addressOf m street
         = (if truthyStr (addressOf a street) then addressOf a street else addressOf e street)
     \<and> addressOf m city
         = (if truthyStr (addressOf a city) then addressOf a city else addressOf e city)
     \<and> addressOf m postalCode
         = (if truthyStr (addressOf a postalCode) then addressOf a postalCode
            else addressOf e postalCode)
     \<and> addressOf m countryCode
         = (if truthyStr (addressOf a countryCode) then addressOf a countryCode
            else addressOf e countryCode)
     \<and> addressOf m country = None"
  by (simp add: mergeParty_def strOr_def addressOf_def)

lemma pushUnprocessed_filter:
  "filter (\<lambda>g. mf_field g = q) (fst (pushUnprocessed (m, P) ex))
     = filter (\<lambda>g. mf_field g = q) m
       @ (if q \<in> P then [] else take 1 (filter (\<lambda>g. mf_field g = q) ex))"
  unfolding pushUnprocessed_def
proof (induction ex arbitrary: m P)
  case Nil
  then show ?case by simp
next
  case (Cons f ex)
  show ?case
  proof (cases "mf_field f \<in> P")
    case True
    then have "q \<notin> P \<Longrightarrow> mf_field f \<noteq> q" by auto
    with True show ?thesis using Cons.IH[of m P] by auto
  next
    case False
    show ?thesis
      using False Cons.IH[of "m @ [f]" "insert (mf_field f) P"] by auto
  qed
qed

lemma mergeAIMappingFields_other_entry:
  assumes "q \<notin> mf_field ` set (aiFields aiData src)"
  shows "filter (\<lambda>g. mf_field g = q) (mergeAIMappingFields existing aiData src)
           = take 1 (filter (\<lambda>g. mf_field g = q) existing)"
proof -
  let ?fs = "aiFields aiData src"
  let ?P = "mf_field ` set ?fs"
  from pushUnprocessed_shape[of "?fs" ?P existing] have
    r: "?P \<subseteq> snd (pushUnprocessed (?fs, ?P) existing)"
    by blast
  have "pushNew (pushUnprocessed (?fs, ?P) existing) ?fs = pushUnprocessed (?fs, ?P) existing"
    using pushNew_noop[OF r, of "fst (pushUnprocessed (?fs, ?P) existing)"] by simp
  then have m: "mergeAIMappingFields existing aiData src = fst (pushUnprocessed (?fs, ?P) existing)"
    by (simp add: mergeAIMappingFields_def Let_def pushAll_eq)
  have "filter (\<lambda>g. mf_field g = q) ?fs = []"
    using assms by (auto simp add: filter_empty_conv)
  with assms show ?thesis unfolding m pushUnprocessed_filter by simp
qed

section \<open>Control flow of the AI enhancer\<close>

lemma aiTryBlock_cases:
  "aiTryBlock w key buf mimeType cand fs =
     (case callGeminiAPI w key (buildAIPrompt cand fs (extractText w mimeType buf))
             (extractText w mimeType buf) mimeType buf of
        Inl ThrownNullish \<Rightarrow> Inl (Failure ''TypeError'')
      | Inl (Failure m) \<Rightarrow> Inl (Failure m)
      | Inr None \<Rightarrow> Inl (Failure ''Gemini API returned no response'')
      | Inr (Some a) \<Rightarrow>
          Inr \<lparr>res_invoice = mergeAIResults (newDate w) cand a,
               res_mappingFields = mergeAIMappingFields fs a ''ai-gemini'',
               aiUsed = True\<rparr>)"
  by (simp add: aiTryBlock_def Let_def split: sum.splits failure.splits option.splits)

lemma aiTryBlock_not_nullish: "aiTryBlock w key buf mimeType cand fs \<noteq> Inl ThrownNullish"
  unfolding aiTryBlock_cases by (simp split: sum.splits failure.splits option.splits)

lemma parseWithAI_returns: "\<exists>r. parseWithAI w buf filename mimeType cand fs = Inr r"
proof (cases "aiTryBlock w (the (map_option trim (geminiApiKey w))) buf mimeType cand fs")
  case (Inl e)
  with aiTryBlock_not_nullish[of w "the (map_option trim (geminiApiKey w))" buf mimeType cand fs]
  obtain m where "e = Failure m" by (cases e) auto
  with Inl show ?thesis by (simp add: parseWithAI_def Let_def)
next
  case (Inr r)
  then show ?thesis by (simp add: parseWithAI_def Let_def)
qed

lemma parseWithAI_no_key:
  "\<not> truthyStr (map_option trim (geminiApiKey w)) \<Longrightarrow>
     parseWithAI w buf filename mimeType cand fs = Inr (unchangedResult cand fs)"
  by (simp add: parseWithAI_def Let_def)

lemma parseWithAI_call_fails:
  "serviceCall w buf mimeType cand fs = Inl e \<Longrightarrow>
     parseWithAI w buf filename mimeType cand fs = Inr (unchangedResult cand fs)"
  unfolding serviceCall_def parseWithAI_def Let_def aiTryBlock_cases
  by (cases e) simp_all

lemma parseWithAI_call_empty:
  "serviceCall w buf mimeType cand fs = Inr None \<Longrightarrow>
     parseWithAI w buf filename mimeType cand fs = Inr (unchangedResult cand fs)"
  unfolding serviceCall_def parseWithAI_def Let_def aiTryBlock_cases
  by simp

lemma parseWithAI_call_succeeds:
  "truthyStr (map_option trim (geminiApiKey w)) \<Longrightarrow>
   serviceCall w buf mimeType cand fs = Inr (Some a) \<Longrightarrow>
     parseWithAI w buf filename mimeType cand fs =
       Inr \<lparr>res_invoice = mergeAIResults (newDate w) cand a,
            res_mappingFields = mergeAIMappingFields fs a ''ai-gemini'',
            aiUsed = True\<rparr>"
  unfolding serviceCall_def parseWithAI_def Let_def aiTryBlock_cases
  by simp

lemma callGeminiAPI_fetch_fails:
  "fetch w (firstRequest key p t mimeType buf) = Inl e \<Longrightarrow>
     callGeminiAPI w key p t mimeType buf = Inl e"
  by (simp add: callGeminiAPI_def Let_def)

lemma callGeminiAPI_body_fails:
  "fetch w (firstRequest key p t mimeType buf) = Inr r \<Longrightarrow> ok r \<Longrightarrow> content r = Inl e \<Longrightarrow>
     callGeminiAPI w key p t mimeType buf = Inl e"
  by (simp add: callGeminiAPI_def Let_def)

lemma callGeminiAPI_empty_content:
  "fetch w (firstRequest key p t mimeType buf) = Inr r \<Longrightarrow> ok r \<Longrightarrow> content r = Inr c \<Longrightarrow>
   \<not> truthyStr c \<Longrightarrow>
     callGeminiAPI w key p t mimeType buf = Inl (Failure ''Gemini returned empty response'')"
  by (simp add: callGeminiAPI_def Let_def)

lemma callGeminiAPI_parse_fails:
  "fetch w (firstRequest key p t mimeType buf) = Inr r \<Longrightarrow> ok r \<Longrightarrow> content r = Inr (Some c) \<Longrightarrow>
   c \<noteq> [] \<Longrightarrow> jsonParse w (stripFences c) = Inl e \<Longrightarrow>
     callGeminiAPI w key p t mimeType buf = Inl (Failure ''Gemini returned invalid JSON response'')"
  by (simp add: callGeminiAPI_def Let_def truthyStr_def)

lemma callGeminiAPI_parse_succeeds:
  "fetch w (firstRequest key p t mimeType buf) = Inr r \<Longrightarrow> ok r \<Longrightarrow> content r = Inr (Some c) \<Longrightarrow>
   c \<noteq> [] \<Longrightarrow> jsonParse w (stripFences c) = Inr v \<Longrightarrow>
     callGeminiAPI w key p t mimeType buf = Inr v"
  by (simp add: callGeminiAPI_def Let_def truthyStr_def)

lemma callGeminiAPI_error_body_fails:
  "fetch w (firstRequest key p t mimeType buf) = Inr r \<Longrightarrow> \<not> ok r \<Longrightarrow> errorText r = Inl e \<Longrightarrow>
     callGeminiAPI w key p t mimeType buf = Inl e"
  by (simp add: callGeminiAPI_def Let_def)

lemma callGeminiAPI_no_retry:
  "fetch w (firstRequest key p t mimeType buf) = Inr r \<Longrightarrow> \<not> ok r \<Longrightarrow> errorText r = Inr txt \<Longrightarrow>
   mimeType \<noteq> pdfMime \<or> t = [] \<Longrightarrow>
     callGeminiAPI w key p t mimeType buf = Inl (Failure (''Gemini API error: '' @ txt))"
  by (auto simp add: callGeminiAPI_def Let_def)

lemma callGeminiAPI_retry:
  "fetch w (firstRequest key p t pdfMime buf) = Inr r \<Longrightarrow> \<not> ok r \<Longrightarrow> errorText r = Inr txt \<Longrightarrow>
   t \<noteq> [] \<Longrightarrow>
     callGeminiAPI w key p t pdfMime buf =
       (case fetch w (retryRequest key p t) of
          Inl e \<Rightarrow> Inl e
        | Inr retry \<Rightarrow>
            if ok retry then
              (case content retry of
                 Inl e \<Rightarrow> Inl e
               | Inr c \<Rightarrow> if truthyStr c then jsonParse w (stripFences (the c))
                          else Inl (Failure (''Gemini API error: '' @ txt)))
            else Inl (Failure (''Gemini API error: '' @ txt)))"
  by (simp add: callGeminiAPI_def Let_def firstRequest_def split: sum.splits)

lemma callGeminiAPI_retry_fetch_fails:
  "fetch w (firstRequest key p t pdfMime buf) = Inr r \<Longrightarrow> \<not> ok r \<Longrightarrow> errorText r = Inr txt \<Longrightarrow>
   t \<noteq> [] \<Longrightarrow> fetch w (retryRequest key p t) = Inl e \<Longrightarrow>
     callGeminiAPI w key p t pdfMime buf = Inl e"
  by (simp add: callGeminiAPI_retry)

lemma callGeminiAPI_retry_error_status:
  "fetch w (firstRequest key p t pdfMime buf) = Inr r \<Longrightarrow> \<not> ok r \<Longrightarrow> errorText r = Inr txt \<Longrightarrow>
   t \<noteq> [] \<Longrightarrow> fetch w (retryRequest key p t) = Inr r2 \<Longrightarrow> \<not> ok r2 \<Longrightarrow>
     callGeminiAPI w key p t pdfMime buf = Inl (Failure (''Gemini API error: '' @ txt))"
  by (simp add: callGeminiAPI_retry)

lemma callGeminiAPI_retry_body_fails:
  "fetch w (firstRequest key p t pdfMime buf) = Inr r \<Longrightarrow> \<not> ok r \<Longrightarrow> errorText r = Inr txt \<Longrightarrow>
   t \<noteq> [] \<Longrightarrow> fetch w (retryRequest key p t) = Inr r2 \<Longrightarrow> ok r2 \<Longrightarrow> content r2 = Inl e \<Longrightarrow>
     callGeminiAPI w key p t pdfMime buf = Inl e"
  by (simp add: callGeminiAPI_retry)

lemma callGeminiAPI_retry_empty_content:
  "fetch w (firstRequest key p t pdfMime buf) = Inr r \<Longrightarrow> \<not> ok r \<Longrightarrow> errorText r = Inr txt \<Longrightarrow>
   t \<noteq> [] \<Longrightarrow> fetch w (retryRequest key p t) = Inr r2 \<Longrightarrow> ok r2 \<Longrightarrow> content r2 = Inr c \<Longrightarrow>
   \<not> truthyStr c \<Longrightarrow>
     callGeminiAPI w key p t pdfMime buf = Inl (Failure (''Gemini API error: '' @ txt))"
  by (simp add: callGeminiAPI_retry)

lemma callGeminiAPI_retry_parse:
  "fetch w (firstRequest key p t pdfMime buf) = Inr r \<Longrightarrow> \<not> ok r \<Longrightarrow> errorText r = Inr txt \<Longrightarrow>
   t \<noteq> [] \<Longrightarrow> fetch w (retryRequest key p t) = Inr r2 \<Longrightarrow> ok r2 \<Longrightarrow> content r2 = Inr (Some c) \<Longrightarrow>
   c \<noteq> [] \<Longrightarrow>
     callGeminiAPI w key p t pdfMime buf = jsonParse w (stripFences c)"
  by (simp add: callGeminiAPI_retry truthyStr_def)


lemma callGeminiAPI_returns_iff:
  "(\<exists>v. callGeminiAPI w key p t mimeType buf = Inr v) \<longleftrightarrow>
     (\<exists>r c v. fetch w (firstRequest key p t mimeType buf) = Inr r \<and> ok r
        \<and> content r = Inr (Some c) \<and> c \<noteq> [] \<and> jsonParse w (stripFences c) = Inr v)
     \<or> (\<exists>r txt r2 c v. fetch w (firstRequest key p t mimeType buf) = Inr r \<and> \<not> ok r
        \<and> errorText r = Inr txt \<and> mimeType = pdfMime \<and> t \<noteq> []
        \<and> fetch w (retryRequest key p t) = Inr r2 \<and> ok r2
        \<and> content r2 = Inr (Some c) \<and> c \<noteq> [] \<and> jsonParse w (stripFences c) = Inr v)"
  (is "?L \<longleftrightarrow> ?A \<or> ?B")
proof (cases "fetch w (firstRequest key p t mimeType buf)")
  case (Inl e)
  then show ?thesis by (simp add: callGeminiAPI_fetch_fails)
next
  case (Inr r)
  note F = this
  show ?thesis
  proof (cases "ok r")
    case True
    show ?thesis
    proof (cases "content r")
      case (Inl e)
      with F True show ?thesis by (simp add: callGeminiAPI_body_fails)
    next
      case (Inr c)
      show ?thesis
      proof (cases "truthyStr c")
        case False
        with F True Inr show ?thesis
          by (auto simp add: callGeminiAPI_empty_content truthyStr_def)
      next
        case t: True
        then obtain s where c: "c = Some s" "s \<noteq> []"
          by (cases c) (simp_all add: truthyStr_def)
        show ?thesis
        proof (cases "jsonParse w (stripFences s)")
          case (Inl e)
          with F True Inr c show ?thesis by (simp add: callGeminiAPI_parse_fails)
        next
          case v: (Inr v)
          with F True Inr c show ?thesis by (simp add: callGeminiAPI_parse_succeeds)
        qed
      qed
    qed
  next
    case False
    show ?thesis
    proof (cases "errorText r")
      case (Inl e)
      with F False show ?thesis by (simp add: callGeminiAPI_error_body_fails)
    next
      case (Inr msg)
      show ?thesis
      proof (cases "mimeType = pdfMime \<and> t \<noteq> []")
        case n: False
        then have "mimeType \<noteq> pdfMime \<or> t = []" by simp
        from callGeminiAPI_no_retry[OF F False Inr this] n F False show ?thesis by auto
      next
        case y: True
        then have m: "mimeType = pdfMime" and t: "t \<noteq> []" by simp_all
        note R = callGeminiAPI_retry[OF F[unfolded m] False Inr t]
        show ?thesis
        proof (cases "fetch w (retryRequest key p t)")
          case (Inl e)
          with R F False m show ?thesis by simp
        next
          case r2: (Inr r2)
          show ?thesis
          proof (cases "ok r2")
            case False
            with R r2 F \<open>\<not> ok r\<close> m show ?thesis by simp
          next
            case o2: True
            show ?thesis
            proof (cases "content r2")
              case (Inl e)
              with R r2 o2 F False m show ?thesis by simp
            next
              case c2: (Inr c)
              show ?thesis
              proof (cases "truthyStr c")
                case False
                with R r2 o2 c2 F \<open>\<not> ok r\<close> m show ?thesis by (auto simp add: truthyStr_def)
              next
                case True
                then obtain s where c: "c = Some s" "s \<noteq> []"
                  by (cases c) (simp_all add: truthyStr_def)
                with R r2 o2 c2 True have "callGeminiAPI w key p t pdfMime buf = jsonParse w (stripFences s)"
                  by simp
                with r2 o2 c2 c F \<open>\<not> ok r\<close> m Inr t show ?thesis by simp
              qed
            qed
          qed
        qed
      qed
    qed
  qed
qed

section \<open>The serializer\<close>

lemma map_of_setProp: "map_of (setProp k v fs) k' = (if k' = k then Some v else map_of fs k')"
  by (simp add: setProp_def update_conv')

lemma taxTotal_lookup:
  "map_of (invoiceElement env x) ''cac:TaxTotal'' =
     Some (JArr (if length (buildTaxTotals (safeInvoice env x) (strOrLit (currency x) ''EUR'')) > 0
                 then buildTaxTotals (safeInvoice env x) (strOrLit (currency x) ''EUR'')
                 else [JObj [(''cbc:TaxAmount'', amount (strOrLit (currency x) ''EUR'') 0)]]))"
  by (simp add: invoiceElement_def Let_def map_of_setProp)

lemma getPath_taxTotal:
  "getPath [''Invoice'', ''cac:TaxTotal''] (convertToUBL env x) =
     Some (JArr (if length (buildTaxTotals (safeInvoice env x) (strOrLit (currency x) ''EUR'')) > 0
                 then buildTaxTotals (safeInvoice env x) (strOrLit (currency x) ''EUR'')
                 else [JObj [(''cbc:TaxAmount'', amount (strOrLit (currency x) ''EUR'') 0)]]))"
  by (simp add: convertToUBL_def taxTotal_lookup)

lemma safeInvoice_fields:
  "lines (safeInvoice env x) = lines x"
  "vatTotal (safeInvoice env x) = vatTotal x"
  "subtotalExclVat (safeInvoice env x) = subtotalExclVat x"
  "totalInclVat (safeInvoice env x) = totalInclVat x"
  by (simp_all add: safeInvoice_def)

lemma vatGroups_none:
  "\<forall>l \<in> set ls. vatRate l = None \<or> lineTotal l = None \<Longrightarrow> vatGroups ls = []"
proof -
  assume a: "\<forall>l \<in> set ls. vatRate l = None \<or> lineTotal l = None"
  have "foldl addVatGroup [] ls = []"
    using a
  proof (induction ls)
    case Nil
    then show ?case by simp
  next
    case (Cons l ls)
    then have "addVatGroup [] l = []"
      by (auto simp add: addVatGroup_def split: option.splits)
    with Cons show ?case by simp
  qed
  then show ?thesis by (simp add: vatGroups_def)
qed

lemma buildTaxTotals_no_groups:
  "\<forall>l \<in> set (lines x). vatRate l = None \<or> lineTotal l = None \<Longrightarrow>
     buildTaxTotals (safeInvoice env x) cur =
       (if truthyNum (vatTotal x)
        then [taxBlock cur (the (vatTotal x)) (numOr (subtotalExclVat x) 0) ''S'' 0] else [])"
  by (simp add: buildTaxTotals_def Let_def safeInvoice_fields vatGroups_none)

lemma roundTo2Decimals_zero: "roundTo2Decimals 0 = 0"
  using roundTo2Decimals_cents[of 0] by simp

lemma buildParty_default_supplier:
  "buildParty (Some defaultSupplier) =
     JObj [(''cac:PartyName'', JObj [(''cbc:Name'', JStr [])]),
           (''cac:PostalAddress'',
              JObj [(''cac:Country'', JObj [(''cbc:IdentificationCode'', JStr ''BE'')])])]"
  by (simp add: buildParty_def defaultSupplier_def Let_def partyName_def partyCountryCode_def
        partyAddress_def partyVatNumber_def truthyStr_def strOrLit_def setProp_def)

lemma buildParty_default_customer:
  "buildParty (Some defaultCustomer) =
     JObj [(''cac:PartyName'', JObj [(''cbc:Name'', JStr [])]),
           (''cac:PostalAddress'',
              JObj [(''cac:Country'', JObj [(''cbc:IdentificationCode'', JStr ''BE'')])])]"
  by (simp add: buildParty_def defaultCustomer_def Let_def partyName_def partyCountryCode_def
        partyAddress_def partyVatNumber_def truthyStr_def strOrLit_def setProp_def)

lemma legalMonetaryTotal_empty:
  "buildLegalMonetaryTotal (safeInvoice env emptyInvoice) cur =
     JObj [(''cbc:LineExtensionAmount'', amount cur 0),
           (''cbc:TaxExclusiveAmount'', amount cur 0),
           (''cbc:TaxInclusiveAmount'', amount cur 0),
           (''cbc:PayableAmount'', amount cur 0)]"
  by (simp add: buildLegalMonetaryTotal_def Let_def safeInvoice_fields emptyInvoice_def numOr_def
        roundTo2Decimals_zero)

lemma invoiceElement_empty:
  "invoiceElement env emptyInvoice =
     [(''@xmlns'', JStr ''urn:oasis:names:specification:ubl:schema:xsd:Invoice-2''),
      (''@xmlns:cac'', JStr ''urn:oasis:names:specification:ubl:schema:xsd:CommonAggregateComponents-2''),
      (''@xmlns:cbc'', JStr ''urn:oasis:names:specification:ubl:schema:xsd:CommonBasicComponents-2''),
      (''cbc:CustomizationID'',
         JStr ''urn:cen.eu:en16931:2017#compliant#urn:fdc:peppol.eu:2017:poacc:billing:3.0''),
      (''cbc:ProfileID'', JStr ''urn:fdc:peppol.eu:2017:poacc:billing:01:1.0''),
      (''cbc:ID'', JStr ''UNKNOWN''),
      (''cbc:IssueDate'', JStr (formatDateForUBL env (Some (currentTime env)))),
      (''cbc:DocumentCurrencyCode'', JStr ''EUR''),
      (''cbc:InvoiceTypeCode'', JObj [(''@_listID'', JStr ''UN/ECE 1001''), (''#'', JStr ''380'')]),
      (''cac:AccountingSupplierParty'', JObj [(''cac:Party'', buildParty (Some defaultSupplier))]),
      (''cac:AccountingCustomerParty'', JObj [(''cac:Party'', buildParty (Some defaultCustomer))]),
      (''cac:TaxTotal'', JArr [JObj [(''cbc:TaxAmount'', amount ''EUR'' 0)]]),
      (''cac:LegalMonetaryTotal'',
         JObj [(''cbc:LineExtensionAmount'', amount ''EUR'' 0),
               (''cbc:TaxExclusiveAmount'', amount ''EUR'' 0),
               (''cbc:TaxInclusiveAmount'', amount ''EUR'' 0),
               (''cbc:PayableAmount'', amount ''EUR'' 0)]),
      (''cac:InvoiceLine'', JArr [])]"
proof -
  have s: "invoiceNumber (safeInvoice env emptyInvoice) = Some ''UNKNOWN''"
    "issueDate (safeInvoice env emptyInvoice) = Some (Some (currentTime env))"
    "dueDate (safeInvoice env emptyInvoice) = None"
    "supplier (safeInvoice env emptyInvoice) = Some defaultSupplier"
    "customer (safeInvoice env emptyInvoice) = Some defaultCustomer"
    "lines (safeInvoice env emptyInvoice) = []"
    "currency emptyInvoice = None"
    by (simp_all add: safeInvoice_def emptyInvoice_def strOrLit_def)
  have t: "buildTaxTotals (safeInvoice env emptyInvoice) ''EUR'' = []"
    by (simp add: buildTaxTotals_def Let_def s vatGroups_def safeInvoice_fields truthyNum_def
          emptyInvoice_def)
  show ?thesis
    unfolding invoiceElement_def Let_def s
    by (simp add: strOrLit_def t legalMonetaryTotal_empty setProp_def)
qed

section \<open>Rounding to doubles\<close>

lemma bitlen_powi:
  assumes "0 < a"
  shows "(2::rat) powi (bitlen a - 1) \<le> of_int a" "of_int a < (2::rat) powi (bitlen a)"
proof -
  from bitlen_bounds[OF assms] have lo: "2 ^ nat (bitlen a - 1) \<le> a" and hi: "a < 2 ^ nat (bitlen a)"
    by simp_all
  have b1: "1 \<le> bitlen a" using assms by (simp add: bitlen_alt_def)
  have "(2::rat) powi (bitlen a - 1) = 2 ^ nat (bitlen a - 1)"
    using b1 by (simp add: power_int_def)
  also have "\<dots> = of_int (2 ^ nat (bitlen a - 1))" by simp
  also have "\<dots> \<le> of_int a" using lo by (simp only: of_int_le_iff)
  finally show "(2::rat) powi (bitlen a - 1) \<le> of_int a" .
  have "(of_int a :: rat) < of_int (2 ^ nat (bitlen a))" using hi by (simp only: of_int_less_iff)
  also have "\<dots> = 2 ^ nat (bitlen a)" by simp
  also have "\<dots> = (2::rat) powi (bitlen a)" using b1 by (simp add: power_int_def)
  finally show "of_int a < (2::rat) powi (bitlen a)" .
qed

lemma ilog2_bounds:
  assumes "0 < x"
  shows "2 powi (ilog2 x) \<le> x" "x < 2 powi (ilog2 x + 1)"
proof -
  obtain a b where q: "quotient_of x = (a, b)" by (cases "quotient_of x")
  have b: "0 < b" using q by (rule quotient_of_denom_pos)
  have x: "x = of_int a / of_int b" using q by (rule quotient_of_div)
  have a: "0 < a" using assms b unfolding x by (simp add: zero_less_divide_iff)
  let ?d = "bitlen a - bitlen b"
  note A = bitlen_powi[OF a] and B = bitlen_powi[OF b]
  have bpos: "(0::rat) < of_int b" using b by simp
  have up: "x < 2 powi (?d + 1)"
  proof -
    have "of_int a < (2::rat) powi (bitlen a)" by (rule A(2))
    also have "\<dots> = 2 powi (?d + 1) * 2 powi (bitlen b - 1)"
      by (simp add: power_int_add[symmetric])
    also have "\<dots> \<le> 2 powi (?d + 1) * of_int b"
      using B(1) by (intro mult_left_mono) simp_all
    finally show ?thesis unfolding x using bpos by (simp add: field_simps)
  qed
  have lo: "2 powi (?d - 1) < x"
  proof -
    have "2 powi (?d - 1) * of_int b < (2::rat) powi (?d - 1) * 2 powi (bitlen b)"
      using B(2) by (intro mult_strict_left_mono) simp_all
    also have "\<dots> = 2 powi (bitlen a - 1)" by (simp add: power_int_add[symmetric])
    also have "\<dots> \<le> of_int a" by (rule A(1))
    finally show ?thesis unfolding x using bpos by (simp add: field_simps)
  qed
  have e: "ilog2 x = (if 2 powi ?d \<le> x then ?d else ?d - 1)"
    by (simp add: ilog2_def q Let_def)
  show "2 powi (ilog2 x) \<le> x" unfolding e using lo by auto
  show "x < 2 powi (ilog2 x + 1)" unfolding e using up by auto
qed

lemma roundTiesToEven_error: "\<bar>of_int (roundTiesToEven r) - r\<bar> \<le> 1 / 2"
proof -
  have "of_int \<lfloor>r\<rfloor> \<le> r" "r < of_int \<lfloor>r\<rfloor> + 1" by linarith+
  then show ?thesis unfolding roundTiesToEven_def Let_def by (auto simp add: abs_le_iff)
qed

lemma roundTiesToEven_nonneg: "0 \<le> r \<Longrightarrow> 0 \<le> roundTiesToEven r"
  unfolding roundTiesToEven_def Let_def by auto

lemma fl_zero: "fl 0 = 0"
  by (simp add: fl_def)

lemma fl_nonneg: "0 \<le> x \<Longrightarrow> 0 \<le> fl x"
  unfolding fl_def Let_def
  by (auto intro!: mult_nonneg_nonneg roundTiesToEven_nonneg divide_nonneg_pos)

lemma fl_error_ulp:
  assumes "x \<noteq> 0"
  shows "\<bar>fl x - x\<bar> \<le> 2 powi (max (ilog2 \<bar>x\<bar>) (- 1022) - 53)"
proof -
  let ?e = "max (ilog2 \<bar>x\<bar>) (- 1022)"
  let ?u = "(2::rat) powi (?e - 52)"
  have u: "0 < ?u" by simp
  have "fl x - x = (of_int (roundTiesToEven (x / ?u)) - x / ?u) * ?u"
    using assms u by (simp add: fl_def Let_def field_simps)
  then have "\<bar>fl x - x\<bar> = \<bar>of_int (roundTiesToEven (x / ?u)) - x / ?u\<bar> * ?u"
    using u by (simp add: abs_mult)
  also have "\<dots> \<le> 1 / 2 * ?u"
    using roundTiesToEven_error[of "x / ?u"] u by (intro mult_right_mono) simp_all
  also have "\<dots> = 2 powi (?e - 53)"
  proof -
    have "(2::rat) powi ((?e - 53) + 1) = 2 powi (?e - 53) * 2 powi 1"
      by (rule power_int_add) simp
    moreover have "(?e - 53) + 1 = ?e - 52" by simp
    ultimately have "(2::rat) powi (?e - 52) = 2 powi (?e - 53) * 2" by simp
    then show ?thesis by simp
  qed
  finally show ?thesis .
qed

lemma fl_error_rel:
  assumes "2 powi (- 1022) \<le> \<bar>x\<bar>"
  shows "\<bar>fl x - x\<bar> \<le> \<bar>x\<bar> / 2 ^ 53"
proof -
  have "(0::rat) < 2 powi (- 1022)" by simp
  with assms have pos: "0 < \<bar>x\<bar>" by linarith
  then have nz: "x \<noteq> 0" by simp
  have le: "- 1022 \<le> ilog2 \<bar>x\<bar>"
  proof (rule ccontr)
    assume "\<not> - 1022 \<le> ilog2 \<bar>x\<bar>"
    then have "ilog2 \<bar>x\<bar> + 1 \<le> - 1022" by simp
    then have "(2::rat) powi (ilog2 \<bar>x\<bar> + 1) \<le> 2 powi (- 1022)"
      by (intro power_int_increasing) simp_all
    with ilog2_bounds(2)[OF pos] assms show False by linarith
  qed
  then have m: "max (ilog2 \<bar>x\<bar>) (- 1022) = ilog2 \<bar>x\<bar>" by simp
  have "\<bar>fl x - x\<bar> \<le> 2 powi (ilog2 \<bar>x\<bar> - 53)"
    using fl_error_ulp[OF nz] unfolding m .
  also have "\<dots> = 2 powi (ilog2 \<bar>x\<bar>) / 2 ^ 53"
    by (simp add: power_int_diff)
  also have "\<dots> \<le> \<bar>x\<bar> / 2 ^ 53"
    using ilog2_bounds(1)[OF pos] by (intro divide_right_mono) simp_all
  finally show ?thesis .
qed


lemma fl_error_abs: "\<bar>fl x - x\<bar> \<le> \<bar>x\<bar> / 2 ^ 53 + 1"
proof (cases "2 powi (- 1022) \<le> \<bar>x\<bar>")
  case True
  from fl_error_rel[OF True] show ?thesis by linarith
next
  case False
  show ?thesis
  proof (cases "x = 0")
    case True
    then show ?thesis by (simp add: fl_zero)
  next
    case nz: False
    then have pos: "0 < \<bar>x\<bar>" by simp
    have "ilog2 \<bar>x\<bar> \<le> - 1022"
    proof (rule ccontr)
      assume "\<not> ilog2 \<bar>x\<bar> \<le> - 1022"
      then have "- 1022 \<le> ilog2 \<bar>x\<bar>" by simp
      then have "(2::rat) powi (- 1022) \<le> 2 powi (ilog2 \<bar>x\<bar>)"
        by (intro power_int_increasing) simp_all
      with ilog2_bounds(1)[OF pos] False show False by linarith
    qed
    then have m: "max (ilog2 \<bar>x\<bar>) (- 1022) = - 1022" by simp
    have "\<bar>fl x - x\<bar> \<le> 2 powi (- 1075)"
      using fl_error_ulp[OF nz] unfolding m by simp
    also have "\<dots> \<le> 2 powi 0" by (intro power_int_increasing) simp_all
    finally have "\<bar>fl x - x\<bar> \<le> 1" by simp
    moreover have "0 \<le> \<bar>x\<bar> / 2 ^ 53" by simp
    ultimately show ?thesis by linarith
  qed
qed

lemma math_round_near:
  assumes "\<bar>p - of_int n\<bar> < 1 / 2"
  shows "math_round p = n"
proof -
  from assms have "of_int n \<le> p + 1 / 2" "p + 1 / 2 < of_int n + 1"
    by linarith+
  then show ?thesis unfolding math_round_def by linarith
qed

lemma cents_round_trip:
  assumes "\<bar>n\<bar> \<le> 2 ^ 50"
  shows "math_round (fl (fl (of_int n / 100) * 100)) = n"
proof (cases "n = 0")
  case True
  have "\<lfloor>1 / 2 :: rat\<rfloor> = 0" by linarith
  with True show ?thesis by (simp add: fl_zero math_round_def)
next
  case False
  let ?N = "\<bar>of_int n\<bar> :: rat"
  let ?y = "of_int n / 100 :: rat"
  let ?z = "fl ?y * 100"
  have N1: "1 \<le> ?N" using False by (simp flip: of_int_abs)
  have N50: "?N \<le> 2 ^ 50"
  proof -
    have "(of_int \<bar>n\<bar> :: rat) \<le> of_int (2 ^ 50)" using assms by (simp only: of_int_le_iff)
    then show ?thesis by simp
  qed
  have small: "(2::rat) powi (- 1022) \<le> 2 powi (- 7)"
    by (intro power_int_increasing) simp_all
  have s7: "(2::rat) powi (- 7) = 1 / 128" by (simp add: power_int_minus field_simps)
  have y: "\<bar>?y\<bar> = ?N / 100" by simp
  have "2 powi (- 1022) \<le> \<bar>?y\<bar>" unfolding y using small s7 N1 by linarith
  from fl_error_rel[OF this] have e1: "\<bar>fl ?y - ?y\<bar> \<le> ?N / 100 / 2 ^ 53" unfolding y .
  have "\<bar>?z - of_int n\<bar> = \<bar>(fl ?y - ?y) * 100\<bar>"
    by (rule arg_cong[where f = abs]) (simp add: field_simps)
  also have "\<dots> = \<bar>fl ?y - ?y\<bar> * 100" by (rule abs_mult_pos[symmetric]) simp
  finally have "\<bar>?z - of_int n\<bar> = \<bar>fl ?y - ?y\<bar> * 100" .
  with e1 have d1: "\<bar>?z - of_int n\<bar> \<le> ?N / 2 ^ 53" by simp
  have tiny: "?N / 2 ^ 53 \<le> ?N / 2" using N1 by simp
  have zlo: "?N / 2 \<le> \<bar>?z\<bar>" using d1 tiny by linarith
  have zhi: "\<bar>?z\<bar> \<le> 2 * ?N" using d1 tiny N1 by linarith
  have "2 powi (- 1022) \<le> \<bar>?z\<bar>" using zlo small s7 N1 by linarith
  from fl_error_rel[OF this] have "\<bar>fl ?z - ?z\<bar> \<le> \<bar>?z\<bar> / 2 ^ 53" .
  also have "\<dots> \<le> 2 * ?N / 2 ^ 53" using zhi by (intro divide_right_mono) simp_all
  finally have d2: "\<bar>fl ?z - ?z\<bar> \<le> 2 * ?N / 2 ^ 53" .
  have "\<bar>fl ?z - of_int n\<bar> \<le> \<bar>fl ?z - ?z\<bar> + \<bar>?z - of_int n\<bar>" by linarith
  also have "\<dots> \<le> 2 * ?N / 2 ^ 53 + ?N / 2 ^ 53" using d1 d2 by linarith
  also have "\<dots> = 3 * ?N / 2 ^ 53" by simp
  also have "\<dots> \<le> 3 * 2 ^ 50 / 2 ^ 53" using N50 by (intro divide_right_mono) simp_all
  also have "\<dots> < 1 / 2" by simp
  finally show ?thesis by (rule math_round_near)
qed

lemma roundTo2Decimals64_stable:
  assumes "\<bar>v\<bar> \<le> 10 ^ 12"
  shows "roundTo2Decimals64 (roundTo2Decimals64 v) = roundTo2Decimals64 v"
proof -
  let ?p = "fl (v * 100)"
  let ?n = "math_round ?p"
  have "\<bar>?p - v * 100\<bar> \<le> \<bar>v * 100\<bar> / 2 ^ 53 + 1" by (rule fl_error_abs)
  moreover have "\<bar>v * 100\<bar> \<le> 10 ^ 14" using assms by (simp add: abs_mult)
  moreover have "\<bar>v * 100\<bar> / 2 ^ 53 \<le> \<bar>v * 100\<bar>" by (simp add: field_simps)
  ultimately have p: "\<bar>?p\<bar> \<le> 2 * 10 ^ 14 + 1" by linarith
  have "of_int ?n \<le> ?p + 1 / 2" "?p + 1 / 2 < of_int ?n + 1"
    unfolding math_round_def by linarith+
  with p have "\<bar>of_int ?n :: rat\<bar> \<le> 2 * 10 ^ 14 + 2" by linarith
  also have "\<dots> \<le> 2 ^ 50" by simp
  finally have "(of_int \<bar>?n\<bar> :: rat) \<le> of_int (2 ^ 50)" by simp
  then have "\<bar>?n\<bar> \<le> 2 ^ 50" by (simp only: of_int_le_iff)
  from cents_round_trip[OF this] show ?thesis
    by (simp add: roundTo2Decimals64_def mul64_def div64_def)
qed

section \<open>The normalizer on doubles, field by field\<close>

lemma normalizeLine64_fields:
  "quantity (normalizeLine64 l) = Some (case quantity l of None \<Rightarrow> 1 | Some q \<Rightarrow> q)"
  "unitPrice (normalizeLine64 l) = unitPrice l"
  "lineTotal (normalizeLine64 l) =
     (case lineTotal l of
        Some t \<Rightarrow> Some t
      | None \<Rightarrow> (case unitPrice l of
                   Some p \<Rightarrow> Some (roundTo2Decimals64
                                     (mul64 p (case quantity l of None \<Rightarrow> 1 | Some q \<Rightarrow> q)))
                 | None \<Rightarrow> None))"
  "vatRate (normalizeLine64 l) = map_option roundTo2Decimals64 (vatRate l)"
  "vatCategory (normalizeLine64 l) =
     (if vatRate l \<noteq> None \<and> \<not> truthyStr (vatCategory l) then Some ''S'' else vatCategory l)"
  "unitOfMeasure (normalizeLine64 l) =
     (if \<not> truthyStr (unitOfMeasure l) then Some ''C62'' else unitOfMeasure l)"
  "description (normalizeLine64 l) = description l"
  "confidence (normalizeLine64 l) = confidence l"
  "source (normalizeLine64 l) = source l"
  by (simp_all add: normalizeLine64_def Let_def split: option.splits)

lemma calculateTotals64_fields:
  "subtotalExclVat (calculateTotals64 y) =
     (case subtotalExclVat y of
        Some s \<Rightarrow> Some s
      | None \<Rightarrow> if lines y \<noteq> [] then Some (roundTo2Decimals64 (sumLineTotals64 (lines y))) else None)"
  "vatTotal (calculateTotals64 y) =
     (case vatTotal y of
        Some v \<Rightarrow> Some v
      | None \<Rightarrow> if lines y \<noteq> [] then Some (roundTo2Decimals64 (sumVatExact64 (lines y))) else None)"
  "totalInclVat (calculateTotals64 y) =
     (case totalInclVat y of
        Some t \<Rightarrow> Some t
      | None \<Rightarrow>
          (case (subtotalExclVat (calculateTotals64 y), vatTotal (calculateTotals64 y)) of
             (Some s, Some v) \<Rightarrow> Some (roundTo2Decimals64 (add64 s v))
           | _ \<Rightarrow> None))"
  "lines (calculateTotals64 y) = lines y"
  "invoiceNumber (calculateTotals64 y) = invoiceNumber y"
  "issueDate (calculateTotals64 y) = issueDate y"
  "dueDate (calculateTotals64 y) = dueDate y"
  "currency (calculateTotals64 y) = currency y"
  "supplier (calculateTotals64 y) = supplier y"
  "customer (calculateTotals64 y) = customer y"
  "paymentReference (calculateTotals64 y) = paymentReference y"
  "iban (calculateTotals64 y) = iban y"
  "bic (calculateTotals64 y) = bic y"
  "sourceType (calculateTotals64 y) = sourceType y"
  "sourceFile (calculateTotals64 y) = sourceFile y"
  "extractionConfidence (calculateTotals64 y) = extractionConfidence y"
  "invoice.more (calculateTotals64 y) = invoice.more y"
  by (simp_all add: calculateTotals64_def Let_def split: option.splits)

lemma normalizeInvoice64_fields:
  "currency (normalizeInvoice64 x) =
     Some (toUpperCase (if truthyStr (currency x) then the (currency x) else ''EUR''))"
  "supplier (normalizeInvoice64 x) = map_option normalizePartyVat (supplier x)"
  "customer (normalizeInvoice64 x) = map_option normalizePartyVat (customer x)"
  "iban (normalizeInvoice64 x) =
     (if truthyStr (iban x) then map_option normalizeIBAN (iban x) else iban x)"
  "lines (normalizeInvoice64 x) = map normalizeLine64 (lines x)"
  "subtotalExclVat (normalizeInvoice64 x) =
     (case subtotalExclVat x of
        Some s \<Rightarrow> Some s
      | None \<Rightarrow> if lines x \<noteq> []
                then Some (roundTo2Decimals64 (sumLineTotals64 (map normalizeLine64 (lines x))))
                else None)"
  "vatTotal (normalizeInvoice64 x) =
     (case vatTotal x of
        Some v \<Rightarrow> Some v
      | None \<Rightarrow> if lines x \<noteq> []
                then Some (roundTo2Decimals64 (sumVatExact64 (map normalizeLine64 (lines x))))
                else None)"
  "totalInclVat (normalizeInvoice64 x) =
     (case totalInclVat x of
        Some t \<Rightarrow> Some t
      | None \<Rightarrow>
          (case (subtotalExclVat (normalizeInvoice64 x), vatTotal (normalizeInvoice64 x)) of
             (Some s, Some v) \<Rightarrow> Some (roundTo2Decimals64 (add64 s v))
           | _ \<Rightarrow> None))"
  "invoiceNumber (normalizeInvoice64 x) = invoiceNumber x"
  "issueDate (normalizeInvoice64 x) = issueDate x"
  "dueDate (normalizeInvoice64 x) = dueDate x"
  "paymentReference (normalizeInvoice64 x) = paymentReference x"
  "bic (normalizeInvoice64 x) = bic x"
  "sourceType (normalizeInvoice64 x) = sourceType x"
  "sourceFile (normalizeInvoice64 x) = sourceFile x"
  "extractionConfidence (normalizeInvoice64 x) = extractionConfidence x"
  by (simp_all add: normalizeInvoice64_def calculateTotals64_fields normalizeCurrency_def
        normalizeIbanField_def normalizeLines64_def Let_def truthyStr_def
        split: option.splits)

text \<open>A second pass changes nothing of a line but, possibly, its VAT rate.\<close>

lemma normalizeLine64_second_pass:
  "normalizeLine64 (normalizeLine64 l)
     = (normalizeLine64 l)\<lparr>vatRate := map_option roundTo2Decimals64 (vatRate (normalizeLine64 l))\<rparr>"
  by (rule invoiceLine.equality)
     (simp_all add: normalizeLine64_fields truthyStr_def split: option.splits)

lemma normalizeLine64_idem_iff:
  "normalizeLine64 (normalizeLine64 l) = normalizeLine64 l
     \<longleftrightarrow> (\<forall>r. vatRate l = Some r \<longrightarrow>
            roundTo2Decimals64 (roundTo2Decimals64 r) = roundTo2Decimals64 r)"
proof
  assume "normalizeLine64 (normalizeLine64 l) = normalizeLine64 l"
  then have "vatRate (normalizeLine64 (normalizeLine64 l)) = vatRate (normalizeLine64 l)" by simp
  then show "\<forall>r. vatRate l = Some r \<longrightarrow>
            roundTo2Decimals64 (roundTo2Decimals64 r) = roundTo2Decimals64 r"
    by (cases "vatRate l") (simp_all add: normalizeLine64_fields)
next
  assume "\<forall>r. vatRate l = Some r \<longrightarrow>
            roundTo2Decimals64 (roundTo2Decimals64 r) = roundTo2Decimals64 r"
  then have "map_option roundTo2Decimals64 (vatRate (normalizeLine64 l)) = vatRate (normalizeLine64 l)"
    by (cases "vatRate l") (simp_all add: normalizeLine64_fields)
  then show "normalizeLine64 (normalizeLine64 l) = normalizeLine64 l"
    unfolding normalizeLine64_second_pass[of l] by simp
qed

text \<open>A second pass changes nothing of the invoice but, possibly, its lines.\<close>

lemma normalizeInvoice64_second_pass:
  "normalizeInvoice64 (normalizeInvoice64 x)
     = (normalizeInvoice64 x)\<lparr>lines := map normalizeLine64 (lines (normalizeInvoice64 x))\<rparr>"
proof (rule invoice.equality)
  show "currency (normalizeInvoice64 (normalizeInvoice64 x))
      = currency ((normalizeInvoice64 x)\<lparr>lines := map normalizeLine64 (lines (normalizeInvoice64 x))\<rparr>)"
    by (cases "currency x")
       (simp_all add: normalizeInvoice64_fields truthyStr_def toUpperCase_idem toUpperCase_Nil)
  show "supplier (normalizeInvoice64 (normalizeInvoice64 x))
      = supplier ((normalizeInvoice64 x)\<lparr>lines := map normalizeLine64 (lines (normalizeInvoice64 x))\<rparr>)"
    by (simp add: normalizeInvoice64_fields option.map_comp comp_def normalizePartyVat_idem)
  show "customer (normalizeInvoice64 (normalizeInvoice64 x))
      = customer ((normalizeInvoice64 x)\<lparr>lines := map normalizeLine64 (lines (normalizeInvoice64 x))\<rparr>)"
    by (simp add: normalizeInvoice64_fields option.map_comp comp_def normalizePartyVat_idem)
  show "iban (normalizeInvoice64 (normalizeInvoice64 x))
      = iban ((normalizeInvoice64 x)\<lparr>lines := map normalizeLine64 (lines (normalizeInvoice64 x))\<rparr>)"
    by (cases "iban x") (simp_all add: normalizeInvoice64_fields truthyStr_def normalizeIBAN_idem)
  show "lines (normalizeInvoice64 (normalizeInvoice64 x))
      = lines ((normalizeInvoice64 x)\<lparr>lines := map normalizeLine64 (lines (normalizeInvoice64 x))\<rparr>)"
    by (simp add: normalizeInvoice64_fields)
  have s: "subtotalExclVat (normalizeInvoice64 (normalizeInvoice64 x))
      = subtotalExclVat (normalizeInvoice64 x)"
    by (simp add: normalizeInvoice64_fields split: option.splits)
  have v: "vatTotal (normalizeInvoice64 (normalizeInvoice64 x)) = vatTotal (normalizeInvoice64 x)"
    by (simp add: normalizeInvoice64_fields split: option.splits)
  have t: "totalInclVat (normalizeInvoice64 (normalizeInvoice64 x)) = totalInclVat (normalizeInvoice64 x)"
    unfolding normalizeInvoice64_fields(8)[of "normalizeInvoice64 x"] s v
    by (simp add: normalizeInvoice64_fields(8)[of x] split: option.splits)
  from s show "subtotalExclVat (normalizeInvoice64 (normalizeInvoice64 x))
      = subtotalExclVat ((normalizeInvoice64 x)\<lparr>lines := map normalizeLine64 (lines (normalizeInvoice64 x))\<rparr>)"
    by simp
  from v show "vatTotal (normalizeInvoice64 (normalizeInvoice64 x))
      = vatTotal ((normalizeInvoice64 x)\<lparr>lines := map normalizeLine64 (lines (normalizeInvoice64 x))\<rparr>)"
    by simp
  from t show "totalInclVat (normalizeInvoice64 (normalizeInvoice64 x))
      = totalInclVat ((normalizeInvoice64 x)\<lparr>lines := map normalizeLine64 (lines (normalizeInvoice64 x))\<rparr>)"
    by simp
qed (simp_all add: normalizeInvoice64_fields)

lemma map_map_eq_iff: "map f (map f xs) = map f xs \<longleftrightarrow> (\<forall>y \<in> set xs. f (f y) = f y)"
  by (induction xs) auto

lemma normalizeInvoice64_idem_iff:
  "normalizeInvoice64 (normalizeInvoice64 x) = normalizeInvoice64 x
     \<longleftrightarrow> (\<forall>l \<in> set (lines x). \<forall>r. vatRate l = Some r \<longrightarrow>
            roundTo2Decimals64 (roundTo2Decimals64 r) = roundTo2Decimals64 r)"
proof -
  have "normalizeInvoice64 (normalizeInvoice64 x) = normalizeInvoice64 x
      \<longleftrightarrow> map normalizeLine64 (lines (normalizeInvoice64 x)) = lines (normalizeInvoice64 x)"
  proof
    assume "normalizeInvoice64 (normalizeInvoice64 x) = normalizeInvoice64 x"
    then have "lines (normalizeInvoice64 (normalizeInvoice64 x)) = lines (normalizeInvoice64 x)"
      by simp
    then show "map normalizeLine64 (lines (normalizeInvoice64 x)) = lines (normalizeInvoice64 x)"
      by (simp add: normalizeInvoice64_fields(5)[of "normalizeInvoice64 x"])
  next
    assume "map normalizeLine64 (lines (normalizeInvoice64 x)) = lines (normalizeInvoice64 x)"
    then show "normalizeInvoice64 (normalizeInvoice64 x) = normalizeInvoice64 x"
      unfolding normalizeInvoice64_second_pass[of x] by simp
  qed
  also have "\<dots> \<longleftrightarrow> (\<forall>l \<in> set (lines x). normalizeLine64 (normalizeLine64 l) = normalizeLine64 l)"
    unfolding normalizeInvoice64_fields(5)[of x] by (rule map_map_eq_iff)
  finally show ?thesis unfolding normalizeLine64_idem_iff .
qed

section \<open>The validator on doubles: which check emits which code\<close>

lemma checkLine64_shape:
  "\<exists>c. checkLine64 i l =
     (if blankStr (description l)
      then [finding ''WARN_MISSING_LINE_DESCRIPTION'' Warning
              (''InvoiceLine['' @ showNat i @ '']'' @ ''.Item.Description'')]
      else [])
     @ (if c then [finding ''ERR_INVALID_LINE_AMOUNT'' Error
              (''InvoiceLine['' @ showNat i @ '']'' @ ''.LineExtensionAmount'')]
        else [])"
proof (cases "quantity l")
  case None
  then show ?thesis unfolding checkLine64_def Let_def by (intro exI[of _ False]) simp
next
  case q: (Some q)
  show ?thesis
  proof (cases "unitPrice l")
    case None
    with q show ?thesis unfolding checkLine64_def Let_def by (intro exI[of _ False]) simp
  next
    case p: (Some p)
    show ?thesis
    proof (cases "lineTotal l")
      case None
      with q p show ?thesis unfolding checkLine64_def Let_def by (intro exI[of _ False]) simp
    next
      case (Some t)
      with q p show ?thesis unfolding checkLine64_def Let_def
        by (intro exI[of _ "\<bar>sub64 (roundTo2Decimals64 (mul64 (numOr (Some q) 0) (numOr (Some p) 0)))
              (roundTo2Decimals64 t)\<bar> > cent64"]) simp
    qed
  qed
qed

lemma checkLine64_elem:
  "e \<in> set (checkLine64 i l) \<Longrightarrow>
     (code e = ''WARN_MISSING_LINE_DESCRIPTION'' \<and> severity e = Warning)
   \<or> (code e = ''ERR_INVALID_LINE_AMOUNT'' \<and> severity e = Error)"
proof -
  assume a: "e \<in> set (checkLine64 i l)"
  from checkLine64_shape[of i l] obtain c where
    "checkLine64 i l =
     (if blankStr (description l)
      then [finding ''WARN_MISSING_LINE_DESCRIPTION'' Warning
              (''InvoiceLine['' @ showNat i @ '']'' @ ''.Item.Description'')]
      else [])
     @ (if c then [finding ''ERR_INVALID_LINE_AMOUNT'' Error
              (''InvoiceLine['' @ showNat i @ '']'' @ ''.LineExtensionAmount'')]
        else [])" by blast
  with a show ?thesis
    by (cases "blankStr (description l)"; cases c) (auto simp add: finding_simps)
qed

lemma checkLines64_elem:
  "e \<in> set (checkLines64 x) \<Longrightarrow>
     (code e = ''WARN_MISSING_LINE_DESCRIPTION'' \<and> severity e = Warning)
   \<or> (code e = ''ERR_INVALID_LINE_AMOUNT'' \<and> severity e = Error)"
  unfolding checkLines64_def using checkLine64_elem by fastforce

lemma checkLines64_codes: "code ` set (checkLines64 x) \<subseteq> otherCodes"
  using checkLines64_elem[of _ x] unfolding otherCodes_def by (intro image_subsetI) auto

lemma set_validateBusinessRules64:
  "set (validateBusinessRules64 now x) =
     set (checkInvoiceId x) \<union> set (checkIssueDate now x) \<union> set (checkSupplierName x)
     \<union> set (checkSupplierCountry x) \<union> set (checkCustomerName x) \<union> set (checkHasLines x)
     \<union> set (checkLines64 x) \<union> set (checkTotals64 x)
     \<union> set (checkVatNumber (supplier x) SupplierRole)
     \<union> set (checkVatNumber (customer x) CustomerRole) \<union> set (checkCurrency x)"
  by (simp add: validateBusinessRules64_def Un_assoc)

lemma set_checkTotals64:
  "set (checkTotals64 x) =
     (if lines x \<noteq> []
      then set (checkSubtotal64 x) \<union> set (checkVatTotal64 x) \<union> set (checkTotalInclVat64 x)
      else {})"
  by (auto simp add: checkTotals64_def)

lemma emitted64_iff:
  "c \<in> code ` set (validateBusinessRules64 now x) \<longleftrightarrow>
     c \<in> code ` set (checkInvoiceId x) \<or> c \<in> code ` set (checkIssueDate now x)
     \<or> c \<in> code ` set (checkSupplierName x) \<or> c \<in> code ` set (checkSupplierCountry x)
     \<or> c \<in> code ` set (checkCustomerName x) \<or> c \<in> code ` set (checkHasLines x)
     \<or> c \<in> code ` set (checkLines64 x)
     \<or> (lines x \<noteq> [] \<and> (c \<in> code ` set (checkSubtotal64 x) \<or> c \<in> code ` set (checkVatTotal64 x)
           \<or> c \<in> code ` set (checkTotalInclVat64 x)))
     \<or> c \<in> code ` set (checkVatNumber (supplier x) SupplierRole)
     \<or> c \<in> code ` set (checkVatNumber (customer x) CustomerRole)
     \<or> c \<in> code ` set (checkCurrency x)"
  unfolding set_validateBusinessRules64 set_checkTotals64 by (cases "lines x = []") auto

lemma totals64_emitted_iff:
  assumes "c \<notin> otherCodes"
  shows "c \<in> code ` set (validateBusinessRules64 now x) \<longleftrightarrow>
     lines x \<noteq> [] \<and> (c \<in> code ` set (checkSubtotal64 x) \<or> c \<in> code ` set (checkVatTotal64 x)
           \<or> c \<in> code ` set (checkTotalInclVat64 x))"
proof -
  have n1: "c \<notin> code ` set (checkInvoiceId x)"
    using assms other_checks_codes(1)[of x] by (rule contra_subsetD[rotated])
  have n2: "c \<notin> code ` set (checkIssueDate now x)"
    using assms other_checks_codes(2)[of now x] by (rule contra_subsetD[rotated])
  have n3: "c \<notin> code ` set (checkSupplierName x)"
    using assms other_checks_codes(3)[of x] by (rule contra_subsetD[rotated])
  have n4: "c \<notin> code ` set (checkSupplierCountry x)"
    using assms other_checks_codes(4)[of x] by (rule contra_subsetD[rotated])
  have n5: "c \<notin> code ` set (checkCustomerName x)"
    using assms other_checks_codes(5)[of x] by (rule contra_subsetD[rotated])
  have n6: "c \<notin> code ` set (checkHasLines x)"
    using assms other_checks_codes(6)[of x] by (rule contra_subsetD[rotated])
  have n7: "c \<notin> code ` set (checkLines64 x)"
    using assms checkLines64_codes[of x] by (rule contra_subsetD[rotated])
  have n8: "c \<notin> code ` set (checkVatNumber (supplier x) SupplierRole)"
    using assms other_checks_codes(8)[of "supplier x" SupplierRole]
    by (rule contra_subsetD[rotated])
  have n9: "c \<notin> code ` set (checkVatNumber (customer x) CustomerRole)"
    using assms other_checks_codes(8)[of "customer x" CustomerRole]
    by (rule contra_subsetD[rotated])
  have n10: "c \<notin> code ` set (checkCurrency x)"
    using assms other_checks_codes(9)[of x] by (rule contra_subsetD[rotated])
  show ?thesis unfolding emitted64_iff[of c now x]
    using n1 n2 n3 n4 n5 n6 n7 n8 n9 n10 by simp
qed

lemma checkSubtotal64_if:
  "checkSubtotal64 x =
     (if \<exists>s. subtotalExclVat x = Some s \<and> \<bar>sub64 (sumLineTotals64 (lines x)) s\<bar> > cent64
      then [finding ''ERR_INVALID_SUBTOTAL'' Error ''Invoice.LegalMonetaryTotal.TaxExclusiveAmount'']
      else [])"
  by (cases "subtotalExclVat x") (simp_all add: checkSubtotal64_def Let_def)

lemma checkVatTotal64_if:
  "checkVatTotal64 x =
     (if \<exists>v. vatTotal x = Some v \<and> sumVatRounded64 (lines x) > 0
              \<and> \<bar>sub64 (sumVatRounded64 (lines x)) v\<bar> > cent64
      then [finding ''ERR_INVALID_VAT_TOTAL'' Error ''Invoice.TaxTotal.TaxAmount'']
      else [])"
  by (cases "vatTotal x") (simp_all add: checkVatTotal64_def Let_def)

lemma checkTotalInclVat64_if:
  "checkTotalInclVat64 x =
     (if \<exists>s v t. subtotalExclVat x = Some s \<and> vatTotal x = Some v \<and> totalInclVat x = Some t
              \<and> \<bar>sub64 (roundTo2Decimals64 (add64 s v)) (roundTo2Decimals64 t)\<bar> > cent64
      then [finding ''ERR_INVALID_TOTAL'' Error ''Invoice.LegalMonetaryTotal.TaxInclusiveAmount'']
      else [])"
  by (cases "subtotalExclVat x"; cases "vatTotal x"; cases "totalInclVat x")
     (simp_all add: checkTotalInclVat64_def Let_def)

lemma checkSubtotal64_code_iff:
  "c \<in> code ` set (checkSubtotal64 x) \<longleftrightarrow>
     c = ''ERR_INVALID_SUBTOTAL''
     \<and> (\<exists>s. subtotalExclVat x = Some s \<and> \<bar>sub64 (sumLineTotals64 (lines x)) s\<bar> > cent64)"
  unfolding checkSubtotal64_if by (rule code_set_if)

lemma checkVatTotal64_code_iff:
  "c \<in> code ` set (checkVatTotal64 x) \<longleftrightarrow>
     c = ''ERR_INVALID_VAT_TOTAL''
     \<and> (\<exists>v. vatTotal x = Some v \<and> sumVatRounded64 (lines x) > 0
              \<and> \<bar>sub64 (sumVatRounded64 (lines x)) v\<bar> > cent64)"
  unfolding checkVatTotal64_if by (rule code_set_if)

lemma checkTotalInclVat64_code_iff:
  "c \<in> code ` set (checkTotalInclVat64 x) \<longleftrightarrow>
     c = ''ERR_INVALID_TOTAL''
     \<and> (\<exists>s v t. subtotalExclVat x = Some s \<and> vatTotal x = Some v \<and> totalInclVat x = Some t
              \<and> \<bar>sub64 (roundTo2Decimals64 (add64 s v)) (roundTo2Decimals64 t)\<bar> > cent64)"
  unfolding checkTotalInclVat64_if by (rule code_set_if)


lemma vatTotal64_emitted_iff:
  "''ERR_INVALID_VAT_TOTAL'' \<in> code ` set (validateBusinessRules64 now x) \<longleftrightarrow>
     lines x \<noteq> []
     \<and> (\<exists>v. vatTotal x = Some v \<and> sumVatRounded64 (lines x) > 0
              \<and> \<bar>sub64 (sumVatRounded64 (lines x)) v\<bar> > cent64)"
  unfolding totals64_emitted_iff[OF totals_codes_not_other(2)]
    checkSubtotal64_code_iff checkVatTotal64_code_iff checkTotalInclVat64_code_iff
  by simp



section \<open>Sample values in doubles\<close>

text \<open>The doubles nearest to 0.1 and to 0.01, ties at the 53rd bit, and a large value.\<close>

lemma fl_samples:
  "fl (1 / 10) = 3602879701896397 / 36028797018963968"
  "fl (1 / 100) = 5764607523034235 / 576460752303423488"
  "fl 1 = 1" "fl (1 + 1 / 2 ^ 53) = 1" "fl (1 + 3 / 2 ^ 53) = 1 + 1 / 2 ^ 51"
  "fl (10 ^ 21) = 10 ^ 21" "roundTo2Decimals64 (10 ^ 21) = 999999999999999868928"
  by code_simp+

text \<open>
  The four lines of 0.50 at 21% VAT in doubles: the normalizer derives the
  totals 2.00, 0.42 and 2.42, the validator recomputes the VAT total 0.44 and
  rejects the derived one, as in exact arithmetic.
\<close>

lemma fourLines_in_doubles:
  "roundTo2Decimals64 (sumLineTotals64 (lines fourLines)) = 2"
  "roundTo2Decimals64 (sumVatExact64 (lines fourLines)) = fl (42 / 100)"
  "roundTo2Decimals64 (add64 2 (fl (42 / 100))) = fl (242 / 100)"
  "sumVatRounded64 (lines fourLines) = fl (44 / 100)"
  "fl (44 / 100) > 0 \<and> \<bar>sub64 (fl (44 / 100)) (fl (42 / 100))\<bar> > cent64"
  by code_simp+

lemma fourLines_rejected_in_doubles:
  "''ERR_INVALID_VAT_TOTAL'' \<in> code ` set (validateBusinessRules64 0
       (fourLines\<lparr>subtotalExclVat := Some 2, vatTotal := Some (fl (42 / 100)),
          totalInclVat := Some (fl (242 / 100))\<rparr>))"
proof -
  have l: "lines fourLines \<noteq> []"
    by (simp add: fourLines_def emptyInvoice_def)
  show ?thesis
    unfolding vatTotal64_emitted_iff using l fourLines_in_doubles(4,5) by simp
qed

section \<open>Claims\<close>

subsection \<open>C1: the shared rounding function\<close>

text \<open>
  C1, as stated, fails: \<^verbatim>\<open>roundTo2Decimals\<close> is not round-half-away-from-zero.
  At \<open>-0.125\<close>, a double, the code computes \<^verbatim>\<open>Math.round(-12.5) / 100\<close>, the
  double \<open>-0.12\<close>, while rounding the tie away from zero gives \<open>-0.13\<close>.
\<close>

theorem roundTo2Decimals_negative_tie_counterexample:
  "mul64 (- 1 / 8) 100 = - 25 / 2 \<and> math_round (- 25 / 2) = - 12
   \<and> roundTo2Decimals64 (- 1 / 8) = fl (- 12 / 100)
   \<and> roundHalfAwayFromZero2 (- 1 / 8) = - 13 / 100
   \<and> roundTo2Decimals64 (- 1 / 8) \<noteq> fl (- 13 / 100)
   \<and> \<bar>roundTo2Decimals64 (- 1 / 8) - (- 13 / 100)\<bar> > 1 / 200"
  by code_simp

text \<open>
  C1, amended: for every double \<open>v\<close> of absolute value at most \<^verbatim>\<open>1e300\<close>,
  \<^verbatim>\<open>roundTo2Decimals(v)\<close> is the double nearest to \<open>n / 100\<close>, where \<open>n\<close> is the
  integer nearest to the double product \<^verbatim>\<open>v * 100\<close>, a tie going upwards
  (towards plus infinity); for \<open>v \<ge> 0\<close> that is the product rounded half away
  from zero.  So \<open>0.125\<close> gives \<open>0.13\<close> and \<open>-0.125\<close> gives \<open>-0.12\<close>.  As the
  product is itself rounded, the result need not be the multiple of 0.01
  nearest to \<open>v\<close>: the double \<open>2.675\<close> gives \<open>2.68\<close>, the double \<open>1.005\<close> gives
  \<open>1\<close>.  A line with quantity 3, unit price 19.995 and no line total gets the
  derived line total 59.99.
\<close>

theorem roundTo2Decimals_half_up:
  "(\<bar>v\<bar> \<le> 10 ^ 300 \<longrightarrow>
      roundTo2Decimals64 v = fl (of_int (math_round (fl (v * 100))) / 100)
      \<and> of_int (math_round (fl (v * 100))) - 1 / 2 \<le> fl (v * 100)
      \<and> fl (v * 100) < of_int (math_round (fl (v * 100))) + 1 / 2
      \<and> (0 \<le> v \<longrightarrow>
           of_int (math_round (fl (v * 100))) / 100 = roundHalfAwayFromZero2 (fl (v * 100) / 100)))
   \<and> roundTo2Decimals64 (1 / 8) = fl (13 / 100)
   \<and> roundTo2Decimals64 (- 1 / 8) = fl (- 12 / 100)
   \<and> roundTo2Decimals64 (fl (2675 / 1000)) = fl (268 / 100)
   \<and> roundTo2Decimals64 (fl (1005 / 1000)) = 1
   \<and> (quantity l = Some 3 \<and> unitPrice l = Some (fl (19995 / 1000)) \<and> lineTotal l = None
        \<longrightarrow> lineTotal (normalizeLine64 l) = Some (fl (5999 / 100)))"
proof -
  let ?p = "fl (v * 100)"
  have a: "roundTo2Decimals64 v = fl (of_int (math_round ?p) / 100)"
    by (simp add: roundTo2Decimals64_def mul64_def div64_def)
  have b: "of_int (math_round ?p) - 1 / 2 \<le> ?p" "?p < of_int (math_round ?p) + 1 / 2"
    unfolding math_round_def by linarith+
  have c: "of_int (math_round ?p) / 100 = roundHalfAwayFromZero2 (?p / 100)" if "0 \<le> v"
  proof -
    from that have "0 \<le> v * 100" by simp
    then have p: "0 \<le> ?p" by (rule fl_nonneg)
    show ?thesis
    proof (cases "?p = 0")
      case True
      have "\<lfloor>1 / 2 :: rat\<rfloor> = 0" by linarith
      with True show ?thesis by (simp add: roundHalfAwayFromZero2_def math_round_def)
    next
      case False
      with p have "0 < ?p" by simp
      then show ?thesis by (simp add: roundHalfAwayFromZero2_def math_round_def)
    qed
  qed
  have d: "roundTo2Decimals64 (1 / 8) = fl (13 / 100)"
    "roundTo2Decimals64 (- 1 / 8) = fl (- 12 / 100)"
    "roundTo2Decimals64 (fl (2675 / 1000)) = fl (268 / 100)"
    "roundTo2Decimals64 (fl (1005 / 1000)) = 1"
    "roundTo2Decimals64 (mul64 (fl (19995 / 1000)) 3) = fl (5999 / 100)"
    by code_simp+
  have e: "quantity l = Some 3 \<and> unitPrice l = Some (fl (19995 / 1000)) \<and> lineTotal l = None
        \<longrightarrow> lineTotal (normalizeLine64 l) = Some (fl (5999 / 100))"
  proof (intro impI, elim conjE)
    assume q: "quantity l = Some 3" and u: "unitPrice l = Some (fl (19995 / 1000))"
      and t: "lineTotal l = None"
    show "lineTotal (normalizeLine64 l) = Some (fl (5999 / 100))"
      unfolding normalizeLine64_fields(3) q u t by (simp only: option.case d(5))
  qed
  from a b c d(1-4) e show ?thesis by blast
qed

theorem roundTo2Decimals_half_up_witness:
  "roundTo2Decimals64 (1 / 8) = fl (of_int (math_round (fl (1 / 8 * 100))) / 100)
   \<and> math_round (fl (1 / 8 * 100)) = 13
   \<and> of_int (math_round (fl (1 / 8 * 100))) / 100 = roundHalfAwayFromZero2 (fl (1 / 8 * 100) / 100)
   \<and> lineTotal (normalizeLine64
        \<lparr>description = Some ''Widget'', quantity = Some 3, unitPrice = Some (fl (19995 / 1000)),
         unitOfMeasure = None, vatRate = Some 21, vatCategory = None, lineTotal = None,
         confidence = None, source = None\<rparr>) = Some (fl (5999 / 100))"
proof -
  let ?l = "\<lparr>description = Some ''Widget'', quantity = Some 3, unitPrice = Some (fl (19995 / 1000)),
         unitOfMeasure = None, vatRate = Some 21, vatCategory = None, lineTotal = None,
         confidence = None, source = None\<rparr>"
  have h: "\<bar>1 / 8 :: rat\<bar> \<le> 10 ^ 300" "(0::rat) \<le> 1 / 8" by simp_all
  have m: "math_round (fl (1 / 8 * 100)) = 13" by code_simp
  have p: "quantity ?l = Some 3 \<and> unitPrice ?l = Some (fl (19995 / 1000)) \<and> lineTotal ?l = None"
    by simp
  note T = roundTo2Decimals_half_up[of "1 / 8" ?l]
  from T h have 1: "roundTo2Decimals64 (1 / 8) = fl (of_int (math_round (fl (1 / 8 * 100))) / 100)"
    and 2: "of_int (math_round (fl (1 / 8 * 100))) / 100
              = roundHalfAwayFromZero2 (fl (1 / 8 * 100) / 100)"
    by blast+
  from T p have 3: "lineTotal (normalizeLine64 ?l) = Some (fl (5999 / 100))" by blast
  from 1 2 3 m show ?thesis by blast
qed

subsection \<open>C2: normalization is idempotent\<close>

text \<open>
  C2, as stated, fails: \<^verbatim>\<open>normalizeLine\<close> rounds the VAT rate again on every
  pass, and on doubles \<^verbatim>\<open>roundTo2Decimals\<close> is not idempotent.  For a line whose
  VAT rate is the double 39422533207684.516 the first pass gives
  39422533207684.52 and the second 39422533207684.53.
\<close>

theorem normalizeInvoice_second_pass_counterexample:
  "map vatRate (lines (normalizeInvoice64 largeRateInvoice))
     = [Some (fl (3942253320768452 / 100))]
   \<and> map vatRate (lines (normalizeInvoice64 (normalizeInvoice64 largeRateInvoice)))
     = [Some (fl (3942253320768453 / 100))]
   \<and> fl (3942253320768452 / 100) \<noteq> fl (3942253320768453 / 100)
   \<and> normalizeInvoice64 (normalizeInvoice64 largeRateInvoice) \<noteq> normalizeInvoice64 largeRateInvoice"
proof -
  have a: "map vatRate (lines (normalizeInvoice64 largeRateInvoice))
     = [Some (fl (3942253320768452 / 100))]"
    by code_simp
  have b: "map vatRate (lines (normalizeInvoice64 (normalizeInvoice64 largeRateInvoice)))
     = [Some (fl (3942253320768453 / 100))]"
    by code_simp
  have c: "fl (3942253320768452 / 100) \<noteq> fl (3942253320768453 / 100)"
    by code_simp
  from a b c have "normalizeInvoice64 (normalizeInvoice64 largeRateInvoice)
      \<noteq> normalizeInvoice64 largeRateInvoice"
    by auto
  with a b c show ?thesis by blast
qed

text \<open>
  C2, amended: \<^verbatim>\<open>normalizeInvoice(normalizeInvoice(x))\<close> equals
  \<^verbatim>\<open>normalizeInvoice(x)\<close> for every invoice \<open>x\<close> whose lines have VAT rates of
  absolute value at most \<^verbatim>\<open>1e12\<close>.  On every invoice a second pass changes no
  field other than the VAT rates of the lines (currency, dates, VAT numbers,
  IBAN, per-line defaults, derived line totals and the three header totals
  are stable), and it rounds each VAT rate once more; so, for VAT rates up to
  \<^verbatim>\<open>1e300\<close>, the second pass changes nothing exactly when
  \<^verbatim>\<open>roundTo2Decimals\<close> leaves every rounded VAT rate as it is.
\<close>

theorem normalizeInvoice_idempotent_for_bounded_rates:
  "((\<forall>l \<in> set (lines x). \<forall>r. vatRate l = Some r \<longrightarrow> \<bar>r\<bar> \<le> 10 ^ 12) \<longrightarrow>
       normalizeInvoice64 (normalizeInvoice64 x) = normalizeInvoice64 x)
   \<and> ((\<forall>l \<in> set (lines x). \<forall>r. vatRate l = Some r \<longrightarrow> \<bar>r\<bar> \<le> 10 ^ 300) \<longrightarrow>
        (normalizeInvoice64 (normalizeInvoice64 x) = normalizeInvoice64 x
           \<longleftrightarrow> (\<forall>l \<in> set (lines x). \<forall>r. vatRate l = Some r \<longrightarrow>
                  roundTo2Decimals64 (roundTo2Decimals64 r) = roundTo2Decimals64 r)))
   \<and> (normalizeInvoice64 (normalizeInvoice64 x))\<lparr>lines := []\<rparr> = (normalizeInvoice64 x)\<lparr>lines := []\<rparr>
   \<and> map (\<lambda>l. l\<lparr>vatRate := None\<rparr>) (lines (normalizeInvoice64 (normalizeInvoice64 x)))
       = map (\<lambda>l. l\<lparr>vatRate := None\<rparr>) (lines (normalizeInvoice64 x))
   \<and> map vatRate (lines (normalizeInvoice64 (normalizeInvoice64 x)))
       = map (map_option roundTo2Decimals64) (map vatRate (lines (normalizeInvoice64 x)))"
proof (intro conjI impI)
  assume b: "\<forall>l \<in> set (lines x). \<forall>r. vatRate l = Some r \<longrightarrow> \<bar>r\<bar> \<le> 10 ^ 12"
  show "normalizeInvoice64 (normalizeInvoice64 x) = normalizeInvoice64 x"
    unfolding normalizeInvoice64_idem_iff using b roundTo2Decimals64_stable by blast
next
  show "normalizeInvoice64 (normalizeInvoice64 x) = normalizeInvoice64 x
           \<longleftrightarrow> (\<forall>l \<in> set (lines x). \<forall>r. vatRate l = Some r \<longrightarrow>
                  roundTo2Decimals64 (roundTo2Decimals64 r) = roundTo2Decimals64 r)"
    by (rule normalizeInvoice64_idem_iff)
next
  show "(normalizeInvoice64 (normalizeInvoice64 x))\<lparr>lines := []\<rparr> = (normalizeInvoice64 x)\<lparr>lines := []\<rparr>"
    unfolding normalizeInvoice64_second_pass[of x] by simp
next
  show "map (\<lambda>l. l\<lparr>vatRate := None\<rparr>) (lines (normalizeInvoice64 (normalizeInvoice64 x)))
       = map (\<lambda>l. l\<lparr>vatRate := None\<rparr>) (lines (normalizeInvoice64 x))"
    unfolding normalizeInvoice64_fields(5)[of "normalizeInvoice64 x"]
    by (simp add: normalizeLine64_fields(5)[symmetric] normalizeInvoice64_fields(5)[of x]
          normalizeLine64_second_pass)
next
  show "map vatRate (lines (normalizeInvoice64 (normalizeInvoice64 x)))
       = map (map_option roundTo2Decimals64) (map vatRate (lines (normalizeInvoice64 x)))"
    unfolding normalizeInvoice64_fields(5)[of "normalizeInvoice64 x"]
    by (simp add: normalizeLine64_fields(4))
qed

theorem normalizeInvoice_idempotent_for_bounded_rates_witness:
  "normalizeInvoice64 (normalizeInvoice64 wrongVatInvoice) = normalizeInvoice64 wrongVatInvoice
   \<and> map vatRate (lines (normalizeInvoice64 wrongVatInvoice)) = [Some 21]
   \<and> map lineTotal (lines (normalizeInvoice64 wrongVatInvoice)) = [Some 100]"
proof -
  have b: "\<forall>l \<in> set (lines wrongVatInvoice). \<forall>r. vatRate l = Some r \<longrightarrow> \<bar>r\<bar> \<le> 10 ^ 12"
    by (simp add: wrongVatInvoice_def emptyInvoice_def simpleLine_def)
  from normalizeInvoice_idempotent_for_bounded_rates[of wrongVatInvoice] b
  have 1: "normalizeInvoice64 (normalizeInvoice64 wrongVatInvoice) = normalizeInvoice64 wrongVatInvoice"
    by blast
  have 2: "map vatRate (lines (normalizeInvoice64 wrongVatInvoice)) = [Some 21]"
    "map lineTotal (lines (normalizeInvoice64 wrongVatInvoice)) = [Some 100]"
    by code_simp+
  from 1 2 show ?thesis by blast
qed

subsection \<open>C8: missing required fields are warnings\<close>

text \<open>
  C8: every finding of \<^verbatim>\<open>validateBusinessRules\<close> for a missing required field
  (invoice number, issue date, supplier name, supplier country code, customer
  name, no lines) has severity warning; the report is valid exactly when no
  finding has severity error; and for an invoice missing all six, the six
  warnings are in the report and the report is valid unless a VAT-number
  format check, the only error check still reachable, fires.
\<close>

theorem required_field_findings_are_warnings:
  "(\<forall>e \<in> set (validateBusinessRules now x).
      code e \<in> {''WARN_MISSING_INVOICE_ID'', ''WARN_MISSING_ISSUE_DATE'',
                 ''WARN_MISSING_SUPPLIER_NAME'', ''WARN_MISSING_SUPPLIER_COUNTRY'',
                 ''WARN_MISSING_CUSTOMER_NAME'', ''WARN_NO_INVOICE_LINES''}
      \<longrightarrow> severity e = Warning)
   \<and> (isValid (buildValidationReport (validateBusinessRules now x))
        \<longleftrightarrow> (\<forall>e \<in> set (validateBusinessRules now x). severity e \<noteq> Error))
   \<and> (blankStr (invoiceNumber x) \<and> issueDate x = None \<and> blankStr (partyName (supplier x))
        \<and> \<not> truthyStr (partyCountryCode (supplier x)) \<and> blankStr (partyName (customer x))
        \<and> lines x = []
        \<longrightarrow> {''WARN_MISSING_INVOICE_ID'', ''WARN_MISSING_ISSUE_DATE'',
              ''WARN_MISSING_SUPPLIER_NAME'', ''WARN_MISSING_SUPPLIER_COUNTRY'',
              ''WARN_MISSING_CUSTOMER_NAME'', ''WARN_NO_INVOICE_LINES''}
              \<subseteq> code ` set (warnings (buildValidationReport (validateBusinessRules now x)))
            \<and> (isValid (buildValidationReport (validateBusinessRules now x))
                 \<longleftrightarrow> checkVatNumber (supplier x) SupplierRole = []
                      \<and> checkVatNumber (customer x) CustomerRole = []))"
proof (intro conjI impI ballI)
  fix e
  assume e: "e \<in> set (validateBusinessRules now x)"
    and c: "code e \<in> {''WARN_MISSING_INVOICE_ID'', ''WARN_MISSING_ISSUE_DATE'',
                 ''WARN_MISSING_SUPPLIER_NAME'', ''WARN_MISSING_SUPPLIER_COUNTRY'',
                 ''WARN_MISSING_CUSTOMER_NAME'', ''WARN_NO_INVOICE_LINES''}"
  from validateBusinessRules_severity[OF e] c show "severity e = Warning" by auto
next
  show "isValid (buildValidationReport (validateBusinessRules now x))
        \<longleftrightarrow> (\<forall>e \<in> set (validateBusinessRules now x). severity e \<noteq> Error)"
    by (rule isValid_iff)
next
  assume m: "blankStr (invoiceNumber x) \<and> issueDate x = None \<and> blankStr (partyName (supplier x))
        \<and> \<not> truthyStr (partyCountryCode (supplier x)) \<and> blankStr (partyName (customer x))
        \<and> lines x = []"
  then have s: "validateBusinessRules now x =
     [finding ''WARN_MISSING_INVOICE_ID'' Warning ''Invoice.ID'',
      finding ''WARN_MISSING_ISSUE_DATE'' Warning ''Invoice.IssueDate'',
      finding ''WARN_MISSING_SUPPLIER_NAME'' Warning
        ''Invoice.AccountingSupplierParty.Party.PartyName.Name'',
      finding ''WARN_MISSING_SUPPLIER_COUNTRY'' Warning
        ''Invoice.AccountingSupplierParty.Party.PostalAddress.Country.IdentificationCode'',
      finding ''WARN_MISSING_CUSTOMER_NAME'' Warning
        ''Invoice.AccountingCustomerParty.Party.PartyName.Name'',
      finding ''WARN_NO_INVOICE_LINES'' Warning ''Invoice.InvoiceLine'']
     @ checkVatNumber (supplier x) SupplierRole @ checkVatNumber (customer x) CustomerRole
     @ checkCurrency x"
    using missing_required_shape by blast
  show "{''WARN_MISSING_INVOICE_ID'', ''WARN_MISSING_ISSUE_DATE'',
              ''WARN_MISSING_SUPPLIER_NAME'', ''WARN_MISSING_SUPPLIER_COUNTRY'',
              ''WARN_MISSING_CUSTOMER_NAME'', ''WARN_NO_INVOICE_LINES''}
              \<subseteq> code ` set (warnings (buildValidationReport (validateBusinessRules now x)))"
    unfolding s warnings_build by (simp add: finding_simps)
  have cur: "\<forall>e \<in> set (checkCurrency x). severity e \<noteq> Error"
    using checkCurrency_elem by fastforce
  have vs: "(\<forall>e \<in> set (checkVatNumber p r). severity e \<noteq> Error) \<longleftrightarrow> checkVatNumber p r = []"
    for p r
  proof (cases "checkVatNumber p r = []")
    case True
    then show ?thesis by simp
  next
    case False
    with checkVatNumber_cases[of p r] obtain v e where
      "validateVATNumberFormat v r = Some e" "checkVatNumber p r = [e]" by blast
    with validateVATNumberFormat_Some[of v r e] show ?thesis by simp
  qed
  show "isValid (buildValidationReport (validateBusinessRules now x))
                 \<longleftrightarrow> checkVatNumber (supplier x) SupplierRole = []
                      \<and> checkVatNumber (customer x) CustomerRole = []"
  proof -
    have "isValid (buildValidationReport (validateBusinessRules now x))
        \<longleftrightarrow> (\<forall>e \<in> set (checkVatNumber (supplier x) SupplierRole). severity e \<noteq> Error)
          \<and> (\<forall>e \<in> set (checkVatNumber (customer x) CustomerRole). severity e \<noteq> Error)"
      unfolding isValid_iff s using cur by (simp add: finding_simps ball_Un)
    then show ?thesis unfolding vs .
  qed
qed

theorem required_field_findings_are_warnings_witness:
  "isValid (buildValidationReport (validateBusinessRules 0 emptyInvoice))
   \<and> map code (warnings (buildValidationReport (validateBusinessRules 0 emptyInvoice)))
       = [''WARN_MISSING_INVOICE_ID'', ''WARN_MISSING_ISSUE_DATE'',
          ''WARN_MISSING_SUPPLIER_NAME'', ''WARN_MISSING_SUPPLIER_COUNTRY'',
          ''WARN_MISSING_CUSTOMER_NAME'', ''WARN_NO_INVOICE_LINES'']
   \<and> map severity (validateBusinessRules 0 emptyInvoice)
       = [Warning, Warning, Warning, Warning, Warning, Warning]"
proof -
  have m: "blankStr (invoiceNumber emptyInvoice) \<and> issueDate emptyInvoice = None
        \<and> blankStr (partyName (supplier emptyInvoice))
        \<and> \<not> truthyStr (partyCountryCode (supplier emptyInvoice))
        \<and> blankStr (partyName (customer emptyInvoice)) \<and> lines emptyInvoice = []"
    by (simp add: emptyInvoice_def blankStr_def partyName_def partyCountryCode_def
          partyAddress_def truthyStr_def)
  have v: "checkVatNumber (supplier emptyInvoice) SupplierRole = []
         \<and> checkVatNumber (customer emptyInvoice) CustomerRole = []"
    by (simp add: emptyInvoice_def checkVatNumber_def partyVatNumber_def)
  have cu: "checkCurrency emptyInvoice = []"
    by (simp add: emptyInvoice_def checkCurrency_def)
  note t = required_field_findings_are_warnings[of 0 emptyInvoice]
  from t m v have valid: "isValid (buildValidationReport (validateBusinessRules 0 emptyInvoice))"
    by blast
  have s: "validateBusinessRules 0 emptyInvoice =
     [finding ''WARN_MISSING_INVOICE_ID'' Warning ''Invoice.ID'',
      finding ''WARN_MISSING_ISSUE_DATE'' Warning ''Invoice.IssueDate'',
      finding ''WARN_MISSING_SUPPLIER_NAME'' Warning
        ''Invoice.AccountingSupplierParty.Party.PartyName.Name'',
      finding ''WARN_MISSING_SUPPLIER_COUNTRY'' Warning
        ''Invoice.AccountingSupplierParty.Party.PostalAddress.Country.IdentificationCode'',
      finding ''WARN_MISSING_CUSTOMER_NAME'' Warning
        ''Invoice.AccountingCustomerParty.Party.PartyName.Name'',
      finding ''WARN_NO_INVOICE_LINES'' Warning ''Invoice.InvoiceLine'']"
    using missing_required_shape[of emptyInvoice 0] m v cu by simp
  have w: "map code (warnings (buildValidationReport (validateBusinessRules 0 emptyInvoice)))
       = [''WARN_MISSING_INVOICE_ID'', ''WARN_MISSING_ISSUE_DATE'',
          ''WARN_MISSING_SUPPLIER_NAME'', ''WARN_MISSING_SUPPLIER_COUNTRY'',
          ''WARN_MISSING_CUSTOMER_NAME'', ''WARN_NO_INVOICE_LINES'']"
    unfolding s warnings_build by (simp add: finding_simps)
  have a: "map severity (validateBusinessRules 0 emptyInvoice)
       = [Warning, Warning, Warning, Warning, Warning, Warning]"
    unfolding s by (simp add: finding_simps)
  from valid w a show ?thesis by blast
qed

subsection \<open>C9: the normalizer and its argument\<close>

text \<open>
  C9 does not hold of the code.  The spread copy made by \<^verbatim>\<open>normalizeInvoice\<close>
  shares the supplier and customer objects with its argument, and the
  normalized VAT number is assigned through the copy.  For the invoice
  \<open>supplierInvoice\<close> in the store \<open>supplierStore\<close>, the argument reads
  \<^verbatim>\<open>supplier.vatNumber = "be 0123 456 789"\<close> before the call and
  \<^verbatim>\<open>"BE0123456789"\<close> after it.
\<close>

theorem normalizeInvoice_overwrites_argument_vatNumber:
  "partyVatNumber (supplier (deref supplierStore supplierInvoice)) = Some ''be 0123 456 789''
   \<and> partyVatNumber (supplier (deref (snd (normalizeInvoiceStore supplierStore supplierInvoice))
         supplierInvoice)) = Some ''BE0123456789''
   \<and> deref (snd (normalizeInvoiceStore supplierStore supplierInvoice)) supplierInvoice
       \<noteq> deref supplierStore supplierInvoice"
proof -
  have a: "partyVatNumber (supplier (deref supplierStore supplierInvoice)) = Some ''be 0123 456 789''"
    by code_simp
  have b: "partyVatNumber (supplier (deref (snd (normalizeInvoiceStore supplierStore supplierInvoice))
         supplierInvoice)) = Some ''BE0123456789''"
    by code_simp
  from a b show ?thesis by auto
qed

subsection \<open>C10: the XSD stub\<close>

text \<open>
  C10: \<^verbatim>\<open>validateXSD\<close> returns, for every XML string, exactly one finding, with
  code \<^verbatim>\<open>INFO_XSD_VALIDATION_SKIPPED\<close> and severity warning; so the report built
  by the convert handler always has a warning (that finding is its last one),
  and its errors and its validity are those of the report without the stub.
\<close>

theorem validateXSD_single_warning:
  "validateXSD xml = [\<lparr>code = ''INFO_XSD_VALIDATION_SKIPPED'', severity = Warning,
                       fieldPath = Some ''Invoice''\<rparr>]
   \<and> warnings (conversionReport businessRuleErrors dataQualityErrors xml) \<noteq> []
   \<and> last (warnings (conversionReport businessRuleErrors dataQualityErrors xml))
       = \<lparr>code = ''INFO_XSD_VALIDATION_SKIPPED'', severity = Warning, fieldPath = Some ''Invoice''\<rparr>
   \<and> errors (conversionReport businessRuleErrors dataQualityErrors xml)
       = errors (buildValidationReport (businessRuleErrors @ dataQualityErrors))
   \<and> isValid (conversionReport businessRuleErrors dataQualityErrors xml)
       = isValid (buildValidationReport (businessRuleErrors @ dataQualityErrors))"
  by (simp add: conversionReport_def validateXSD_def finding_def buildValidationReport_def Let_def)

subsection \<open>C4: when the totals checks fire\<close>




subsection \<open>C3: totals derived by the normalizer against the validator\<close>

text \<open>
  C3 does not hold of the code.  The invoice \<open>fourLinesWithTotals\<close> has four
  lines of 0.50 at 21% VAT and states exactly the totals the normalizer
  derives from them (2.00, 0.42, 2.42).  The normalizer adds the exact VAT
  amounts (4 x 0.105 = 0.42); the validator rounds each line first
  (4 x 0.11 = 0.44) and emits \<^verbatim>\<open>ERR_INVALID_VAT_TOTAL\<close>, so the report is
  invalid.  The same happens when the totals are left to the normalizer.
\<close>

theorem validator_rejects_normalizer_vat_total:
  "lines fourLinesWithTotals \<noteq> []
   \<and> subtotalExclVat fourLinesWithTotals
       = Some (roundTo2Decimals (sumLineTotals (lines fourLinesWithTotals)))
   \<and> vatTotal fourLinesWithTotals
       = Some (roundTo2Decimals (sumVatExact (lines fourLinesWithTotals)))
   \<and> totalInclVat fourLinesWithTotals = Some (roundTo2Decimals (2 + 42 / 100))
   \<and> sumVatExact (lines fourLinesWithTotals) = 42 / 100
   \<and> sumVatRounded (lines fourLinesWithTotals) = 44 / 100
   \<and> ''ERR_INVALID_VAT_TOTAL'' \<in> code ` set (validateBusinessRules 0 fourLinesWithTotals)
   \<and> \<not> isValid (buildValidationReport (validateBusinessRules 0 fourLinesWithTotals))
   \<and> vatTotal (normalizeInvoice fourLines) = Some (42 / 100)
   \<and> ''ERR_INVALID_VAT_TOTAL'' \<in> code ` set (validateBusinessRules 0 (normalizeInvoice fourLines))"
  by code_simp

subsection \<open>C5: precedence of the AI response in the merge\<close>

text \<open>
  C5, as stated, fails: a scalar of the AI response that is not null but is
  the empty string does not override.  The merge takes
  \<^verbatim>\<open>aiData.invoiceNumber || existing.invoiceNumber\<close>, so with the AI invoice
  number \<^verbatim>\<open>""\<close> the candidate's \<^verbatim>\<open>OLD-1\<close> stays.
\<close>

theorem ai_empty_string_counterexample:
  "ai_invoiceNumber aiBlank = Some []
   \<and> invoiceNumber candidateOld = Some ''OLD-1''
   \<and> invoiceNumber (mergeAIResults noValidDate candidateOld aiBlank) = Some ''OLD-1''
   \<and> invoiceNumber (mergeAIResults noValidDate candidateOld aiBlank) \<noteq> ai_invoiceNumber aiBlank"
  by (simp add: aiBlank_def emptyAi_def candidateOld_def emptyInvoice_def mergeAIResults_def
        strOr_def truthyStr_def)

text \<open>
  C5, amended: in the merged invoice every AI string scalar that is neither
  null nor empty (invoice number, currency, IBAN, payment reference) overrides
  the candidate's field, and one that is null or empty leaves the candidate's
  value in place (for the currency: the candidate's if it has one, else
  \<^verbatim>\<open>EUR\<close>).  A non-empty AI issue or due date replaces the candidate's by
  what \<^verbatim>\<open>parseDate\<close> makes of it, a null or empty one leaves the candidate's
  date.  Every non-null AI total overrides, a null one leaves the candidate's
  total.  A non-empty AI line array replaces the candidate's lines wholesale,
  a null or empty one leaves them.  The BIC and the metadata stay.  The
  parties are merged by \<^verbatim>\<open>mergeParty\<close>, which returns one side alone as it is
  and of two sides builds a party in which each of name, VAT number, KBO
  number, tax registration id, street, city, postal code and country code is
  the AI's when that is non-empty and the candidate's otherwise (the
  \<^verbatim>\<open>country\<close> sub-field is not carried over).  In the merged mapping-field
  list every path with an AI entry (invoice number, issue date, supplier name,
  customer name, each when the AI value is non-empty) has exactly that entry,
  with confidence 0.9 and the AI source tag, the initial entries for the path
  being dropped; every other path keeps the first of its initial entries.
\<close>

theorem ai_merge_precedence:
  "(\<forall>s. ai_invoiceNumber aiData = Some s \<and> s \<noteq> [] \<longrightarrow>
        invoiceNumber (mergeAIResults dateCtor existing aiData) = Some s)
   \<and> (\<not> truthyStr (ai_invoiceNumber aiData) \<longrightarrow>
        invoiceNumber (mergeAIResults dateCtor existing aiData) = invoiceNumber existing)
   \<and> (\<forall>s. ai_currency aiData = Some s \<and> s \<noteq> [] \<longrightarrow>
        currency (mergeAIResults dateCtor existing aiData) = Some s)
   \<and> (\<not> truthyStr (ai_currency aiData) \<and> truthyStr (currency existing) \<longrightarrow>
        currency (mergeAIResults dateCtor existing aiData) = currency existing)
   \<and> (\<not> truthyStr (ai_currency aiData) \<and> \<not> truthyStr (currency existing) \<longrightarrow>
        currency (mergeAIResults dateCtor existing aiData) = Some ''EUR'')
   \<and> (\<forall>s. ai_iban aiData = Some s \<and> s \<noteq> [] \<longrightarrow>
        iban (mergeAIResults dateCtor existing aiData) = Some s)
   \<and> (\<not> truthyStr (ai_iban aiData) \<longrightarrow>
        iban (mergeAIResults dateCtor existing aiData) = iban existing)
   \<and> (\<forall>s. ai_paymentReference aiData = Some s \<and> s \<noteq> [] \<longrightarrow>
        paymentReference (mergeAIResults dateCtor existing aiData) = Some s)
   \<and> (\<not> truthyStr (ai_paymentReference aiData) \<longrightarrow>
        paymentReference (mergeAIResults dateCtor existing aiData) = paymentReference existing)
   \<and> (\<forall>s. ai_issueDate aiData = Some s \<and> s \<noteq> [] \<longrightarrow>
        issueDate (mergeAIResults dateCtor existing aiData) = parseDate dateCtor s)
   \<and> (\<not> truthyStr (ai_issueDate aiData) \<longrightarrow>
        issueDate (mergeAIResults dateCtor existing aiData) = issueDate existing)
   \<and> (\<forall>s. ai_dueDate aiData = Some s \<and> s \<noteq> [] \<longrightarrow>
        dueDate (mergeAIResults dateCtor existing aiData) = parseDate dateCtor s)
   \<and> (\<not> truthyStr (ai_dueDate aiData) \<longrightarrow>
        dueDate (mergeAIResults dateCtor existing aiData) = dueDate existing)
   \<and> (\<forall>v. ai_subtotalExclVat aiData = Some v \<longrightarrow>
        subtotalExclVat (mergeAIResults dateCtor existing aiData) = Some v)
   \<and> (ai_subtotalExclVat aiData = None \<longrightarrow>
        subtotalExclVat (mergeAIResults dateCtor existing aiData) = subtotalExclVat existing)
   \<and> (\<forall>v. ai_vatTotal aiData = Some v \<longrightarrow>
        vatTotal (mergeAIResults dateCtor existing aiData) = Some v)
   \<and> (ai_vatTotal aiData = None \<longrightarrow>
        vatTotal (mergeAIResults dateCtor existing aiData) = vatTotal existing)
   \<and> (\<forall>v. ai_totalInclVat aiData = Some v \<longrightarrow>
        totalInclVat (mergeAIResults dateCtor existing aiData) = Some v)
   \<and> (ai_totalInclVat aiData = None \<longrightarrow>
        totalInclVat (mergeAIResults dateCtor existing aiData) = totalInclVat existing)
   \<and> (\<forall>ls. ai_lines aiData = Some ls \<and> ls \<noteq> [] \<longrightarrow>
        lines (mergeAIResults dateCtor existing aiData) = ls)
   \<and> (ai_lines aiData = None \<or> ai_lines aiData = Some [] \<longrightarrow>
        lines (mergeAIResults dateCtor existing aiData) = lines existing)
   \<and> bic (mergeAIResults dateCtor existing aiData) = bic existing
   \<and> sourceType (mergeAIResults dateCtor existing aiData) = sourceType existing
   \<and> sourceFile (mergeAIResults dateCtor existing aiData) = sourceFile existing
   \<and> extractionConfidence (mergeAIResults dateCtor existing aiData) = extractionConfidence existing
   \<and> supplier (mergeAIResults dateCtor existing aiData)
       = mergeParty (supplier existing) (ai_supplier aiData)
   \<and> customer (mergeAIResults dateCtor existing aiData)
       = mergeParty (customer existing) (ai_customer aiData)
   \<and> (\<forall>a. mergeParty None a = a) \<and> (\<forall>e. mergeParty e None = e)
   \<and> (\<forall>e a. \<exists>m. mergeParty (Some e) (Some a) = Some m
         \<and> name m = (if truthyStr (name a) then name a else name e)
         \<and> vatNumber m = (if truthyStr (vatNumber a) then vatNumber a else vatNumber e)
         \<and> kboNumber m = (if truthyStr (kboNumber a) then kboNumber a else kboNumber e)
         \<and> taxRegistrationId m
             = (if truthyStr (taxRegistrationId a) then taxRegistrationId a
                else taxRegistrationId e)
         \<and> address m \<noteq> None
         \<and> addressOf m street
             = (if truthyStr (addressOf a street) then addressOf a street else addressOf e street)
         \<and> addressOf m city
             = (if truthyStr (addressOf a city) then addressOf a city else addressOf e city)
         \<and> addressOf m postalCode
             = (if truthyStr (addressOf a postalCode) then addressOf a postalCode
                else addressOf e postalCode)
         \<and> addressOf m countryCode
             = (if truthyStr (addressOf a countryCode) then addressOf a countryCode
                else addressOf e countryCode)
         \<and> addressOf m country = None)
   \<and> (\<forall>s. ai_invoiceNumber aiData = Some s \<and> s \<noteq> [] \<longrightarrow>
        aiField ''invoiceNumber'' s src \<in> set (aiFields aiData src))
   \<and> (\<forall>s. ai_issueDate aiData = Some s \<and> s \<noteq> [] \<longrightarrow>
        aiField ''issueDate'' s src \<in> set (aiFields aiData src))
   \<and> (\<forall>s. partyName (ai_supplier aiData) = Some s \<and> s \<noteq> [] \<longrightarrow>
        aiField ''supplier.name'' s src \<in> set (aiFields aiData src))
   \<and> (\<forall>s. partyName (ai_customer aiData) = Some s \<and> s \<noteq> [] \<longrightarrow>
        aiField ''customer.name'' s src \<in> set (aiFields aiData src))
   \<and> map mf_field (aiFields aiData src)
       = (if truthyStr (ai_invoiceNumber aiData) then [''invoiceNumber''] else [])
         @ (if truthyStr (ai_issueDate aiData) then [''issueDate''] else [])
         @ (if truthyStr (partyName (ai_supplier aiData)) then [''supplier.name''] else [])
         @ (if truthyStr (partyName (ai_customer aiData)) then [''customer.name''] else [])
   \<and> (\<forall>f \<in> set (aiFields aiData src).
        filter (\<lambda>g. mf_field g = mf_field f) (mergeAIMappingFields existingFields aiData src) = [f]
        \<and> mf_confidence f = 9 / 10 \<and> mf_source f = src)
   \<and> (\<forall>q. q \<notin> mf_field ` set (aiFields aiData src) \<longrightarrow>
        filter (\<lambda>g. mf_field g = q) (mergeAIMappingFields existingFields aiData src)
          = take 1 (filter (\<lambda>g. mf_field g = q) existingFields))"
proof (intro conjI allI impI ballI)
  fix f assume "f \<in> set (aiFields aiData src)"
  then show "filter (\<lambda>g. mf_field g = mf_field f) (mergeAIMappingFields existingFields aiData src) = [f]"
    by (rule mergeAIMappingFields_ai_entry)
next
  fix f assume "f \<in> set (aiFields aiData src)"
  then show "mf_confidence f = 9 / 10" "mf_source f = src"
    using aiFields_elem by blast+
next
  fix q assume "q \<notin> mf_field ` set (aiFields aiData src)"
  then show "filter (\<lambda>g. mf_field g = q) (mergeAIMappingFields existingFields aiData src)
          = take 1 (filter (\<lambda>g. mf_field g = q) existingFields)"
    by (rule mergeAIMappingFields_other_entry)
next
  fix a show "mergeParty None a = a" by (cases a) (simp_all add: mergeParty_def)
next
  fix e show "mergeParty e None = e" by (simp add: mergeParty_def)
next
  fix e a
  show "\<exists>m. mergeParty (Some e) (Some a) = Some m
         \<and> name m = (if truthyStr (name a) then name a else name e)
         \<and> vatNumber m = (if truthyStr (vatNumber a) then vatNumber a else vatNumber e)
         \<and> kboNumber m = (if truthyStr (kboNumber a) then kboNumber a else kboNumber e)
         \<and> taxRegistrationId m
             = (if truthyStr (taxRegistrationId a) then taxRegistrationId a
                else taxRegistrationId e)
         \<and> address m \<noteq> None
         \<and> addressOf m street
             = (if truthyStr (addressOf a street) then addressOf a street else addressOf e street)
         \<and> addressOf m city
             = (if truthyStr (addressOf a city) then addressOf a city else addressOf e city)
         \<and> addressOf m postalCode
             = (if truthyStr (addressOf a postalCode) then addressOf a postalCode
                else addressOf e postalCode)
         \<and> addressOf m countryCode
             = (if truthyStr (addressOf a countryCode) then addressOf a countryCode
                else addressOf e countryCode)
         \<and> addressOf m country = None"
    by (rule mergeParty_fields)
next
  show "map mf_field (aiFields aiData src)
       = (if truthyStr (ai_invoiceNumber aiData) then [''invoiceNumber''] else [])
         @ (if truthyStr (ai_issueDate aiData) then [''issueDate''] else [])
         @ (if truthyStr (partyName (ai_supplier aiData)) then [''supplier.name''] else [])
         @ (if truthyStr (partyName (ai_customer aiData)) then [''customer.name''] else [])"
    by (simp add: aiFields_def aiField_def)
next
  assume "\<not> truthyStr (ai_currency aiData) \<and> truthyStr (currency existing)"
  then show "currency (mergeAIResults dateCtor existing aiData) = currency existing"
    by (simp add: mergeAIResults_def strOr_def)
next
  assume "\<not> truthyStr (ai_issueDate aiData)"
  then show "issueDate (mergeAIResults dateCtor existing aiData) = issueDate existing"
    by (simp add: mergeAIResults_def mergeDate_def truthyStr_def split: option.splits)
next
  assume "\<not> truthyStr (ai_dueDate aiData)"
  then show "dueDate (mergeAIResults dateCtor existing aiData) = dueDate existing"
    by (simp add: mergeAIResults_def mergeDate_def truthyStr_def split: option.splits)
next
  assume "ai_lines aiData = None \<or> ai_lines aiData = Some []"
  then show "lines (mergeAIResults dateCtor existing aiData) = lines existing"
    by (auto simp add: mergeAIResults_def)
qed (simp_all add: mergeAIResults_def strOr_truthy strOr_falsy mergeDate_def numPresentOr_def
       aiFields_def truthyStr_def)


theorem ai_merge_precedence_witness:
  "invoiceNumber (mergeAIResults noValidDate candidateOld aiNew2) = Some ''NEW-2''
   \<and> mergeAIMappingFields candidateOldFields aiNew2 ''ai-gemini''
       = [aiField ''invoiceNumber'' ''NEW-2'' ''ai-gemini'']
   \<and> mf_confidence (aiField ''invoiceNumber'' ''NEW-2'' ''ai-gemini'') = 9 / 10
   \<and> mf_source (aiField ''invoiceNumber'' ''NEW-2'' ''ai-gemini'') = ''ai-gemini''
   \<and> invoiceNumber (mergeAIResults noValidDate candidateAcme aiAcme) = Some ''OLD-1''
   \<and> mergeAIResults noValidDate candidateAcme aiAcme
       = candidateAcme\<lparr>
           supplier := Some \<lparr>name = Some ''Acme NV'',
             address = Some \<lparr>street = Some ''Main St 1'', city = Some ''Gent'',
                              postalCode = Some ''9050'', countryCode = Some ''BE'',
                              country = None\<rparr>,
             vatNumber = Some ''BE0123456789'', kboNumber = Some ''0123456789'',
             taxRegistrationId = Some ''T-1''\<rparr>,
           vatTotal := Some 21\<rparr>
   \<and> mergeAIMappingFields candidateAcmeFields aiAcme ''ai-gemini''
       = [aiField ''supplier.name'' ''Acme NV'' ''ai-gemini'',
          \<lparr>mf_field = ''invoiceNumber'', mf_value = StrVal ''OLD-1'', mf_source = ''pdf-text'',
           mf_confidence = 6 / 10, mf_rawValue = Some ''OLD-1''\<rparr>]"
proof -
  note T = ai_merge_precedence[of aiNew2 noValidDate candidateOld "''ai-gemini''" candidateOldFields]
  have a: "ai_invoiceNumber aiNew2 = Some ''NEW-2'' \<and> ''NEW-2'' \<noteq> []"
    by (simp add: aiNew2_def emptyAi_def)
  from T have c1: "\<forall>s. ai_invoiceNumber aiNew2 = Some s \<and> s \<noteq> [] \<longrightarrow>
        invoiceNumber (mergeAIResults noValidDate candidateOld aiNew2) = Some s"
    by (rule conjunct1)
  with a have 1: "invoiceNumber (mergeAIResults noValidDate candidateOld aiNew2) = Some ''NEW-2''"
    by simp
  have m: "aiField ''invoiceNumber'' ''NEW-2'' ''ai-gemini'' \<in> set (aiFields aiNew2 ''ai-gemini'')"
    by (simp add: aiFields_def aiNew2_def emptyAi_def truthyStr_def partyName_def)
  from T have c25: "\<forall>f \<in> set (aiFields aiNew2 ''ai-gemini'').
        filter (\<lambda>g. mf_field g = mf_field f) (mergeAIMappingFields candidateOldFields aiNew2 ''ai-gemini'') = [f]
        \<and> mf_confidence f = 9 / 10 \<and> mf_source f = ''ai-gemini''"
    by simp
  with m have 2: "mf_confidence (aiField ''invoiceNumber'' ''NEW-2'' ''ai-gemini'') = 9 / 10"
    and 3: "mf_source (aiField ''invoiceNumber'' ''NEW-2'' ''ai-gemini'') = ''ai-gemini''"
    by (simp_all del: filter.simps)
  have 4: "mergeAIMappingFields candidateOldFields aiNew2 ''ai-gemini''
       = [aiField ''invoiceNumber'' ''NEW-2'' ''ai-gemini'']"
    by code_simp
  note A = ai_merge_precedence[of aiAcme noValidDate candidateAcme "''ai-gemini''" candidateAcmeFields]
  have b: "\<not> truthyStr (ai_invoiceNumber aiAcme)"
    by (simp add: aiAcme_def emptyAi_def truthyStr_def)
  from A have "\<not> truthyStr (ai_invoiceNumber aiAcme) \<longrightarrow>
        invoiceNumber (mergeAIResults noValidDate candidateAcme aiAcme) = invoiceNumber candidateAcme"
    by simp
  with b have 5: "invoiceNumber (mergeAIResults noValidDate candidateAcme aiAcme) = Some ''OLD-1''"
    by (simp add: candidateAcme_def emptyInvoice_def)
  have 6: "mergeAIResults noValidDate candidateAcme aiAcme
       = candidateAcme\<lparr>
           supplier := Some \<lparr>name = Some ''Acme NV'',
             address = Some \<lparr>street = Some ''Main St 1'', city = Some ''Gent'',
                              postalCode = Some ''9050'', countryCode = Some ''BE'',
                              country = None\<rparr>,
             vatNumber = Some ''BE0123456789'', kboNumber = Some ''0123456789'',
             taxRegistrationId = Some ''T-1''\<rparr>,
           vatTotal := Some 21\<rparr>"
    by code_simp
  have 7: "mergeAIMappingFields candidateAcmeFields aiAcme ''ai-gemini''
       = [aiField ''supplier.name'' ''Acme NV'' ''ai-gemini'',
          \<lparr>mf_field = ''invoiceNumber'', mf_value = StrVal ''OLD-1'', mf_source = ''pdf-text'',
           mf_confidence = 6 / 10, mf_rawValue = Some ''OLD-1''\<rparr>]"
    by code_simp
  from 1 2 3 4 5 6 7 show ?thesis by (simp only: simp_thms)
qed

subsection \<open>C6: the AI enhancer is never fatal\<close>

text \<open>
  C6, as stated, fails for the text-extraction step: its exception is caught
  on the spot and the enhancement goes on with an empty text.  In the world
  \<open>pdfTextFailsWorld\<close> reading the PDF text throws, the service call succeeds,
  and \<^verbatim>\<open>parseWithAI\<close> returns the merged invoice with \<^verbatim>\<open>aiUsed: true\<close>.
\<close>

theorem text_extraction_failure_counterexample:
  "pdfParse pdfTextFailsWorld ''%PDF-1.4'' = Inl (Failure ''Invalid PDF structure'')
   \<and> parseWithAI pdfTextFailsWorld ''%PDF-1.4'' ''invoice.pdf'' pdfMime candidateOld candidateOldFields
       = Inr \<lparr>res_invoice = mergeAIResults noValidDate candidateOld aiNew2,
              res_mappingFields = [aiField ''invoiceNumber'' ''NEW-2'' ''ai-gemini''],
              aiUsed = True\<rparr>
   \<and> parseWithAI pdfTextFailsWorld ''%PDF-1.4'' ''invoice.pdf'' pdfMime candidateOld candidateOldFields
       \<noteq> Inr (unchangedResult candidateOld candidateOldFields)"
  by code_simp

text \<open>
  C6, amended: \<^verbatim>\<open>parseWithAI\<close> never throws.  It returns exactly the candidate
  invoice and mapping fields with \<^verbatim>\<open>aiUsed: false\<close> when no key is configured,
  when the service call throws, and when the call returns an empty value.
  The call throws when the request fails; on an OK status when reading the
  body throws, when the response has no content, and when the content does
  not parse; on an error status when reading the error body throws, when no
  retry is made (not a PDF, or no extracted text), and, when the text-only
  retry is made, when the retry request fails, when the retry has an error
  status, when reading its body throws, when it has no content, and when its
  content does not parse.  The call returns a value in two cases only: an OK
  response, or after an error status an OK text-only retry, whose content
  parses.  With a key and a returned value the result is the merge,
  \<^verbatim>\<open>aiUsed: true\<close>.  A failure of the text extraction alone is swallowed: the
  extracted text is empty and the enhancement goes on.
\<close>

theorem parseWithAI_never_fatal:
  "(\<exists>r. parseWithAI w buf filename mimeType cand fs = Inr r)
   \<and> (\<not> truthyStr (map_option trim (geminiApiKey w)) \<longrightarrow>
        parseWithAI w buf filename mimeType cand fs = Inr (unchangedResult cand fs))
   \<and> ((\<exists>e. serviceCall w buf mimeType cand fs = Inl e) \<longrightarrow>
        parseWithAI w buf filename mimeType cand fs = Inr (unchangedResult cand fs))
   \<and> (serviceCall w buf mimeType cand fs = Inr None \<longrightarrow>
        parseWithAI w buf filename mimeType cand fs = Inr (unchangedResult cand fs))
   \<and> (truthyStr (map_option trim (geminiApiKey w))
        \<and> serviceCall w buf mimeType cand fs = Inr (Some a) \<longrightarrow>
        parseWithAI w buf filename mimeType cand fs =
          Inr \<lparr>res_invoice = mergeAIResults (newDate w) cand a,
               res_mappingFields = mergeAIMappingFields fs a ''ai-gemini'',
               aiUsed = True\<rparr>)
   \<and> (\<forall>e. fetch w (firstRequest key p t mimeType buf) = Inl e \<longrightarrow>
        callGeminiAPI w key p t mimeType buf = Inl e)
   \<and> (\<forall>r e. fetch w (firstRequest key p t mimeType buf) = Inr r \<and> ok r \<and> content r = Inl e \<longrightarrow>
        callGeminiAPI w key p t mimeType buf = Inl e)
   \<and> (\<forall>r c. fetch w (firstRequest key p t mimeType buf) = Inr r \<and> ok r
            \<and> content r = Inr c \<and> \<not> truthyStr c \<longrightarrow>
        (\<exists>m. callGeminiAPI w key p t mimeType buf = Inl (Failure m)))
   \<and> (\<forall>r c e. fetch w (firstRequest key p t mimeType buf) = Inr r \<and> ok r
            \<and> content r = Inr (Some c) \<and> c \<noteq> [] \<and> jsonParse w (stripFences c) = Inl e \<longrightarrow>
        (\<exists>m. callGeminiAPI w key p t mimeType buf = Inl (Failure m)))
   \<and> (\<forall>r c v. fetch w (firstRequest key p t mimeType buf) = Inr r \<and> ok r
            \<and> content r = Inr (Some c) \<and> c \<noteq> [] \<and> jsonParse w (stripFences c) = Inr v \<longrightarrow>
        callGeminiAPI w key p t mimeType buf = Inr v)
   \<and> (\<forall>r e. fetch w (firstRequest key p t mimeType buf) = Inr r \<and> \<not> ok r
            \<and> errorText r = Inl e \<longrightarrow>
        callGeminiAPI w key p t mimeType buf = Inl e)
   \<and> (\<forall>r b. fetch w (firstRequest key p t mimeType buf) = Inr r \<and> \<not> ok r
            \<and> errorText r = Inr b \<and> (mimeType \<noteq> pdfMime \<or> t = []) \<longrightarrow>
        (\<exists>m. callGeminiAPI w key p t mimeType buf = Inl (Failure m)))
   \<and> (\<forall>r b e. fetch w (firstRequest key p t mimeType buf) = Inr r \<and> \<not> ok r
            \<and> errorText r = Inr b \<and> mimeType = pdfMime \<and> t \<noteq> []
            \<and> fetch w (retryRequest key p t) = Inl e \<longrightarrow>
        callGeminiAPI w key p t mimeType buf = Inl e)
   \<and> (\<forall>r b r2. fetch w (firstRequest key p t mimeType buf) = Inr r \<and> \<not> ok r
            \<and> errorText r = Inr b \<and> mimeType = pdfMime \<and> t \<noteq> []
            \<and> fetch w (retryRequest key p t) = Inr r2 \<and> \<not> ok r2 \<longrightarrow>
        (\<exists>m. callGeminiAPI w key p t mimeType buf = Inl (Failure m)))
   \<and> (\<forall>r b r2 e. fetch w (firstRequest key p t mimeType buf) = Inr r \<and> \<not> ok r
            \<and> errorText r = Inr b \<and> mimeType = pdfMime \<and> t \<noteq> []
            \<and> fetch w (retryRequest key p t) = Inr r2 \<and> ok r2 \<and> content r2 = Inl e \<longrightarrow>
        callGeminiAPI w key p t mimeType buf = Inl e)
   \<and> (\<forall>r b r2 c. fetch w (firstRequest key p t mimeType buf) = Inr r \<and> \<not> ok r
            \<and> errorText r = Inr b \<and> mimeType = pdfMime \<and> t \<noteq> []
            \<and> fetch w (retryRequest key p t) = Inr r2 \<and> ok r2 \<and> content r2 = Inr c
            \<and> \<not> truthyStr c \<longrightarrow>
        (\<exists>m. callGeminiAPI w key p t mimeType buf = Inl (Failure m)))
   \<and> (\<forall>r b r2 c. fetch w (firstRequest key p t mimeType buf) = Inr r \<and> \<not> ok r
            \<and> errorText r = Inr b \<and> mimeType = pdfMime \<and> t \<noteq> []
            \<and> fetch w (retryRequest key p t) = Inr r2 \<and> ok r2 \<and> content r2 = Inr (Some c)
            \<and> c \<noteq> [] \<longrightarrow>
        callGeminiAPI w key p t mimeType buf = jsonParse w (stripFences c))
   \<and> ((\<exists>v. callGeminiAPI w key p t mimeType buf = Inr v) \<longleftrightarrow>
        (\<exists>r c v. fetch w (firstRequest key p t mimeType buf) = Inr r \<and> ok r
           \<and> content r = Inr (Some c) \<and> c \<noteq> [] \<and> jsonParse w (stripFences c) = Inr v)
        \<or> (\<exists>r b r2 c v. fetch w (firstRequest key p t mimeType buf) = Inr r \<and> \<not> ok r
           \<and> errorText r = Inr b \<and> mimeType = pdfMime \<and> t \<noteq> []
           \<and> fetch w (retryRequest key p t) = Inr r2 \<and> ok r2
           \<and> content r2 = Inr (Some c) \<and> c \<noteq> [] \<and> jsonParse w (stripFences c) = Inr v))
   \<and> ((\<exists>e. pdfParse w buf = Inl e) \<longrightarrow> extractText w pdfMime buf = [])
   \<and> ((\<exists>e. xlsxToText w buf = Inl e) \<longrightarrow> extractText w xlsxMime buf = [])"
proof (intro conjI impI allI)
  show "\<exists>r. parseWithAI w buf filename mimeType cand fs = Inr r"
    by (rule parseWithAI_returns)
next
  assume "\<not> truthyStr (map_option trim (geminiApiKey w))"
  then show "parseWithAI w buf filename mimeType cand fs = Inr (unchangedResult cand fs)"
    by (rule parseWithAI_no_key)
next
  assume "\<exists>e. serviceCall w buf mimeType cand fs = Inl e"
  then show "parseWithAI w buf filename mimeType cand fs = Inr (unchangedResult cand fs)"
    using parseWithAI_call_fails by blast
next
  assume "serviceCall w buf mimeType cand fs = Inr None"
  then show "parseWithAI w buf filename mimeType cand fs = Inr (unchangedResult cand fs)"
    by (rule parseWithAI_call_empty)
next
  assume "truthyStr (map_option trim (geminiApiKey w))
        \<and> serviceCall w buf mimeType cand fs = Inr (Some a)"
  then show "parseWithAI w buf filename mimeType cand fs =
          Inr \<lparr>res_invoice = mergeAIResults (newDate w) cand a,
               res_mappingFields = mergeAIMappingFields fs a ''ai-gemini'',
               aiUsed = True\<rparr>"
    using parseWithAI_call_succeeds by blast
next
  fix e assume "fetch w (firstRequest key p t mimeType buf) = Inl e"
  then show "callGeminiAPI w key p t mimeType buf = Inl e"
    by (rule callGeminiAPI_fetch_fails)
next
  fix r e assume "fetch w (firstRequest key p t mimeType buf) = Inr r \<and> ok r \<and> content r = Inl e"
  then show "callGeminiAPI w key p t mimeType buf = Inl e"
    using callGeminiAPI_body_fails by blast
next
  fix r c assume "fetch w (firstRequest key p t mimeType buf) = Inr r \<and> ok r
            \<and> content r = Inr c \<and> \<not> truthyStr c"
  then show "\<exists>m. callGeminiAPI w key p t mimeType buf = Inl (Failure m)"
    using callGeminiAPI_empty_content by blast
next
  fix r c e assume "fetch w (firstRequest key p t mimeType buf) = Inr r \<and> ok r
            \<and> content r = Inr (Some c) \<and> c \<noteq> [] \<and> jsonParse w (stripFences c) = Inl e"
  then show "\<exists>m. callGeminiAPI w key p t mimeType buf = Inl (Failure m)"
    using callGeminiAPI_parse_fails by blast
next
  fix r c v assume "fetch w (firstRequest key p t mimeType buf) = Inr r \<and> ok r
            \<and> content r = Inr (Some c) \<and> c \<noteq> [] \<and> jsonParse w (stripFences c) = Inr v"
  then show "callGeminiAPI w key p t mimeType buf = Inr v"
    using callGeminiAPI_parse_succeeds by blast
next
  fix r e assume "fetch w (firstRequest key p t mimeType buf) = Inr r \<and> \<not> ok r
            \<and> errorText r = Inl e"
  then show "callGeminiAPI w key p t mimeType buf = Inl e"
    using callGeminiAPI_error_body_fails by blast
next
  fix r b assume "fetch w (firstRequest key p t mimeType buf) = Inr r \<and> \<not> ok r
            \<and> errorText r = Inr b \<and> (mimeType \<noteq> pdfMime \<or> t = [])"
  then show "\<exists>m. callGeminiAPI w key p t mimeType buf = Inl (Failure m)"
    using callGeminiAPI_no_retry by blast
next
  fix r b e assume "fetch w (firstRequest key p t mimeType buf) = Inr r \<and> \<not> ok r
            \<and> errorText r = Inr b \<and> mimeType = pdfMime \<and> t \<noteq> []
            \<and> fetch w (retryRequest key p t) = Inl e"
  then show "callGeminiAPI w key p t mimeType buf = Inl e"
    using callGeminiAPI_retry_fetch_fails by blast
next
  fix r b r2 assume "fetch w (firstRequest key p t mimeType buf) = Inr r \<and> \<not> ok r
            \<and> errorText r = Inr b \<and> mimeType = pdfMime \<and> t \<noteq> []
            \<and> fetch w (retryRequest key p t) = Inr r2 \<and> \<not> ok r2"
  then show "\<exists>m. callGeminiAPI w key p t mimeType buf = Inl (Failure m)"
    using callGeminiAPI_retry_error_status by blast
next
  fix r b r2 e assume "fetch w (firstRequest key p t mimeType buf) = Inr r \<and> \<not> ok r
            \<and> errorText r = Inr b \<and> mimeType = pdfMime \<and> t \<noteq> []
            \<and> fetch w (retryRequest key p t) = Inr r2 \<and> ok r2 \<and> content r2 = Inl e"
  then show "callGeminiAPI w key p t mimeType buf = Inl e"
    using callGeminiAPI_retry_body_fails by blast
next
  fix r b r2 c assume "fetch w (firstRequest key p t mimeType buf) = Inr r \<and> \<not> ok r
            \<and> errorText r = Inr b \<and> mimeType = pdfMime \<and> t \<noteq> []
            \<and> fetch w (retryRequest key p t) = Inr r2 \<and> ok r2 \<and> content r2 = Inr c
            \<and> \<not> truthyStr c"
  then show "\<exists>m. callGeminiAPI w key p t mimeType buf = Inl (Failure m)"
    using callGeminiAPI_retry_empty_content by blast
next
  fix r b r2 c assume "fetch w (firstRequest key p t mimeType buf) = Inr r \<and> \<not> ok r
            \<and> errorText r = Inr b \<and> mimeType = pdfMime \<and> t \<noteq> []
            \<and> fetch w (retryRequest key p t) = Inr r2 \<and> ok r2 \<and> content r2 = Inr (Some c)
            \<and> c \<noteq> []"
  then show "callGeminiAPI w key p t mimeType buf = jsonParse w (stripFences c)"
    using callGeminiAPI_retry_parse by blast
next
  show "(\<exists>v. callGeminiAPI w key p t mimeType buf = Inr v) \<longleftrightarrow>
        (\<exists>r c v. fetch w (firstRequest key p t mimeType buf) = Inr r \<and> ok r
           \<and> content r = Inr (Some c) \<and> c \<noteq> [] \<and> jsonParse w (stripFences c) = Inr v)
        \<or> (\<exists>r b r2 c v. fetch w (firstRequest key p t mimeType buf) = Inr r \<and> \<not> ok r
           \<and> errorText r = Inr b \<and> mimeType = pdfMime \<and> t \<noteq> []
           \<and> fetch w (retryRequest key p t) = Inr r2 \<and> ok r2
           \<and> content r2 = Inr (Some c) \<and> c \<noteq> [] \<and> jsonParse w (stripFences c) = Inr v)"
    by (rule callGeminiAPI_returns_iff)
next
  assume "\<exists>e. pdfParse w buf = Inl e"
  then show "extractText w pdfMime buf = []"
    by (auto simp add: extractText_def)
next
  assume "\<exists>e. xlsxToText w buf = Inl e"
  then show "extractText w xlsxMime buf = []"
    by (auto simp add: extractText_def xlsxMime_def pdfMime_def)
qed

theorem parseWithAI_never_fatal_witness:
  "parseWithAI noKeyWorld ''%PDF-1.4'' ''invoice.pdf'' pdfMime candidateOld candidateOldFields
     = Inr (unchangedResult candidateOld candidateOldFields)
   \<and> parseWithAI networkDownWorld ''%PDF-1.4'' ''invoice.pdf'' pdfMime candidateOld candidateOldFields
     = Inr (unchangedResult candidateOld candidateOldFields)
   \<and> parseWithAI retryFailsWorld ''%PDF-1.4'' ''invoice.pdf'' pdfMime candidateOld candidateOldFields
     = Inr (unchangedResult candidateOld candidateOldFields)
   \<and> parseWithAI retrySucceedsWorld ''%PDF-1.4'' ''invoice.pdf'' pdfMime candidateOld candidateOldFields
     = Inr \<lparr>res_invoice = mergeAIResults noValidDate candidateOld aiNew2,
            res_mappingFields = mergeAIMappingFields candidateOldFields aiNew2 ''ai-gemini'',
            aiUsed = True\<rparr>"
proof -
  have k: "\<not> truthyStr (map_option trim (geminiApiKey noKeyWorld))"
    by (simp add: noKeyWorld_def truthyStr_def)
  note N = parseWithAI_never_fatal[of noKeyWorld "''%PDF-1.4''" "''invoice.pdf''" pdfMime
      candidateOld candidateOldFields]
  from N k have 1: "parseWithAI noKeyWorld ''%PDF-1.4'' ''invoice.pdf'' pdfMime candidateOld
      candidateOldFields = Inr (unchangedResult candidateOld candidateOldFields)"
    by simp
  have f: "serviceCall networkDownWorld ''%PDF-1.4'' pdfMime candidateOld candidateOldFields
       = Inl (Failure ''fetch failed'')"
    by (simp add: serviceCall_def callGeminiAPI_def networkDownWorld_def pdfTextFailsWorld_def Let_def)
  note D = parseWithAI_never_fatal[of networkDownWorld "''%PDF-1.4''" "''invoice.pdf''" pdfMime
      candidateOld candidateOldFields]
  from D f have 2: "parseWithAI networkDownWorld ''%PDF-1.4'' ''invoice.pdf'' pdfMime candidateOld
      candidateOldFields = Inr (unchangedResult candidateOld candidateOldFields)"
    by simp
  let ?key = "the (map_option trim (geminiApiKey retryFailsWorld))"
  let ?t = "extractText retryFailsWorld pdfMime ''%PDF-1.4''"
  let ?p = "buildAIPrompt candidateOld candidateOldFields ?t"
  let ?bad = "\<lparr>ok = False, errorText = Inr ''quota exceeded'', content = Inr None\<rparr>"
  have t: "?t \<noteq> []" by (simp add: extractText_def retryFailsWorld_def)
  have h: "fetch retryFailsWorld (firstRequest ?key ?p ?t pdfMime ''%PDF-1.4'') = Inr ?bad \<and> \<not> ok ?bad
      \<and> errorText ?bad = Inr ''quota exceeded'' \<and> pdfMime = pdfMime \<and> ?t \<noteq> []
      \<and> fetch retryFailsWorld (retryRequest ?key ?p ?t) = Inr ?bad \<and> \<not> ok ?bad"
    using t by (simp add: retryFailsWorld_def)
  note R = parseWithAI_never_fatal[of retryFailsWorld "''%PDF-1.4''" "''invoice.pdf''" pdfMime
      candidateOld candidateOldFields _ ?key ?p ?t]
  from R have "\<forall>r b r2. fetch retryFailsWorld (firstRequest ?key ?p ?t pdfMime ''%PDF-1.4'') = Inr r \<and> \<not> ok r
            \<and> errorText r = Inr b \<and> pdfMime = pdfMime \<and> ?t \<noteq> []
            \<and> fetch retryFailsWorld (retryRequest ?key ?p ?t) = Inr r2 \<and> \<not> ok r2 \<longrightarrow>
        (\<exists>m. callGeminiAPI retryFailsWorld ?key ?p ?t pdfMime ''%PDF-1.4'' = Inl (Failure m))"
    by simp
  with h have "\<exists>m. callGeminiAPI retryFailsWorld ?key ?p ?t pdfMime ''%PDF-1.4'' = Inl (Failure m)"
    by blast
  then have "\<exists>e. serviceCall retryFailsWorld ''%PDF-1.4'' pdfMime candidateOld candidateOldFields = Inl e"
    unfolding serviceCall_def by blast
  with R have 3: "parseWithAI retryFailsWorld ''%PDF-1.4'' ''invoice.pdf'' pdfMime candidateOld
      candidateOldFields = Inr (unchangedResult candidateOld candidateOldFields)"
    by simp
  have 4: "parseWithAI retrySucceedsWorld ''%PDF-1.4'' ''invoice.pdf'' pdfMime candidateOld candidateOldFields
     = Inr \<lparr>res_invoice = mergeAIResults noValidDate candidateOld aiNew2,
            res_mappingFields = mergeAIMappingFields candidateOldFields aiNew2 ''ai-gemini'',
            aiUsed = True\<rparr>"
  proof -
    have k: "truthyStr (map_option trim (geminiApiKey retrySucceedsWorld))" by code_simp
    have s: "serviceCall retrySucceedsWorld ''%PDF-1.4'' pdfMime candidateOld candidateOldFields
       = Inr (Some aiNew2)" by code_simp
    have n: "newDate retrySucceedsWorld = noValidDate"
      by (simp add: retrySucceedsWorld_def retryFailsWorld_def)
    note S = parseWithAI_never_fatal[of retrySucceedsWorld "''%PDF-1.4''" "''invoice.pdf''" pdfMime
      candidateOld candidateOldFields aiNew2]
    from S k s show ?thesis unfolding n by simp
  qed
  from 1 2 3 4 show ?thesis by simp
qed

subsection \<open>C7: defensive completeness of the serializer\<close>

text \<open>
  C7, as stated, fails: without a VAT group the tax-total block is not always
  zero-valued.  \<^verbatim>\<open>buildTaxTotals\<close> falls back on the stated VAT total: for the
  invoice with no lines and a stated VAT total of 21.00 the single block
  carries the tax amount 21, not 0.
\<close>

theorem tax_total_fallback_counterexample:
  "vatGroups (lines statedTotalsNoLines) = []
   \<and> getPath [''Invoice'', ''cac:TaxTotal''] (convertToUBL sampleEnv statedTotalsNoLines)
       = Some (JArr [taxBlock ''EUR'' 21 100 ''S'' 0])
   \<and> getPath [''cbc:TaxAmount'', ''#''] (taxBlock ''EUR'' 21 100 ''S'' 0) = Some (JNum 21)"
  by code_simp

text \<open>
  C7, amended: for every invoice the \<^verbatim>\<open>Invoice\<close> element has a non-empty
  \<^verbatim>\<open>TaxTotal\<close> array.  When no line has both a VAT rate and a line total, the
  array is the single zero-valued block if the VAT total is absent or zero,
  and the single block carrying the stated VAT total (taxable amount the
  stated subtotal or 0, percent 0) otherwise.  For the empty invoice the
  invoice number is \<^verbatim>\<open>UNKNOWN\<close>, the issue date the current date, supplier
  and customer are party structures with an empty name and country \<^verbatim>\<open>BE\<close>,
  the tax total is the zero-valued block and the four amounts of the legal
  monetary total are 0.
\<close>

theorem convertToUBL_tax_total_and_defaults:
  "(\<exists>ts. getPath [''Invoice'', ''cac:TaxTotal''] (convertToUBL env x) = Some (JArr ts) \<and> ts \<noteq> [])
   \<and> ((\<forall>l \<in> set (lines x). vatRate l = None \<or> lineTotal l = None) \<and> \<not> truthyNum (vatTotal x) \<longrightarrow>
        getPath [''Invoice'', ''cac:TaxTotal''] (convertToUBL env x)
          = Some (JArr [JObj [(''cbc:TaxAmount'', amount (strOrLit (currency x) ''EUR'') 0)]]))
   \<and> ((\<forall>l \<in> set (lines x). vatRate l = None \<or> lineTotal l = None) \<and> vatTotal x = Some v \<and> v \<noteq> 0 \<longrightarrow>
        getPath [''Invoice'', ''cac:TaxTotal''] (convertToUBL env x)
          = Some (JArr [taxBlock (strOrLit (currency x) ''EUR'') v
                          (numOr (subtotalExclVat x) 0) ''S'' 0]))
   \<and> getPath [''Invoice'', ''cbc:ID''] (convertToUBL env emptyInvoice) = Some (JStr ''UNKNOWN'')
   \<and> getPath [''Invoice'', ''cbc:IssueDate''] (convertToUBL env emptyInvoice)
       = Some (JStr (formatDateForUBL env (Some (currentTime env))))
   \<and> getPath [''Invoice'', ''cac:AccountingSupplierParty''] (convertToUBL env emptyInvoice)
       = Some (JObj [(''cac:Party'',
             JObj [(''cac:PartyName'', JObj [(''cbc:Name'', JStr [])]),
                   (''cac:PostalAddress'',
                      JObj [(''cac:Country'', JObj [(''cbc:IdentificationCode'', JStr ''BE'')])])])])
   \<and> getPath [''Invoice'', ''cac:AccountingCustomerParty''] (convertToUBL env emptyInvoice)
       = Some (JObj [(''cac:Party'',
             JObj [(''cac:PartyName'', JObj [(''cbc:Name'', JStr [])]),
                   (''cac:PostalAddress'',
                      JObj [(''cac:Country'', JObj [(''cbc:IdentificationCode'', JStr ''BE'')])])])])
   \<and> getPath [''Invoice'', ''cac:TaxTotal''] (convertToUBL env emptyInvoice)
       = Some (JArr [JObj [(''cbc:TaxAmount'', amount ''EUR'' 0)]])
   \<and> getPath [''Invoice'', ''cac:LegalMonetaryTotal''] (convertToUBL env emptyInvoice)
       = Some (JObj [(''cbc:LineExtensionAmount'', amount ''EUR'' 0),
                     (''cbc:TaxExclusiveAmount'', amount ''EUR'' 0),
                     (''cbc:TaxInclusiveAmount'', amount ''EUR'' 0),
                     (''cbc:PayableAmount'', amount ''EUR'' 0)])"
proof (intro conjI impI)
  show "\<exists>ts. getPath [''Invoice'', ''cac:TaxTotal''] (convertToUBL env x) = Some (JArr ts) \<and> ts \<noteq> []"
    unfolding getPath_taxTotal
    by (cases "buildTaxTotals (safeInvoice env x) (strOrLit (currency x) ''EUR'')") simp_all
next
  assume "(\<forall>l \<in> set (lines x). vatRate l = None \<or> lineTotal l = None) \<and> \<not> truthyNum (vatTotal x)"
  then show "getPath [''Invoice'', ''cac:TaxTotal''] (convertToUBL env x)
          = Some (JArr [JObj [(''cbc:TaxAmount'', amount (strOrLit (currency x) ''EUR'') 0)]])"
    unfolding getPath_taxTotal by (simp add: buildTaxTotals_no_groups)
next
  assume "(\<forall>l \<in> set (lines x). vatRate l = None \<or> lineTotal l = None) \<and> vatTotal x = Some v \<and> v \<noteq> 0"
  then show "getPath [''Invoice'', ''cac:TaxTotal''] (convertToUBL env x)
          = Some (JArr [taxBlock (strOrLit (currency x) ''EUR'') v
                          (numOr (subtotalExclVat x) 0) ''S'' 0])"
    unfolding getPath_taxTotal by (simp add: buildTaxTotals_no_groups truthyNum_def)
qed (simp_all add: convertToUBL_def invoiceElement_empty buildParty_default_supplier
       buildParty_default_customer)

theorem convertToUBL_tax_total_and_defaults_witness:
  "getPath [''Invoice'', ''cac:TaxTotal''] (convertToUBL sampleEnv emptyInvoice)
     = Some (JArr [JObj [(''cbc:TaxAmount'', amount ''EUR'' 0)]])
   \<and> getPath [''Invoice'', ''cac:TaxTotal''] (convertToUBL sampleEnv statedTotalsNoLines)
     = Some (JArr [taxBlock ''EUR'' 21 100 ''S'' 0])
   \<and> getPath [''Invoice'', ''cbc:IssueDate''] (convertToUBL sampleEnv emptyInvoice)
     = Some (JStr ''2026-11-03'')"
proof -
  have e: "(\<forall>l \<in> set (lines emptyInvoice). vatRate l = None \<or> lineTotal l = None)
           \<and> \<not> truthyNum (vatTotal emptyInvoice)"
    by (simp add: emptyInvoice_def truthyNum_def)
  have ce: "strOrLit (currency emptyInvoice) ''EUR'' = ''EUR''"
    by (simp add: emptyInvoice_def strOrLit_def)
  have s: "(\<forall>l \<in> set (lines statedTotalsNoLines). vatRate l = None \<or> lineTotal l = None)
           \<and> vatTotal statedTotalsNoLines = Some 21 \<and> (21::rat) \<noteq> 0"
    by (simp add: statedTotalsNoLines_def emptyInvoice_def)
  have cs: "strOrLit (currency statedTotalsNoLines) ''EUR'' = ''EUR''"
    "numOr (subtotalExclVat statedTotalsNoLines) 0 = 100"
    by (simp_all add: statedTotalsNoLines_def emptyInvoice_def strOrLit_def numOr_def)
  have d: "formatDateForUBL sampleEnv (Some (currentTime sampleEnv)) = ''2026-11-03''"
    by code_simp
  note E = convertToUBL_tax_total_and_defaults[of sampleEnv emptyInvoice 0]
  note S = convertToUBL_tax_total_and_defaults[of sampleEnv statedTotalsNoLines 21]
  from E e ce have 1: "getPath [''Invoice'', ''cac:TaxTotal''] (convertToUBL sampleEnv emptyInvoice)
     = Some (JArr [JObj [(''cbc:TaxAmount'', amount ''EUR'' 0)]])"
    by simp
  from S s cs have 2: "getPath [''Invoice'', ''cac:TaxTotal''] (convertToUBL sampleEnv statedTotalsNoLines)
     = Some (JArr [taxBlock ''EUR'' 21 100 ''S'' 0])"
    by simp
  from E d have 3: "getPath [''Invoice'', ''cbc:IssueDate''] (convertToUBL sampleEnv emptyInvoice)
     = Some (JStr ''2026-11-03'')"
    by simp
  from 1 2 3 show ?thesis by simp
qed

end
